(* ===== verification/Prelude.thy ===== *)
theory Prelude
  imports Complex_Main
begin

text \<open>
  Shared vocabulary of the development of \<open>src/runge.c\<close>: the error values
  that stand for the program's abnormal exits and undefined behaviour, a bind
  on the result type \<open>rk_error + 'a\<close> that threads them through the calls,
  C's truncating conversion from a real value to a 32-bit \<open>int\<close>, and the
  lemma collection \<open>rk_simps\<close> that the component proofs share.
\<close>

named_theorems rk_simps "evaluation rules of the model's operations"

section \<open>Errors\<close>

text \<open>
  \<^item> \<open>ZeroYPrimeCoefficient\<close>: \<open>calculateDerivative\<close> prints an error and calls
    \<open>exit(EXIT_FAILURE)\<close> when the coefficient of \<open>y'\<close> is zero;
  \<^item> \<open>IterationCountUndefined\<close>: the cast \<open>(int)((x_target - x0) / h)\<close> in
    \<open>rungeKutta\<close> is undefined behaviour when the quotient is not finite or its
    integral part is not a 32-bit \<open>int\<close>;
  \<^item> \<open>TermIndexOutOfBounds\<close>: \<open>calculate_gx\<close> reads \<open>gx_coefficients[i]\<close> and
    \<open>gx_powers[i]\<close> for \<open>i < gx_term_count\<close>; a read past the allocated
    buffers is undefined behaviour.
\<close>

datatype rk_error = ZeroYPrimeCoefficient | IterationCountUndefined | TermIndexOutOfBounds

type_synonym 'a result = "rk_error + 'a"

definition ebind :: "'e + 'a \<Rightarrow> ('a \<Rightarrow> 'e + 'b) \<Rightarrow> 'e + 'b" where
  "ebind m f = (case m of Inl e \<Rightarrow> Inl e | Inr a \<Rightarrow> f a)"

lemma ebind_Inl [simp, rk_simps]: "ebind (Inl e) f = Inl e"
  by (simp add: ebind_def)

lemma ebind_Inr [simp, rk_simps]: "ebind (Inr a) f = f a"
  by (simp add: ebind_def)

lemma ebind_eq_Inr: "ebind m f = Inr b \<longleftrightarrow> (\<exists>a. m = Inr a \<and> f a = Inr b)"
  by (cases m) simp_all

lemma ebind_eq_Inl: "ebind m f = Inl e \<longleftrightarrow> m = Inl e \<or> (\<exists>a. m = Inr a \<and> f a = Inl e)"
  by (cases m) simp_all

section \<open>C integers\<close>

text \<open>The range of a 32-bit two's-complement \<open>int\<close>.\<close>

definition int32_min :: int where "int32_min = - (2 ^ 31)"
definition int32_max :: int where "int32_max = 2 ^ 31 - 1"

definition in_int32 :: "int \<Rightarrow> bool" where
  "in_int32 k \<longleftrightarrow> int32_min \<le> k \<and> k \<le> int32_max"

text \<open>
  C converts a floating value to an integer type by discarding the fraction
  (rounding toward zero, C11 6.3.1.4); it is undefined when the integral part
  does not fit the target type.
\<close>

definition trunc_toward_zero :: "real \<Rightarrow> int" where
  "trunc_toward_zero x = (if 0 \<le> x then \<lfloor>x\<rfloor> else \<lceil>x\<rceil>)"

definition real_to_int32 :: "real \<Rightarrow> int option" where
  "real_to_int32 x = (let t = trunc_toward_zero x in if in_int32 t then Some t else None)"

lemma trunc_toward_zero_nonneg: "0 \<le> x \<Longrightarrow> trunc_toward_zero x = \<lfloor>x\<rfloor>"
  by (simp add: trunc_toward_zero_def)

lemma trunc_toward_zero_nonpos: "x \<le> 0 \<Longrightarrow> trunc_toward_zero x \<le> 0"
  by (auto simp: trunc_toward_zero_def)

lemma trunc_toward_zero_abs: "\<bar>trunc_toward_zero x\<bar> = \<lfloor>\<bar>x\<bar>\<rfloor>"
proof (cases "0 \<le> x")
  case True
  then show ?thesis by (simp add: trunc_toward_zero_def)
next
  case False
  then have "\<lceil>x\<rceil> \<le> 0" by linarith
  with False show ?thesis by (simp add: trunc_toward_zero_def ceiling_def)
qed

lemma real_to_int32_Some: "real_to_int32 x = Some n \<longleftrightarrow> n = trunc_toward_zero x \<and> in_int32 n"
  by (auto simp: real_to_int32_def Let_def)

section \<open>Lists\<close>

text \<open>A loop over two parallel arrays reads them as the zipped list.\<close>

lemma drop_zip_Cons:
  "n < length xs \<Longrightarrow> n < length ys \<Longrightarrow>
   drop n (zip xs ys) = (xs ! n, ys ! n) # drop (Suc n) (zip xs ys)"
  by (metis Cons_nth_drop_Suc length_zip min_less_iff_conj nth_zip)

text \<open>A loop \<open>for (i = lo; i < hi; i++)\<close> over \<open>int\<close> bounds runs \<open>nat (hi - lo)\<close> times.\<close>

lemma nat_diff_Suc: "i < (n::int) \<Longrightarrow> nat (n - i) = Suc (nat (n - (i + 1)))"
  by simp

end
