(* ===== verification/Float_Ops.thy ===== *)
theory Float_Ops
  imports Prelude
begin

text \<open>
  The arithmetic of \<open>src/runge.c\<close> is C \<open>float\<close>, with \<open>double\<close>
  intermediates where an operand is a \<open>double\<close> literal or the result of
  \<open>pow\<close>, and libm's \<open>pow\<close> and \<open>fabs\<close>. The model does not fix a
  rounding: every arithmetic operation the code performs is a field of the
  record \<open>'f fops\<close>, at the precision C's usual arithmetic conversions give it
  (C11 6.3.1.8): the \<open>f_\<close> operations are \<open>float\<close> operations, the \<open>d_\<close>
  operations \<open>double\<close> ones, and \<open>to_float\<close> is the conversion of a
  \<open>double\<close> to \<open>float\<close> on assignment or when passed as a \<open>float\<close>
  argument. A value of \<open>'f\<close> stands for a \<open>float\<close> or a \<open>double\<close>; a
  \<open>float\<close> converts to \<open>double\<close> exactly, so that conversion is the
  identity. The control-flow theorems of the development hold for every such
  table; the instance \<open>exact_ops\<close> takes exact real arithmetic, and the
  numerical theorems are stated for it.
\<close>

record 'f fops =
  f_add :: "'f \<Rightarrow> 'f \<Rightarrow> 'f"
  f_sub :: "'f \<Rightarrow> 'f \<Rightarrow> 'f"
  f_mul :: "'f \<Rightarrow> 'f \<Rightarrow> 'f"
  f_div :: "'f \<Rightarrow> 'f \<Rightarrow> 'f"
  f_neg :: "'f \<Rightarrow> 'f"
  f_lt :: "'f \<Rightarrow> 'f \<Rightarrow> bool"
  f_of_int :: "int \<Rightarrow> 'f"
  f_to_int :: "'f \<Rightarrow> int option"
  f_abs :: "'f \<Rightarrow> 'f"
  d_add :: "'f \<Rightarrow> 'f \<Rightarrow> 'f"
  d_mul :: "'f \<Rightarrow> 'f \<Rightarrow> 'f"
  d_div :: "'f \<Rightarrow> 'f \<Rightarrow> 'f"
  d_lit :: "rat \<Rightarrow> 'f"
  d_pow :: "'f \<Rightarrow> int \<Rightarrow> 'f"
  to_float :: "'f \<Rightarrow> 'f"

text \<open>
  \<^item> \<open>f_of_int\<close>: an \<open>int\<close> operand converted to \<open>float\<close>
    (\<open>equation->y_coefficient * y\<close>, \<open>2 * k2\<close>, \<open>float result = 0\<close>);
  \<^item> \<open>f_to_int\<close>: the cast \<open>(int) v\<close>, \<open>None\<close> where C leaves it undefined;
  \<^item> \<open>d_lit\<close>: a \<open>double\<close> literal of the source (\<open>0.5\<close>, \<open>1.0\<close>, \<open>6.0\<close>);
  \<^item> \<open>d_pow t p\<close>: \<open>pow(t, p)\<close>, a \<open>double\<close>, with the \<open>int\<close> power
    converted to \<open>double\<close>.
\<close>

definition exact_ops :: "real fops" where
  "exact_ops =
     \<lparr>f_add = (+), f_sub = (-), f_mul = (*), f_div = (/), f_neg = uminus, f_lt = (<),
      f_of_int = of_int, f_to_int = real_to_int32, f_abs = abs,
      d_add = (+), d_mul = (*), d_div = (/), d_lit = of_rat, d_pow = power_int, to_float = id\<rparr>"

text \<open>
  The exact instance agrees with IEEE arithmetic up to rounding wherever the
  IEEE result is finite. It differs where C produces a non-finite value: HOL
  defines \<open>x / 0 = 0\<close> and \<open>0 powi p = 0\<close> for \<open>p < 0\<close>, where C gives an
  infinity or NaN. Theorems about it that depend on a division carry the
  hypothesis that the divisor is non-zero.
\<close>

lemma exact_ops_simps [simp, rk_simps]:
  "f_add exact_ops = (+)" "f_sub exact_ops = (-)" "f_mul exact_ops = (*)"
  "f_div exact_ops = (/)" "f_neg exact_ops = uminus" "f_lt exact_ops = (<)"
  "f_of_int exact_ops = of_int" "f_to_int exact_ops = real_to_int32" "f_abs exact_ops = abs"
  "d_add exact_ops = (+)" "d_mul exact_ops = (*)" "d_div exact_ops = (/)"
  "d_lit exact_ops = of_rat" "d_pow exact_ops = power_int" "to_float exact_ops = id"
  by (simp_all add: exact_ops_def)

end
