(* ===== verification/Equation_Model.thy ===== *)
theory Equation_Model
  imports Float_Ops
begin

text \<open>
  The equation \<open>a * y' + b * y = g(x)\<close> of \<open>src/runge.c\<close>: the struct
  \<open>EQUATION\<close> (lines 5--12), the evaluation of the forcing term
  \<open>calculate_gx\<close> (lines 147--156) as the C for-loop over the term arrays, and
  \<open>calculateDerivative\<close> (lines 108--115) with its fatal check on the
  coefficient of \<open>y'\<close>. The loop is proved equal to a fold over the terms, safe
  (it never reads past the term arrays) on well-formed equations, and failing
  with \<open>TermIndexOutOfBounds\<close> exactly where the C reads past them.
\<close>

section \<open>The struct EQUATION\<close>

text \<open>
  The two heap buffers \<open>gx_coefficients\<close> and \<open>gx_powers\<close> are lists whose
  length is the number of elements allocated; \<open>gx_term_count\<close> is the count the
  loops run to.
\<close>

record 'f equation =
  y_coefficient :: int
  y_prime_coefficient :: int
  gx_term_count :: int
  gx_coefficients :: "'f list"
  gx_powers :: "int list"

text \<open>
  Well-formed: the count is the length of both buffers, as \<open>main\<close> allocates
  them (lines 46--47) and fills them (lines 56--62).
\<close>

definition wf_equation :: "'f equation \<Rightarrow> bool" where
  "wf_equation eq \<longleftrightarrow>
     gx_term_count eq = int (length (gx_coefficients eq)) \<and>
     length (gx_powers eq) = length (gx_coefficients eq)"

section \<open>calculate_gx\<close>

text \<open>
  \<^verbatim>\<open>for (i = 0; i < equation->gx_term_count; i++)
    result += equation->gx_coefficients[i] * pow(t, equation->gx_powers[i]);\<close>
  One iteration per call; the read of index \<open>i\<close> of either buffer is checked.
\<close>

function gx_loop :: "'f fops \<Rightarrow> 'f equation \<Rightarrow> 'f \<Rightarrow> int \<Rightarrow> 'f \<Rightarrow> 'f result" where
  "gx_loop F eq t i result =
     (if i < gx_term_count eq then
        (if nat i < length (gx_coefficients eq) \<and> nat i < length (gx_powers eq) then
           gx_loop F eq t (i + 1)
             (to_float F (d_add F result
                (d_mul F (gx_coefficients eq ! nat i) (d_pow F t (gx_powers eq ! nat i)))))
         else Inl TermIndexOutOfBounds)
      else Inr result)"
  by pat_completeness auto
termination
  by (relation "measure (\<lambda>(F, eq, t, i, r). nat (gx_term_count eq - i))") auto

declare gx_loop.simps [simp del]

definition calculate_gx :: "'f fops \<Rightarrow> 'f equation \<Rightarrow> 'f \<Rightarrow> 'f result" where
  "calculate_gx F eq t = gx_loop F eq t 0 (f_of_int F 0)"

text \<open>The reference: the terms folded left to right from zero.\<close>

definition gx_term :: "'f fops \<Rightarrow> 'f \<Rightarrow> 'f \<Rightarrow> 'f \<times> int \<Rightarrow> 'f" where
  "gx_term F t r cp = to_float F (d_add F r (d_mul F (fst cp) (d_pow F t (snd cp))))"

definition gx_fold :: "'f fops \<Rightarrow> 'f equation \<Rightarrow> 'f \<Rightarrow> 'f" where
  "gx_fold F eq t = foldl (gx_term F t) (f_of_int F 0) (zip (gx_coefficients eq) (gx_powers eq))"

section \<open>calculateDerivative\<close>

definition calculateDerivative :: "'f fops \<Rightarrow> 'f \<Rightarrow> 'f \<Rightarrow> 'f equation \<Rightarrow> 'f result" where
  "calculateDerivative F x y eq =
     (if y_prime_coefficient eq = 0 then Inl ZeroYPrimeCoefficient
      else ebind (calculate_gx F eq x) (\<lambda>g.
        Inr (f_div F (f_sub F g (f_mul F (f_of_int F (y_coefficient eq)) y))
                     (f_of_int F (y_prime_coefficient eq)))))"

text \<open>
  The abstract equation over the reals: \<open>g(x) = \<Sum> c\<^sub>i * x powi p\<^sub>i\<close> and
  the right-hand side \<open>y' = (g(x) - b * y) / a\<close> of the ODE.
\<close>

definition gx_real :: "real equation \<Rightarrow> real \<Rightarrow> real" where
  "gx_real eq x = (\<Sum>(c, p)\<leftarrow>zip (gx_coefficients eq) (gx_powers eq). c * x powi p)"

definition ode_rhs :: "real equation \<Rightarrow> real \<Rightarrow> real \<Rightarrow> real" where
  "ode_rhs eq x y = (gx_real eq x - of_int (y_coefficient eq) * y) / of_int (y_prime_coefficient eq)"

section \<open>The loop against the fold\<close>

lemma gx_loop_step:
  assumes "i < gx_term_count eq" "nat i < length (gx_coefficients eq)" "nat i < length (gx_powers eq)"
  shows "gx_loop F eq t i r =
           gx_loop F eq t (i + 1) (gx_term F t r (gx_coefficients eq ! nat i, gx_powers eq ! nat i))"
  using assms by (simp add: gx_loop.simps [of F eq t i r] gx_term_def)

lemma gx_loop_done: "\<not> i < gx_term_count eq \<Longrightarrow> gx_loop F eq t i r = Inr r"
  by (simp add: gx_loop.simps [of F eq t i r])

lemma gx_loop_fold:
  assumes "wf_equation eq" "0 \<le> i"
  shows "gx_loop F eq t i r =
           Inr (foldl (gx_term F t) r (drop (nat i) (zip (gx_coefficients eq) (gx_powers eq))))"
  using assms
proof (induction F eq t i r rule: gx_loop.induct)
  case (1 F eq t i r)
  show ?case
  proof (cases "i < gx_term_count eq")
    case True
    with "1.prems" have bounds: "nat i < length (gx_coefficients eq)" "nat i < length (gx_powers eq)"
      by (auto simp: wf_equation_def)
    with True "1.IH" "1.prems" show ?thesis
      by (simp add: gx_loop_step drop_zip_Cons nat_add_distrib gx_term_def)
  next
    case False
    with "1.prems" show ?thesis
      by (simp add: gx_loop_done wf_equation_def)
  qed
qed

lemma gx_loop_out_of_bounds:
  assumes "0 \<le> i" "i \<le> int (min (length (gx_coefficients eq)) (length (gx_powers eq)))"
    and "int (min (length (gx_coefficients eq)) (length (gx_powers eq))) < gx_term_count eq"
  shows "gx_loop F eq t i r = Inl TermIndexOutOfBounds"
  using assms
proof (induction F eq t i r rule: gx_loop.induct)
  case (1 F eq t i r)
  from "1.prems" have run: "i < gx_term_count eq" by linarith
  show ?case
  proof (cases "nat i < length (gx_coefficients eq) \<and> nat i < length (gx_powers eq)")
    case True
    with "1.prems" have "i + 1 \<le> int (min (length (gx_coefficients eq)) (length (gx_powers eq)))"
      by linarith
    with True run "1.IH" "1.prems" show ?thesis
      by (simp add: gx_loop.simps [of F eq t i r])
  next
    case False
    with run show ?thesis
      by (auto simp: gx_loop.simps [of F eq t i r])
  qed
qed

lemma gx_loop_in_bounds:
  assumes "0 \<le> i" "gx_term_count eq \<le> int (min (length (gx_coefficients eq)) (length (gx_powers eq)))"
  shows "\<exists>r'. gx_loop F eq t i r = Inr r'"
  using assms
proof (induction F eq t i r rule: gx_loop.induct)
  case (1 F eq t i r)
  show ?case
  proof (cases "i < gx_term_count eq")
    case True
    with "1.prems" have "nat i < length (gx_coefficients eq) \<and> nat i < length (gx_powers eq)"
      by linarith
    with True "1.IH" "1.prems" show ?thesis
      by (simp add: gx_loop.simps [of F eq t i r])
  next
    case False
    then show ?thesis by (simp add: gx_loop_done)
  qed
qed

lemma foldl_add_sum_list:
  "foldl (\<lambda>r cp. r + f cp) a xs = a + (\<Sum>cp\<leftarrow>xs. f cp)" for a :: real
  by (induction xs arbitrary: a) (simp_all add: algebra_simps)

lemma gx_term_exact: "gx_term exact_ops t = (\<lambda>r cp. r + fst cp * t powi snd cp)"
  by (simp add: fun_eq_iff gx_term_def)

lemma gx_fold_exact: "gx_fold exact_ops eq t = gx_real eq t"
  by (simp add: gx_fold_def gx_real_def gx_term_exact foldl_add_sum_list case_prod_unfold)

lemma calculateDerivative_wf:
  assumes "wf_equation eq" "y_prime_coefficient eq \<noteq> 0"
  shows "calculateDerivative F x y eq =
           Inr (f_div F (f_sub F (gx_fold F eq x) (f_mul F (f_of_int F (y_coefficient eq)) y))
                        (f_of_int F (y_prime_coefficient eq)))"
  using assms gx_loop_fold [OF assms(1), of 0 F x "f_of_int F 0"]
  by (simp add: calculateDerivative_def calculate_gx_def gx_fold_def)

lemma calculateDerivative_exact:
  assumes "wf_equation eq" "y_prime_coefficient eq \<noteq> 0"
  shows "calculateDerivative exact_ops x y eq = Inr (ode_rhs eq x y)"
  using calculateDerivative_wf [OF assms, of exact_ops x y]
  by (simp add: gx_fold_exact ode_rhs_def)

section \<open>Properties\<close>

text \<open>
  C9 (equivalence). On a well-formed equation the C loop of \<open>calculate_gx\<close>
  returns the left fold of the terms \<open>c\<^sub>i * pow(t, p\<^sub>i)\<close> from zero, in the
  order of the arrays, for any floating-point semantics.
\<close>

theorem calculate_gx_eq_fold:
  assumes "wf_equation eq"
  shows "calculate_gx F eq t = Inr (gx_fold F eq t)"
  using gx_loop_fold [OF assms, of 0] by (simp add: calculate_gx_def gx_fold_def)

theorem calculate_gx_eq_fold_witness:
  "wf_equation \<lparr>y_coefficient = 1, y_prime_coefficient = 1, gx_term_count = 2,
                 gx_coefficients = [3, 2 :: real], gx_powers = [2, -1]\<rparr> \<and>
   calculate_gx exact_ops \<lparr>y_coefficient = 1, y_prime_coefficient = 1, gx_term_count = 2,
                 gx_coefficients = [3, 2 :: real], gx_powers = [2, -1]\<rparr> 2 = Inr 13"
proof -
  have wf: "wf_equation \<lparr>y_coefficient = 1, y_prime_coefficient = 1, gx_term_count = 2,
                 gx_coefficients = [3, 2 :: real], gx_powers = [2, -1]\<rparr>"
    by (simp add: wf_equation_def)
  show ?thesis
    using calculate_gx_eq_fold [OF wf, of exact_ops 2] wf
    by (simp add: gx_fold_def gx_term_def power_int_minus)
qed

text \<open>
  C11 (error). \<open>calculate_gx\<close> reads past one of its term arrays, an
  out-of-bounds read the model reports as \<open>TermIndexOutOfBounds\<close>, exactly when
  \<open>gx_term_count\<close> exceeds the length of one of the arrays; otherwise it
  returns a value.
\<close>

theorem calculate_gx_out_of_bounds_iff:
  "calculate_gx F eq t = Inl TermIndexOutOfBounds \<longleftrightarrow>
     int (length (gx_coefficients eq)) < gx_term_count eq \<or>
     int (length (gx_powers eq)) < gx_term_count eq"
proof (cases "int (min (length (gx_coefficients eq)) (length (gx_powers eq))) < gx_term_count eq")
  case True
  then show ?thesis
    using gx_loop_out_of_bounds [of 0 eq F t "f_of_int F 0"]
    by (auto simp: calculate_gx_def min_def split: if_splits)
next
  case False
  then obtain r where "gx_loop F eq t 0 (f_of_int F 0) = Inr r"
    using gx_loop_in_bounds [of 0 eq F t "f_of_int F 0"] by auto
  with False show ?thesis
    by (auto simp: calculate_gx_def min_def split: if_splits)
qed

text \<open>
  C10 (functional). In exact arithmetic, on a well-formed equation whose
  coefficient \<open>a\<close> of \<open>y'\<close> is non-zero, \<open>calculateDerivative\<close> succeeds and
  returns the one value \<open>d\<close> with \<open>a * d + b * y = g(x)\<close>: the slope the
  equation prescribes at \<open>(x, y)\<close>.
\<close>

theorem calculateDerivative_solves_equation:
  assumes "wf_equation eq" "y_prime_coefficient eq \<noteq> 0"
  shows "calculateDerivative exact_ops x y eq = Inr d \<longleftrightarrow>
           of_int (y_prime_coefficient eq) * d + of_int (y_coefficient eq) * y = gx_real eq x"
proof -
  from assms(2) calculateDerivative_exact [OF assms, of x y] show ?thesis
    by (auto simp: ode_rhs_def field_simps)
qed

theorem calculateDerivative_solves_equation_witness:
  "wf_equation \<lparr>y_coefficient = 2, y_prime_coefficient = 4, gx_term_count = 1,
                 gx_coefficients = [6 :: real], gx_powers = [1]\<rparr> \<and>
   calculateDerivative exact_ops 1 1 \<lparr>y_coefficient = 2, y_prime_coefficient = 4, gx_term_count = 1,
                 gx_coefficients = [6 :: real], gx_powers = [1]\<rparr> = Inr 1"
proof -
  let ?eq = "\<lparr>y_coefficient = 2, y_prime_coefficient = 4, gx_term_count = 1,
                 gx_coefficients = [6 :: real], gx_powers = [1]\<rparr>"
  have wf: "wf_equation ?eq" by (simp add: wf_equation_def)
  have "of_int (y_prime_coefficient ?eq) * 1 + of_int (y_coefficient ?eq) * 1 = gx_real ?eq 1"
    by (simp add: gx_real_def)
  with calculateDerivative_solves_equation [OF wf, of 1 1 1] wf show ?thesis
    by simp
qed

end
