(* ===== verification/RK4_Integrator.thy ===== *)
theory RK4_Integrator
  imports Equation_Model
begin

text \<open>
  \<open>rungeKutta\<close> of \<open>src/runge.c\<close> (lines 117--145): the sign of the step is
  taken from the direction of the target, the iteration count is the C
  truncation \<open>(int)((x_target - x0) / h)\<close>, and the loop performs that many
  classical RK4 steps, printing the pre-step point \<open>(current_x, y)\<close> before each.
  The printed lines are the trace, the first component of the result; the second
  is the returned \<open>y\<close> or the error that ended the run. The theorems of this
  theory hold for every floating-point semantics \<open>F\<close>.
\<close>

section \<open>One RK4 step\<close>

text \<open>
  Lines 135--141, over a slope function \<open>d\<close> that may fail; the integrator
  passes \<open>calculateDerivative\<close>. The four slopes are evaluated in the order of
  the source, and the first failure ends the step. The precisions are C's:
  \<open>0.5 * h\<close>, \<open>current_x + 0.5 * h\<close>, \<open>y + 0.5 * k1\<close> and the update of
  \<open>y\<close> with \<open>1.0 / 6.0\<close> are \<open>double\<close> expressions, converted to
  \<open>float\<close> when passed to \<open>calculateDerivative\<close> or assigned to \<open>y\<close>;
  the slopes, \<open>2 * k2\<close>, their sum and \<open>current_x + h\<close>, \<open>y + k3\<close> are
  \<open>float\<close> expressions.
\<close>

definition rk4_scheme ::
  "'f fops \<Rightarrow> ('f \<Rightarrow> 'f \<Rightarrow> 'f result) \<Rightarrow> 'f \<Rightarrow> 'f \<Rightarrow> 'f \<Rightarrow> ('f \<times> 'f) result" where
  "rk4_scheme F d h current_x y =
     ebind (d current_x y) (\<lambda>d1. let k1 = f_mul F h d1 in
     ebind (d (to_float F (d_add F current_x (d_mul F (d_lit F (1/2)) h)))
              (to_float F (d_add F y (d_mul F (d_lit F (1/2)) k1))))
       (\<lambda>d2. let k2 = f_mul F h d2 in
     ebind (d (to_float F (d_add F current_x (d_mul F (d_lit F (1/2)) h)))
              (to_float F (d_add F y (d_mul F (d_lit F (1/2)) k2))))
       (\<lambda>d3. let k3 = f_mul F h d3 in
     ebind (d (f_add F current_x h) (f_add F y k3))
       (\<lambda>d4. let k4 = f_mul F h d4 in
     Inr (f_add F current_x h,
          to_float F (d_add F y (d_mul F (d_div F (d_lit F 1) (d_lit F 6))
                       (f_add F (f_add F (f_add F k1 (f_mul F (f_of_int F 2) k2))
                                          (f_mul F (f_of_int F 2) k3)) k4))))))))"

definition rk4_step :: "'f fops \<Rightarrow> 'f equation \<Rightarrow> 'f \<Rightarrow> 'f \<Rightarrow> 'f \<Rightarrow> ('f \<times> 'f) result" where
  "rk4_step F eq h current_x y = rk4_scheme F (\<lambda>x y. calculateDerivative F x y eq) h current_x y"

section \<open>The loop\<close>

text \<open>
  \<^verbatim>\<open>for (i = 0; i < n; i++) { printf("f(%lf)=%lf\n", current_x, y); ... }\<close>
  The snapshot is printed before the step, so a step that exits leaves its
  snapshot as the last line of the trace.
\<close>

function rk_loop ::
  "'f fops \<Rightarrow> 'f equation \<Rightarrow> 'f \<Rightarrow> int \<Rightarrow> int \<Rightarrow> 'f \<Rightarrow> 'f \<Rightarrow> ('f \<times> 'f) list \<times> 'f result" where
  "rk_loop F eq h i n current_x y =
     (if i < n then
        (case rk4_step F eq h current_x y of
           Inl e \<Rightarrow> ([(current_x, y)], Inl e)
         | Inr (x', y') \<Rightarrow>
             (let (tr, r) = rk_loop F eq h (i + 1) n x' y' in ((current_x, y) # tr, r)))
      else ([], Inr y))"
  by pat_completeness auto
termination
  by (relation "measure (\<lambda>(F, eq, h, i, n, x, y). nat (n - i))") auto

declare rk_loop.simps [simp del]

section \<open>rungeKutta\<close>

text \<open>Lines 124--127: the step takes the sign of the direction to the target.\<close>

definition step_size :: "'f fops \<Rightarrow> 'f \<Rightarrow> 'f \<Rightarrow> 'f \<Rightarrow> 'f" where
  "step_size F x0 x_target h = (if f_lt F x_target x0 then f_neg F h else h)"

text \<open>Line 129: \<open>int n = (int)((x_target - x0) / h);\<close> with the signed step.\<close>

definition iteration_count :: "'f fops \<Rightarrow> 'f \<Rightarrow> 'f \<Rightarrow> 'f \<Rightarrow> int option" where
  "iteration_count F x0 x_target h =
     f_to_int F (f_div F (f_sub F x_target x0) (step_size F x0 x_target h))"

definition rungeKutta ::
  "'f fops \<Rightarrow> 'f \<Rightarrow> 'f \<Rightarrow> 'f \<Rightarrow> 'f \<Rightarrow> 'f equation \<Rightarrow> ('f \<times> 'f) list \<times> 'f result" where
  "rungeKutta F x0 y0 x_target h eq =
     (case iteration_count F x0 x_target h of
        None \<Rightarrow> ([], Inl IterationCountUndefined)
      | Some n \<Rightarrow> rk_loop F eq (step_size F x0 x_target h) 0 n x0 y0)"

text \<open>
  The pure update a step performs when it succeeds: the point and value after
  one RK4 step from \<open>xy\<close>.
\<close>

abbreviation rk4_update :: "'f fops \<Rightarrow> 'f equation \<Rightarrow> 'f \<Rightarrow> 'f \<times> 'f \<Rightarrow> 'f \<times> 'f" where
  "rk4_update F eq h xy \<equiv> projr (rk4_step F eq h (fst xy) (snd xy))"

section \<open>The loop as an iteration\<close>

lemma rk_loop_stop: "\<not> i < n \<Longrightarrow> rk_loop F eq h i n x y = ([], Inr y)"
  by (simp add: rk_loop.simps [of F eq h i n x y])

lemma rk_loop_fail:
  "i < n \<Longrightarrow> rk4_step F eq h x y = Inl e \<Longrightarrow> rk_loop F eq h i n x y = ([(x, y)], Inl e)"
  by (simp add: rk_loop.simps [of F eq h i n x y])

lemma map_funpow_upt_Suc:
  "map (\<lambda>k. (f ^^ k) a) [0..<Suc m] = a # map (\<lambda>k. (f ^^ k) (f a)) [0..<m]"
  by (induction m) (simp_all add: funpow_swap1)

text \<open>
  When every step succeeds with the pure update \<open>s\<close>, the loop from \<open>i\<close> to
  \<open>n\<close> prints the first \<open>nat (n - i)\<close> iterates of \<open>s\<close> and returns the \<open>y\<close> of
  the next one.
\<close>

lemma rk_loop_iterate_aux:
  assumes step: "\<And>x y. rk4_step F eq h x y = Inr (s (x, y))"
  shows "nat (n - i) = m \<Longrightarrow>
           rk_loop F eq h i n x y = (map (\<lambda>k. (s ^^ k) (x, y)) [0..<m], Inr (snd ((s ^^ m) (x, y))))"
proof (induction m arbitrary: i x y)
  case 0
  then show ?case by (simp add: rk_loop_stop)
next
  case (Suc m)
  then have run: "i < n" and m: "nat (n - (i + 1)) = m" by simp_all
  obtain x' y' where s: "s (x, y) = (x', y')" by (cases "s (x, y)")
  have last: "(s ^^ Suc m) (x, y) = (s ^^ m) (x', y')"
    by (simp add: funpow_Suc_right s del: funpow.simps)
  have trace: "map (\<lambda>k. (s ^^ k) (x, y)) [0..<Suc m] = (x, y) # map (\<lambda>k. (s ^^ k) (x', y')) [0..<m]"
    by (simp only: map_funpow_upt_Suc s)
  from Suc.IH [OF m, of x' y'] run s step show ?case
    by (simp only: rk_loop.simps [of F eq h i n x y] last trace) simp
qed

lemma rk_loop_iterate:
  assumes "\<And>x y. rk4_step F eq h x y = Inr (s (x, y))"
  shows "rk_loop F eq h i n x y =
           (map (\<lambda>k. (s ^^ k) (x, y)) [0..<nat (n - i)], Inr (snd ((s ^^ nat (n - i)) (x, y))))"
  using rk_loop_iterate_aux [OF assms] by blast

lemma rk4_scheme_Inr:
  assumes "\<And>x y. \<exists>v. d x y = Inr v"
  shows "\<exists>xy. rk4_scheme F d h x y = Inr xy"
proof -
  from assms obtain dv where "\<And>x y. d x y = Inr (dv x y)" by metis
  then show ?thesis by (simp add: rk4_scheme_def Let_def)
qed

lemma rk4_step_Inr:
  assumes "wf_equation eq" "y_prime_coefficient eq \<noteq> 0"
  shows "rk4_step F eq h x y = Inr (projr (rk4_step F eq h x y))"
proof -
  have "\<exists>xy. rk4_step F eq h x y = Inr xy"
    unfolding rk4_step_def
    by (rule rk4_scheme_Inr) (simp add: calculateDerivative_wf [OF assms])
  then show ?thesis by auto
qed

text \<open>
  On a well-formed equation with \<open>a \<noteq> 0\<close> every step succeeds, and a run of
  \<open>rungeKutta\<close> with count \<open>n\<close> is \<open>n\<close> iterations of \<open>rk4_update\<close> from
  \<open>(x0, y0)\<close>.
\<close>

lemma rungeKutta_iterate:
  assumes "wf_equation eq" "y_prime_coefficient eq \<noteq> 0"
    and "iteration_count F x0 x_target h = Some n"
  shows "rungeKutta F x0 y0 x_target h eq =
           (let s = rk4_update F eq (step_size F x0 x_target h)
            in (map (\<lambda>k. (s ^^ k) (x0, y0)) [0..<nat n], Inr (snd ((s ^^ nat n) (x0, y0)))))"
  using assms rk_loop_iterate [where s = "rk4_update F eq (step_size F x0 x_target h)", of F eq]
    rk4_step_Inr [OF assms(1,2)]
  by (simp add: rungeKutta_def Let_def)

lemma rk4_step_fst: "rk4_step F eq h x y = Inr (x', y') \<Longrightarrow> x' = f_add F x h"
  by (auto simp: rk4_step_def rk4_scheme_def Let_def ebind_eq_Inr)

lemma rk4_iterate_x:
  assumes "wf_equation eq" "y_prime_coefficient eq \<noteq> 0"
  shows "fst ((rk4_update F eq h ^^ k) xy) = ((\<lambda>x. f_add F x h) ^^ k) (fst xy)"
proof (induction k)
  case (Suc k)
  have step: "fst (rk4_update F eq h xy') = f_add F (fst xy') h" for xy'
    using rk4_step_Inr [OF assms, of F h "fst xy'" "snd xy'"]
    by (cases "projr (rk4_step F eq h (fst xy') (snd xy'))") (auto dest: rk4_step_fst)
  have "fst ((rk4_update F eq h ^^ Suc k) xy) = f_add F (fst ((rk4_update F eq h ^^ k) xy)) h"
    unfolding funpow.simps comp_apply by (rule step)
  then show ?case by (simp add: Suc.IH)
qed simp

lemma rk4_step_zero_coefficient:
  "y_prime_coefficient eq = 0 \<Longrightarrow> rk4_step F eq h x y = Inl ZeroYPrimeCoefficient"
  by (simp add: rk4_step_def rk4_scheme_def calculateDerivative_def)

section \<open>Properties\<close>

text \<open>
  C2 (functional). For any floating-point semantics, on a well-formed equation
  with a non-zero coefficient of \<open>y'\<close> and a defined iteration count \<open>n\<close>,
  \<open>rungeKutta\<close> returns a value, prints exactly \<open>max 0 n\<close> trace lines (one
  per iteration, the final point not among them), and the first of them is the
  initial point \<open>(x0, y0)\<close>.
\<close>

theorem rungeKutta_trace_length:
  assumes "wf_equation eq" "y_prime_coefficient eq \<noteq> 0"
    and "iteration_count F x0 x_target h = Some n"
  shows "\<exists>tr y. rungeKutta F x0 y0 x_target h eq = (tr, Inr y) \<and>
                length tr = nat n \<and> (0 < n \<longrightarrow> hd tr = (x0, y0))"
proof -
  have "0 < n \<Longrightarrow> [0..<nat n] = 0 # [1..<nat n]" by (simp add: upt_rec)
  then show ?thesis
    using rungeKutta_iterate [OF assms, of y0] by (auto simp: Let_def)
qed

theorem rungeKutta_trace_length_witness:
  "wf_equation \<lparr>y_coefficient = 1, y_prime_coefficient = 1, gx_term_count = 0,
                 gx_coefficients = [] :: real list, gx_powers = []\<rparr> \<and>
   iteration_count exact_ops 0 1 (1/4) = Some 4 \<and>
   (\<exists>tr y. rungeKutta exact_ops 0 1 1 (1/4) \<lparr>y_coefficient = 1, y_prime_coefficient = 1,
              gx_term_count = 0, gx_coefficients = [], gx_powers = []\<rparr> = (tr, Inr y) \<and>
            length tr = 4 \<and> hd tr = (0, 1))"
proof -
  have wf: "wf_equation \<lparr>y_coefficient = 1, y_prime_coefficient = 1, gx_term_count = 0,
                 gx_coefficients = [] :: real list, gx_powers = []\<rparr>"
    by (simp add: wf_equation_def)
  have n: "iteration_count exact_ops 0 1 (1/4 :: real) = Some 4"
    by (simp add: iteration_count_def step_size_def real_to_int32_def trunc_toward_zero_def
                  in_int32_def int32_min_def int32_max_def)
  show ?thesis
    using rungeKutta_trace_length [OF wf _ n, of 1] wf n by simp
qed

text \<open>
  C5 (functional). When the iteration count is zero or negative (the target is
  the start, or the step points away from the target), \<open>rungeKutta\<close> prints no
  trace line and returns \<open>y0\<close> unchanged; it does so for every equation,
  including one whose coefficient of \<open>y'\<close> is zero.
\<close>

theorem rungeKutta_no_iterations:
  assumes "iteration_count F x0 x_target h = Some n" "n \<le> 0"
  shows "rungeKutta F x0 y0 x_target h eq = ([], Inr y0)"
  using assms by (simp add: rungeKutta_def rk_loop_stop)

theorem rungeKutta_no_iterations_witness:
  "iteration_count exact_ops 2 2 (1/10) = Some 0 \<and>
   rungeKutta exact_ops 2 5 2 (1/10) \<lparr>y_coefficient = 1, y_prime_coefficient = 0,
      gx_term_count = 0, gx_coefficients = [] :: real list, gx_powers = []\<rparr> = ([], Inr 5)"
proof -
  have n: "iteration_count exact_ops 2 2 (1/10 :: real) = Some 0"
    by (simp add: iteration_count_def step_size_def real_to_int32_def trunc_toward_zero_def
                  in_int32_def int32_min_def int32_max_def)
  show ?thesis using rungeKutta_no_iterations [OF n, of 5] n by simp
qed

text \<open>
  C4 (error). When the coefficient of \<open>y'\<close> is zero and at least one
  iteration is due, the first derivative evaluation exits with
  \<open>ZeroYPrimeCoefficient\<close>, after the first trace line \<open>(x0, y0)\<close> has been
  printed; the check is made inside the loop, not before it.
\<close>

theorem rungeKutta_zero_coefficient:
  assumes "y_prime_coefficient eq = 0"
    and "iteration_count F x0 x_target h = Some n" "0 < n"
  shows "rungeKutta F x0 y0 x_target h eq = ([(x0, y0)], Inl ZeroYPrimeCoefficient)"
  using assms by (simp add: rungeKutta_def rk_loop_fail rk4_step_zero_coefficient)

theorem rungeKutta_zero_coefficient_witness:
  "iteration_count exact_ops 0 1 (1/2) = Some 2 \<and>
   rungeKutta exact_ops 0 3 1 (1/2) \<lparr>y_coefficient = 1, y_prime_coefficient = 0,
      gx_term_count = 0, gx_coefficients = [] :: real list, gx_powers = []\<rparr> =
     ([(0, 3)], Inl ZeroYPrimeCoefficient)"
proof -
  have n: "iteration_count exact_ops 0 1 (1/2 :: real) = Some 2"
    by (simp add: iteration_count_def step_size_def real_to_int32_def trunc_toward_zero_def
                  in_int32_def int32_min_def int32_max_def)
  show ?thesis
    using rungeKutta_zero_coefficient [OF _ n, of "\<lparr>y_coefficient = 1, y_prime_coefficient = 0,
      gx_term_count = 0, gx_coefficients = [] :: real list, gx_powers = []\<rparr>" 3] n
    by simp
qed

end
