(* ===== verification/RK4_Exact.thy ===== *)
theory RK4_Exact
  imports RK4_Integrator
begin

text \<open>
  \<open>rungeKutta\<close> in exact real arithmetic (the instance \<open>exact_ops\<close>). The
  abstract specification is the textbook classical RK4 map \<open>rk4_textbook\<close> for
  a slope function \<open>f\<close>; the C step refines it with \<open>f = ode_rhs eq\<close>, so a
  run is the iterate of the textbook map from \<open>(x0, y0)\<close>. From that: the
  number of iterations, where the visited points lie, the amplification factor
  of a step on the homogeneous equation \<open>a y' + b y = 0\<close>, and exactness of the
  method when \<open>b = 0\<close> and \<open>g\<close> is a polynomial of degree at most three
  (Simpson's rule).
\<close>

section \<open>The abstract method\<close>

definition rk4_textbook :: "(real \<Rightarrow> real \<Rightarrow> real) \<Rightarrow> real \<Rightarrow> real \<times> real \<Rightarrow> real \<times> real" where
  "rk4_textbook f h xy =
     (let x = fst xy; y = snd xy;
          k1 = h * f x y;
          k2 = h * f (x + h / 2) (y + k1 / 2);
          k3 = h * f (x + h / 2) (y + k2 / 2);
          k4 = h * f (x + h) (y + k3)
      in (x + h, y + (k1 + 2 * k2 + 2 * k3 + k4) / 6))"

definition rk4_growth :: "real \<Rightarrow> real" where
  "rk4_growth z = 1 + z + z^2 / 2 + z^3 / 6 + z^4 / 24"

definition antiderivative :: "real equation \<Rightarrow> real \<Rightarrow> real" where
  "antiderivative eq x =
     (\<Sum>(c, p)\<leftarrow>zip (gx_coefficients eq) (gx_powers eq). c * x ^ Suc (nat p) / of_nat (Suc (nat p)))"

section \<open>The C step refines the textbook step\<close>

lemma rk4_scheme_exact:
  "rk4_scheme exact_ops (\<lambda>x y. Inr (f x y)) h x y = Inr (rk4_textbook f h (x, y))"
  by (simp add: rk4_scheme_def rk4_textbook_def Let_def of_rat_divide mult.commute)

section \<open>The iteration count\<close>

lemma iteration_count_exact:
  assumes "iteration_count exact_ops x0 xt h = Some n"
  shows "nat n = (if 0 < h then nat \<lfloor>\<bar>xt - x0\<bar> / h\<rfloor> else 0)"
proof -
  let ?s = "step_size exact_ops x0 xt h"
  have n: "n = trunc_toward_zero ((xt - x0) / ?s)"
    using assms by (simp add: iteration_count_def real_to_int32_Some)
  show ?thesis
  proof (cases "0 < h")
    case True
    have q: "(xt - x0) / ?s = \<bar>xt - x0\<bar> / h"
    proof (cases "xt < x0")
      case True
      then have "\<bar>xt - x0\<bar> = - (xt - x0)" by simp
      with True show ?thesis by (simp add: step_size_def minus_divide_left)
    next
      case False
      then show ?thesis by (simp add: step_size_def)
    qed
    from True have "0 \<le> \<bar>xt - x0\<bar> / h" by simp
    with n q True show ?thesis by (simp add: trunc_toward_zero_nonneg)
  next
    case False
    then have "(xt - x0) / ?s \<le> 0"
      by (auto simp: step_size_def divide_nonneg_nonpos divide_nonpos_pos divide_nonpos_nonneg divide_nonpos_nonpos)
    then have "n \<le> 0" using n trunc_toward_zero_nonpos by simp
    with False show ?thesis by simp
  qed
qed

lemma rk4_step_exact:
  assumes "wf_equation eq" "y_prime_coefficient eq \<noteq> 0"
  shows "rk4_step exact_ops eq h x y = Inr (rk4_textbook (ode_rhs eq) h (x, y))"
proof -
  have "(\<lambda>x y. calculateDerivative exact_ops x y eq) = (\<lambda>x y. Inr (ode_rhs eq x y))"
    using calculateDerivative_exact [OF assms] by (simp add: fun_eq_iff)
  then show ?thesis by (simp add: rk4_step_def rk4_scheme_exact)
qed

section \<open>Iterates of the textbook map\<close>

lemma rk4_textbook_linear:
  "rk4_textbook (\<lambda>x y. c * y) h (x, y) = (x + h, y * rk4_growth (h * c))"
  by (simp add: rk4_textbook_def rk4_growth_def Let_def field_simps power2_eq_square power3_eq_cube power4_eq_xxxx)

lemma rk4_textbook_fst: "fst (rk4_textbook f h xy) = fst xy + h"
  by (simp add: rk4_textbook_def Let_def)

lemma rk4_iterate_fst: "fst ((rk4_textbook f h ^^ k) xy) = fst xy + of_nat k * h"
  by (induction k) (simp_all add: rk4_textbook_fst algebra_simps)

lemma rk4_update_exact:
  assumes "wf_equation eq" "y_prime_coefficient eq \<noteq> 0"
  shows "rk4_update exact_ops eq h = rk4_textbook (ode_rhs eq) h"
  using rk4_step_exact [OF assms] by (simp add: fun_eq_iff)

lemma rk4_iterate_linear:
  "(rk4_textbook (\<lambda>x y. c * y) h ^^ k) (x, y) = (x + of_nat k * h, y * rk4_growth (h * c) ^ k)"
proof (induction k)
  case 0
  then show ?case by simp
next
  case (Suc k)
  have "(rk4_textbook (\<lambda>x y. c * y) h ^^ Suc k) (x, y) =
          rk4_textbook (\<lambda>x y. c * y) h (x + of_nat k * h, y * rk4_growth (h * c) ^ k)"
    by (simp only: funpow.simps comp_apply Suc.IH)
  also have "\<dots> = (x + of_nat (Suc k) * h, y * rk4_growth (h * c) ^ Suc k)"
    by (simp only: rk4_textbook_linear) (simp add: algebra_simps)
  finally show ?case .
qed

lemma ode_rhs_no_terms:
  "gx_coefficients eq = [] \<Longrightarrow>
   ode_rhs eq = (\<lambda>x y. (- of_int (y_coefficient eq) / of_int (y_prime_coefficient eq)) * y)"
  by (simp add: fun_eq_iff ode_rhs_def gx_real_def)

section \<open>Simpson's rule\<close>

lemma simpson_monomial:
  fixes x h :: real
  assumes "p \<le> 3"
  shows "h * (x ^ p + 4 * (x + h / 2) ^ p + (x + h) ^ p) / 6 = ((x + h) ^ Suc p - x ^ Suc p) / of_nat (Suc p)"
proof -
  from assms have "p = 0 \<or> p = 1 \<or> p = 2 \<or> p = 3" by auto
  then show ?thesis
    by (elim disjE) (simp_all add: field_simps power2_eq_square power3_eq_cube power4_eq_xxxx)
qed

lemma simpson_step_combine:
  fixes c h a b d e f s A B C P1 P0 :: real
  assumes "h * (a + 4 * b + d) / 6 = (e - f) / s" "h * (A + 4 * B + C) / 6 = P1 - P0"
  shows "h * ((c * a + A) + 4 * (c * b + B) + (c * d + C)) / 6 = (c * e / s + P1) - (c * f / s + P0)"
proof -
  have "h * ((c * a + A) + 4 * (c * b + B) + (c * d + C)) / 6 =
          c * (h * (a + 4 * b + d) / 6) + h * (A + 4 * B + C) / 6"
    by (simp add: algebra_simps add_divide_distrib)
  also have "\<dots> = c * ((e - f) / s) + (P1 - P0)"
    by (simp only: assms)
  also have "\<dots> = (c * e / s + P1) - (c * f / s + P0)"
    by (simp add: algebra_simps diff_divide_distrib)
  finally show ?thesis .
qed

lemma simpson_terms:
  fixes x h :: real
  assumes "\<forall>cp\<in>set ts. 0 \<le> snd cp \<and> snd cp \<le> 3"
  shows "h * ((\<Sum>(c, p)\<leftarrow>ts. c * x powi p) + 4 * (\<Sum>(c, p)\<leftarrow>ts. c * (x + h / 2) powi p)
              + (\<Sum>(c, p)\<leftarrow>ts. c * (x + h) powi p)) / 6 =
         (\<Sum>(c, p)\<leftarrow>ts. c * (x + h) ^ Suc (nat p) / of_nat (Suc (nat p)))
         - (\<Sum>(c, p)\<leftarrow>ts. c * x ^ Suc (nat p) / of_nat (Suc (nat p)))"
  using assms
proof (induction ts)
  case Nil
  then show ?case by simp
next
  case (Cons t ts)
  obtain c p where t: "t = (c, p)" by (cases t)
  with Cons.prems obtain q where p: "p = int q" and q: "q \<le> 3"
    by (metis list.set_intros(1) nonneg_int_cases snd_conv nat_int_comparison(3) of_nat_numeral)
  have mono: "h * (x ^ q + 4 * (x + h / 2) ^ q + (x + h) ^ q) / 6 =
                ((x + h) ^ Suc q - x ^ Suc q) / of_nat (Suc q)"
    using q by (rule simpson_monomial)
  from Cons.prems have "\<forall>cp\<in>set ts. 0 \<le> snd cp \<and> snd cp \<le> 3" by simp
  note IH = Cons.IH [OF this]
  show ?case
    using simpson_step_combine [OF mono IH, of c] unfolding t p by simp
qed

lemma rk4_textbook_quadrature:
  "rk4_textbook (\<lambda>x y. q x) h (x, y) = (x + h, y + h * (q x + 4 * q (x + h / 2) + q (x + h)) / 6)"
  by (simp add: rk4_textbook_def Let_def field_simps)

lemma rk4_iterate_quadrature:
  assumes step: "\<And>x. h * (q x + 4 * q (x + h / 2) + q (x + h)) / 6 = P (x + h) - P x"
  shows "(rk4_textbook (\<lambda>x y. q x) h ^^ k) (x, y) = (x + of_nat k * h, y + (P (x + of_nat k * h) - P x))"
proof (induction k)
  case 0
  then show ?case by simp
next
  case (Suc k)
  have "(rk4_textbook (\<lambda>x y. q x) h ^^ Suc k) (x, y) =
          rk4_textbook (\<lambda>x y. q x) h (x + of_nat k * h, y + (P (x + of_nat k * h) - P x))"
    by (simp only: funpow.simps comp_apply Suc.IH)
  also have "\<dots> = (x + of_nat (Suc k) * h, y + (P (x + of_nat (Suc k) * h) - P x))"
    by (simp only: rk4_textbook_quadrature step) (simp add: algebra_simps)
  finally show ?case .
qed

lemma ode_rhs_no_y_term:
  "y_coefficient eq = 0 \<Longrightarrow> ode_rhs eq = (\<lambda>x y. gx_real eq x / of_int (y_prime_coefficient eq))"
  by (simp add: fun_eq_iff ode_rhs_def)

lemma simpson_gx_real:
  assumes "\<forall>p\<in>set (gx_powers eq). 0 \<le> p \<and> p \<le> 3"
  shows "h * (gx_real eq x / a + 4 * (gx_real eq (x + h / 2) / a) + gx_real eq (x + h) / a) / 6 =
           antiderivative eq (x + h) / a - antiderivative eq x / a"
proof -
  from assms have "\<forall>cp\<in>set (zip (gx_coefficients eq) (gx_powers eq)). 0 \<le> snd cp \<and> snd cp \<le> 3"
    by (auto dest: set_zip_rightD)
  from simpson_terms [OF this, of h x] have
    "h * (gx_real eq x + 4 * gx_real eq (x + h / 2) + gx_real eq (x + h)) / 6 =
       antiderivative eq (x + h) - antiderivative eq x"
    by (simp add: gx_real_def antiderivative_def)
  moreover have "h * (gx_real eq x / a + 4 * (gx_real eq (x + h / 2) / a) + gx_real eq (x + h) / a) / 6 =
      h * (gx_real eq x + 4 * gx_real eq (x + h / 2) + gx_real eq (x + h)) / 6 / a"
    by (cases "a = 0") (simp_all add: field_simps)
  ultimately show ?thesis by (simp add: diff_divide_distrib)
qed

lemma step_multiple_between:
  assumes "iteration_count exact_ops x0 x_target h = Some n" "k \<le> nat n"
  shows "min x0 x_target \<le> x0 + of_nat k * step_size exact_ops x0 x_target h \<and>
         x0 + of_nat k * step_size exact_ops x0 x_target h \<le> max x0 x_target"
proof (cases "k = 0")
  case True
  then show ?thesis by simp
next
  case False
  with assms(2) have "0 < nat n" by simp
  with iteration_count_exact [OF assms(1)]
  have h: "0 < h" and m: "nat n = nat \<lfloor>\<bar>x_target - x0\<bar> / h\<rfloor>"
    by (simp_all split: if_splits)
  have "real (nat n) \<le> \<bar>x_target - x0\<bar> / h"
    using m h by (simp add: of_nat_nat)
  with assms(2) have "real k \<le> \<bar>x_target - x0\<bar> / h" by linarith
  with h have "real k * h \<le> \<bar>x_target - x0\<bar>" by (simp add: le_divide_eq)
  with h show ?thesis
    by (cases "x_target < x0") (auto simp: step_size_def)
qed

lemma count_positive_direction:
  assumes "iteration_count exact_ops x0 x_target h = Some n" "0 < n"
  shows "sgn (step_size exact_ops x0 x_target h) = sgn (x_target - x0)"
proof -
  from assms(2) have pos: "0 < nat n" by simp
  with iteration_count_exact [OF assms(1)]
  have h: "0 < h" and m: "nat n = nat \<lfloor>\<bar>x_target - x0\<bar> / h\<rfloor>"
    by (simp_all split: if_splits)
  from pos have "0 < nat \<lfloor>\<bar>x_target - x0\<bar> / h\<rfloor>" by (subst m [symmetric])
  then have "1 \<le> \<lfloor>\<bar>x_target - x0\<bar> / h\<rfloor>" by (simp only: zero_less_nat_eq)
  then have "1 \<le> \<bar>x_target - x0\<bar> / h" by (metis le_floor_iff of_int_1)
  with h have "h \<le> \<bar>x_target - x0\<bar>" by (simp add: le_divide_eq)
  with h show ?thesis
    by (cases "x_target < x0") (auto simp: step_size_def)
qed

section \<open>Accuracy of the stability polynomial\<close>

lemma rk4_growth_exp_error:
  assumes "\<bar>z\<bar> \<le> 1"
  shows "\<bar>exp z - rk4_growth z\<bar> \<le> 3 * \<bar>z\<bar> ^ 5 / 120"
proof -
  obtain t where t: "\<bar>t\<bar> \<le> \<bar>z\<bar>" and e: "exp z = (\<Sum>m<5. z ^ m / fact m) + exp t / fact 5 * z ^ 5"
    using Maclaurin_exp_le [of z 5] by blast
  have sum: "(\<Sum>m<5. z ^ m / fact m) = rk4_growth z"
    by (simp add: rk4_growth_def lessThan_nat_numeral fact_numeral eval_nat_numeral)
  have "exp t \<le> exp 1" using t assms by simp
  also have "exp (1::real) \<le> 3" using exp_le by simp
  finally have et: "exp t \<le> 3" .
  have "\<bar>exp z - rk4_growth z\<bar> = exp t / 120 * \<bar>z\<bar> ^ 5"
    using e sum by (simp add: fact_numeral abs_mult power_abs)
  also have "\<dots> \<le> 3 / 120 * \<bar>z\<bar> ^ 5"
    using et by (intro mult_right_mono divide_right_mono) simp_all
  finally show ?thesis by simp
qed

lemma power_diff_le:
  fixes a b :: real
  assumes "0 \<le> a" "a \<le> 1" "0 \<le> b" "b \<le> 1"
  shows "\<bar>a ^ n - b ^ n\<bar> \<le> of_nat n * \<bar>a - b\<bar>"
proof (induction n)
  case 0
  then show ?case by simp
next
  case (Suc n)
  have "a ^ Suc n - b ^ Suc n = a * (a ^ n - b ^ n) + b ^ n * (a - b)"
    by (simp add: algebra_simps)
  then have "\<bar>a ^ Suc n - b ^ Suc n\<bar> \<le> a * \<bar>a ^ n - b ^ n\<bar> + b ^ n * \<bar>a - b\<bar>"
    using assms by (simp add: abs_mult) (metis abs_triangle_ineq abs_mult abs_of_nonneg zero_le_power)
  also have "\<dots> \<le> 1 * \<bar>a ^ n - b ^ n\<bar> + 1 * \<bar>a - b\<bar>"
    using assms by (intro add_mono mult_right_mono) (simp_all add: power_le_one)
  also have "\<dots> \<le> of_nat (Suc n) * \<bar>a - b\<bar>"
    using Suc.IH by (simp add: algebra_simps)
  finally show ?case .
qed

lemma rk4_growth_unit:
  assumes "-1 \<le> z" "z \<le> 0"
  shows "0 \<le> rk4_growth z \<and> rk4_growth z \<le> 1"
proof
  have "0 \<le> z\<^sup>2 * (1/2 + z/6)" using assms by (intro mult_nonneg_nonneg) simp_all
  moreover have "0 \<le> z ^ 4 / 24" by simp
  moreover have "0 \<le> 1 + z" using assms by simp
  moreover have "rk4_growth z = (1 + z) + z\<^sup>2 * (1/2 + z/6) + z ^ 4 / 24"
    by (simp add: rk4_growth_def power2_eq_square power3_eq_cube algebra_simps)
  ultimately show "0 \<le> rk4_growth z" by linarith
next
  have "0 \<le> 1 + z/2 + z\<^sup>2/6 + z^3/24"
  proof -
    have "\<bar>z\<bar> \<le> 1" using assms by simp
    moreover have "\<bar>z\<bar> ^ 2 \<le> 1" "\<bar>z\<bar> ^ 3 \<le> 1"
      using \<open>\<bar>z\<bar> \<le> 1\<close> by (intro power_le_one; simp)+
    ultimately have "\<bar>z\<^sup>2/6\<bar> \<le> 1/6" "\<bar>z^3/24\<bar> \<le> 1/24" "\<bar>z/2\<bar> \<le> 1/2"
      by (simp_all only: abs_divide power_abs)
    then show ?thesis by linarith
  qed
  then have "z * (1 + z/2 + z\<^sup>2/6 + z^3/24) \<le> 0"
    using assms by (simp add: mult_nonpos_nonneg)
  moreover have "rk4_growth z = 1 + z * (1 + z/2 + z\<^sup>2/6 + z^3/24)"
    by (simp add: rk4_growth_def power2_eq_square power3_eq_cube power4_eq_xxxx algebra_simps)
  ultimately show "rk4_growth z \<le> 1" by linarith
qed

section \<open>Properties\<close>

text \<open>
  C1 (refinement). In exact arithmetic, on a well-formed equation with
  \<open>a \<noteq> 0\<close> and a defined iteration count \<open>n\<close>, \<open>rungeKutta\<close> is the
  classical RK4 method for \<open>y' = (g(x) - b y) / a\<close> with the signed step: its
  trace is the first \<open>n\<close> iterates of the textbook RK4 map from \<open>(x0, y0)\<close>
  and its result the \<open>y\<close> of the \<open>n\<close>-th.
\<close>

theorem rungeKutta_refines_rk4:
  assumes "wf_equation eq" "y_prime_coefficient eq \<noteq> 0"
    and "iteration_count exact_ops x0 x_target h = Some n"
  shows "rungeKutta exact_ops x0 y0 x_target h eq =
           (let s = rk4_textbook (ode_rhs eq) (if x_target < x0 then - h else h)
            in (map (\<lambda>k. (s ^^ k) (x0, y0)) [0..<nat n], Inr (snd ((s ^^ nat n) (x0, y0)))))"
  using rungeKutta_iterate [OF assms, of y0]
  by (simp add: rk4_update_exact [OF assms(1,2)] step_size_def)

theorem rungeKutta_refines_rk4_witness:
  "wf_equation \<lparr>y_coefficient = 1, y_prime_coefficient = 1, gx_term_count = 0, gx_coefficients = [] :: real list, gx_powers = []\<rparr> \<and>
   iteration_count exact_ops 0 1 (1/2) = Some 2 \<and>
   rungeKutta exact_ops 0 1 1 (1/2) \<lparr>y_coefficient = 1, y_prime_coefficient = 1, gx_term_count = 0, gx_coefficients = [] :: real list, gx_powers = []\<rparr> = ([(0, 1), (1/2, 233/384)], Inr ((233/384)^2))"
proof -
  have wf: "wf_equation \<lparr>y_coefficient = 1, y_prime_coefficient = 1, gx_term_count = 0, gx_coefficients = [] :: real list, gx_powers = []\<rparr>"
    by (simp add: wf_equation_def)
  have n: "iteration_count exact_ops 0 1 (1/2 :: real) = Some 2"
    by (simp add: iteration_count_def step_size_def real_to_int32_def trunc_toward_zero_def in_int32_def int32_min_def int32_max_def)
  show ?thesis
    using rungeKutta_refines_rk4 [OF wf _ n, of 1] wf n
    by (simp add: rk4_textbook_def ode_rhs_def gx_real_def eval_nat_numeral Let_def)
qed

text \<open>
  C6 (safety). In exact arithmetic the points the integrator visits are
  \<open>x0 + k * step\<close>, \<open>k = 0 .. n - 1\<close>, all of them between \<open>x0\<close> and
  \<open>x_target\<close>: it never steps past the target, and when it runs at all its
  step points from \<open>x0\<close> toward \<open>x_target\<close>.
\<close>

theorem rungeKutta_between_start_and_target:
  assumes "wf_equation eq" "y_prime_coefficient eq \<noteq> 0"
    and "iteration_count exact_ops x0 x_target h = Some n"
  shows "map fst (fst (rungeKutta exact_ops x0 y0 x_target h eq)) =
           map (\<lambda>k. x0 + of_nat k * step_size exact_ops x0 x_target h) [0..<nat n] \<and>
         (\<forall>x\<in>set (map fst (fst (rungeKutta exact_ops x0 y0 x_target h eq))).
            min x0 x_target \<le> x \<and> x \<le> max x0 x_target) \<and>
         (0 < n \<longrightarrow> sgn (step_size exact_ops x0 x_target h) = sgn (x_target - x0))"
proof -
  have tr: "map fst (fst (rungeKutta exact_ops x0 y0 x_target h eq)) =
              map (\<lambda>k. x0 + of_nat k * step_size exact_ops x0 x_target h) [0..<nat n]"
    using rungeKutta_iterate [OF assms, of y0]
    by (simp add: Let_def rk4_update_exact [OF assms(1,2)] rk4_iterate_fst)
  show ?thesis
    using tr step_multiple_between [OF assms(3)] count_positive_direction [OF assms(3)]
    by auto
qed

theorem rungeKutta_between_start_and_target_witness:
  "wf_equation \<lparr>y_coefficient = 1, y_prime_coefficient = 1, gx_term_count = 0, gx_coefficients = [] :: real list, gx_powers = []\<rparr> \<and>
   iteration_count exact_ops 1 0 (1/2) = Some 2 \<and>
   map fst (fst (rungeKutta exact_ops 1 1 0 (1/2) \<lparr>y_coefficient = 1, y_prime_coefficient = 1, gx_term_count = 0, gx_coefficients = [] :: real list, gx_powers = []\<rparr>)) = [1, 1/2] \<and>
   sgn (step_size exact_ops 1 0 (1/2 :: real)) = -1"
proof -
  have wf: "wf_equation \<lparr>y_coefficient = 1, y_prime_coefficient = 1, gx_term_count = 0, gx_coefficients = [] :: real list, gx_powers = []\<rparr>"
    by (simp add: wf_equation_def)
  have n: "iteration_count exact_ops 1 0 (1/2 :: real) = Some 2"
    by (simp add: iteration_count_def step_size_def real_to_int32_def trunc_toward_zero_def in_int32_def int32_min_def int32_max_def)
  show ?thesis
    using rungeKutta_between_start_and_target [OF wf _ n, of 1] wf n
    by (simp add: step_size_def eval_nat_numeral)
qed

text \<open>
  C8 (functional). For the homogeneous equation \<open>a y' + b y = 0\<close> (no terms
  in \<open>g\<close>), each step multiplies \<open>y\<close> by the RK4 stability polynomial
  \<open>1 + z + z\<^sup>2/2 + z\<^sup>3/6 + z\<^sup>4/24\<close> at \<open>z = - step * b / a\<close>; the result
  is \<open>y0\<close> times its \<open>n\<close>-th power, the degree-four Taylor approximation of
  the exact factor \<open>exp (- n * step * b / a)\<close>.
\<close>

theorem rungeKutta_linear_homogeneous:
  assumes "wf_equation eq" "gx_coefficients eq = []" "y_prime_coefficient eq \<noteq> 0"
    and "iteration_count exact_ops x0 x_target h = Some n"
  shows "snd (rungeKutta exact_ops x0 y0 x_target h eq) =
           Inr (y0 * rk4_growth (step_size exact_ops x0 x_target h *
                  (- of_int (y_coefficient eq) / of_int (y_prime_coefficient eq))) ^ nat n)"
  using rungeKutta_iterate [OF assms(1,3,4), of y0]
  by (simp only: rk4_update_exact [OF assms(1,3)] ode_rhs_no_terms [OF assms(2)] Let_def
                 rk4_iterate_linear snd_conv)

theorem rungeKutta_linear_homogeneous_witness:
  "wf_equation \<lparr>y_coefficient = 1, y_prime_coefficient = 1, gx_term_count = 0, gx_coefficients = [] :: real list, gx_powers = []\<rparr> \<and>
   iteration_count exact_ops 0 1 (1/2) = Some 2 \<and>
   snd (rungeKutta exact_ops 0 1 1 (1/2) \<lparr>y_coefficient = 1, y_prime_coefficient = 1, gx_term_count = 0, gx_coefficients = [] :: real list, gx_powers = []\<rparr>) = Inr ((233/384)^2)"
proof -
  have wf: "wf_equation \<lparr>y_coefficient = 1, y_prime_coefficient = 1, gx_term_count = 0, gx_coefficients = [] :: real list, gx_powers = []\<rparr>"
    by (simp add: wf_equation_def)
  have n: "iteration_count exact_ops 0 1 (1/2 :: real) = Some 2"
    by (simp add: iteration_count_def step_size_def real_to_int32_def trunc_toward_zero_def in_int32_def int32_min_def int32_max_def)
  show ?thesis
    using rungeKutta_linear_homogeneous [OF wf _ _ n, of 1] wf n
    by (simp add: step_size_def rk4_growth_def power_divide)
qed

text \<open>
  C7 (refinement). When \<open>b = 0\<close> and every power of \<open>g\<close> is between \<open>0\<close>
  and \<open>3\<close>, the exact solution of \<open>a y' = g(x)\<close> is
  \<open>y0 + (G(x) - G(x0)) / a\<close> with \<open>G\<close> the antiderivative of \<open>g\<close>, and in
  exact arithmetic \<open>rungeKutta\<close> returns it at the last point reached,
  \<open>x0 + n * step\<close>, with no discretisation error: each step is Simpson's rule,
  exact for cubics.
\<close>

theorem rungeKutta_exact_for_cubic_forcing:
  assumes "wf_equation eq" "y_prime_coefficient eq \<noteq> 0" "y_coefficient eq = 0"
    and "\<forall>p\<in>set (gx_powers eq). 0 \<le> p \<and> p \<le> 3"
    and "iteration_count exact_ops x0 x_target h = Some n"
  shows "snd (rungeKutta exact_ops x0 y0 x_target h eq) =
           Inr (y0 + (antiderivative eq (x0 + of_nat (nat n) * step_size exact_ops x0 x_target h)
                      - antiderivative eq x0) / of_int (y_prime_coefficient eq))"
proof -
  let ?a = "of_int (y_prime_coefficient eq) :: real"
  let ?s = "step_size exact_ops x0 x_target h"
  have step: "?s * (gx_real eq x / ?a + 4 * (gx_real eq (x + ?s / 2) / ?a) + gx_real eq (x + ?s) / ?a) / 6
                = antiderivative eq (x + ?s) / ?a - antiderivative eq x / ?a" for x
    by (rule simpson_gx_real [OF assms(4)])
  show ?thesis
    using rungeKutta_iterate [OF assms(1,2,5), of y0]
    by (simp only: rk4_update_exact [OF assms(1,2)] ode_rhs_no_y_term [OF assms(3)] Let_def
                   rk4_iterate_quadrature [OF step] snd_conv) (simp add: diff_divide_distrib)
qed

theorem rungeKutta_exact_for_cubic_forcing_witness:
  "wf_equation \<lparr>y_coefficient = 0, y_prime_coefficient = 1, gx_term_count = 1, gx_coefficients = [3 :: real], gx_powers = [2]\<rparr> \<and>
   iteration_count exact_ops 0 1 (1/2) = Some 2 \<and>
   snd (rungeKutta exact_ops 0 5 1 (1/2) \<lparr>y_coefficient = 0, y_prime_coefficient = 1, gx_term_count = 1, gx_coefficients = [3 :: real], gx_powers = [2]\<rparr>) = Inr 6"
proof -
  have wf: "wf_equation \<lparr>y_coefficient = 0, y_prime_coefficient = 1, gx_term_count = 1, gx_coefficients = [3 :: real], gx_powers = [2]\<rparr>"
    by (simp add: wf_equation_def)
  have n: "iteration_count exact_ops 0 1 (1/2 :: real) = Some 2"
    by (simp add: iteration_count_def step_size_def real_to_int32_def trunc_toward_zero_def in_int32_def int32_min_def int32_max_def)
  show ?thesis
    using rungeKutta_exact_for_cubic_forcing [OF wf _ _ _ n, of 5] wf n
    by (simp add: step_size_def antiderivative_def)
qed

text \<open>
  C15 (bounds). Global error on the decay equation \<open>a y' + b y = 0\<close> in exact
  arithmetic: when \<open>q = step * b / a\<close> is in \<open>[0, 1]\<close>, the value returned
  after \<open>n\<close> steps differs from the exact solution
  \<open>y0 * exp (- n * step * b / a)\<close> at the last point reached by at most
  \<open>|y0| * n * q\<^sup>5 / 40\<close>: the error of the method is of fourth order in the step.
\<close>

theorem rungeKutta_decay_error_bound:
  assumes "wf_equation eq" "gx_coefficients eq = []" "y_prime_coefficient eq \<noteq> 0"
    and "iteration_count exact_ops x0 x_target h = Some n"
    and "0 \<le> step_size exact_ops x0 x_target h * of_int (y_coefficient eq) / of_int (y_prime_coefficient eq)"
    and "step_size exact_ops x0 x_target h * of_int (y_coefficient eq) / of_int (y_prime_coefficient eq) \<le> 1"
  shows "\<exists>y. snd (rungeKutta exact_ops x0 y0 x_target h eq) = Inr y \<and>
           \<bar>y - y0 * exp (- (of_nat (nat n) * step_size exact_ops x0 x_target h
                             * of_int (y_coefficient eq) / of_int (y_prime_coefficient eq)))\<bar>
           \<le> \<bar>y0\<bar> * of_nat (nat n) * (step_size exact_ops x0 x_target h * of_int (y_coefficient eq)
                                          / of_int (y_prime_coefficient eq)) ^ 5 / 40"
proof -
  let ?s = "step_size exact_ops x0 x_target h"
  let ?q = "?s * of_int (y_coefficient eq) / of_int (y_prime_coefficient eq)"
  let ?m = "nat n"
  have run: "snd (rungeKutta exact_ops x0 y0 x_target h eq) =
               Inr (y0 * rk4_growth (?s * (- of_int (y_coefficient eq) / of_int (y_prime_coefficient eq))) ^ ?m)"
    using rungeKutta_iterate [OF assms(1,3,4), of y0]
    by (simp only: rk4_update_exact [OF assms(1,3)] ode_rhs_no_terms [OF assms(2)] Let_def
                   rk4_iterate_linear snd_conv)
  have z: "?s * (- of_int (y_coefficient eq) / of_int (y_prime_coefficient eq)) = - ?q" by simp
  have R: "0 \<le> rk4_growth (- ?q)" "rk4_growth (- ?q) \<le> 1"
    using rk4_growth_unit [of "- ?q"] assms(5,6) by simp_all
  have E: "0 \<le> exp (- ?q)" "exp (- ?q) \<le> 1" using assms(5) by simp_all
  have pow: "exp (- (of_nat ?m * ?q)) = exp (- ?q) ^ ?m"
    by (simp add: exp_of_nat_mult [symmetric])
  have "\<bar>rk4_growth (- ?q) ^ ?m - exp (- ?q) ^ ?m\<bar> \<le> of_nat ?m * \<bar>rk4_growth (- ?q) - exp (- ?q)\<bar>"
    by (rule power_diff_le [OF R E])
  also have "\<dots> \<le> of_nat ?m * (3 * \<bar>- ?q\<bar> ^ 5 / 120)"
    using rk4_growth_exp_error [of "- ?q"] assms(5,6)
    by (intro mult_left_mono) (simp_all add: abs_minus_commute)
  also have "\<dots> = of_nat ?m * ?q ^ 5 / 40"
  proof -
    have "\<bar>- ?q\<bar> = ?q" using assms(5) by (simp only: abs_minus_cancel abs_of_nonneg)
    then show ?thesis by (simp only:)
  qed
  finally have bound: "\<bar>rk4_growth (- ?q) ^ ?m - exp (- ?q) ^ ?m\<bar> \<le> of_nat ?m * ?q ^ 5 / 40" .
  have "\<bar>y0 * rk4_growth (- ?q) ^ ?m - y0 * exp (- (of_nat ?m * ?q))\<bar> =
          \<bar>y0\<bar> * \<bar>rk4_growth (- ?q) ^ ?m - exp (- ?q) ^ ?m\<bar>"
    by (simp only: pow right_diff_distrib [symmetric] abs_mult)
  also have "\<dots> \<le> \<bar>y0\<bar> * (of_nat ?m * ?q ^ 5 / 40)"
    using bound by (rule mult_left_mono) simp
  finally show ?thesis
    using run z by (simp add: mult.assoc)
qed

theorem rungeKutta_decay_error_bound_witness:
  "wf_equation \<lparr>y_coefficient = 1, y_prime_coefficient = 1, gx_term_count = 0, gx_coefficients = [] :: real list, gx_powers = []\<rparr> \<and>
   iteration_count exact_ops 0 1 (1/2) = Some 2 \<and>
   (\<exists>y. snd (rungeKutta exact_ops 0 1 1 (1/2) \<lparr>y_coefficient = 1, y_prime_coefficient = 1, gx_term_count = 0, gx_coefficients = [] :: real list, gx_powers = []\<rparr>) = Inr y \<and>
        \<bar>y - exp (-1)\<bar> \<le> 1/640)"
proof -
  have wf: "wf_equation \<lparr>y_coefficient = 1, y_prime_coefficient = 1, gx_term_count = 0, gx_coefficients = [] :: real list, gx_powers = []\<rparr>"
    by (simp add: wf_equation_def)
  have n: "iteration_count exact_ops 0 1 (1/2 :: real) = Some 2"
    by (simp add: iteration_count_def step_size_def real_to_int32_def trunc_toward_zero_def
                  in_int32_def int32_min_def int32_max_def)
  show ?thesis
    using rungeKutta_decay_error_bound [OF wf _ _ n, of 1] wf n
    by (simp add: step_size_def power_divide)
qed

end
