(* ===== verification/Driver.thy ===== *)
theory Driver
  imports RK4_Integrator
begin

text \<open>
  \<open>main\<close> (\<open>src/runge.c\<close> lines 24--95) and \<open>printAbsoluteError\<close> (lines
  158--161). The terminal is abstracted: the values \<open>scanf\<close> stores are an
  input record, in the order they are read; the outcomes of the three
  \<open>malloc\<close> calls are inputs too (the struct's, and the term buffers' as a
  function of the count, since \<open>malloc(count * sizeof(float))\<close> with a negative
  or zero count is the platform's choice). The observable outcome is the printed
  trace, the printed result and absolute error, and the exit status.
\<close>

record 'f main_input =
  in_y_prime_coefficient :: int
  in_y_coefficient :: int
  in_term_count :: int
  in_terms :: "('f \<times> int) list"
  in_x0 :: 'f
  in_y0 :: 'f
  in_h :: 'f
  in_x_target :: 'f
  in_true_value :: 'f

text \<open>
  The terms are read by \<open>for (i = 0; i < count; i++)\<close>: \<open>scanf\<close> delivers
  exactly \<open>max 0 count\<close> of them.
\<close>

definition wf_input :: "'f main_input \<Rightarrow> bool" where
  "wf_input inp \<longleftrightarrow> length (in_terms inp) = nat (in_term_count inp)"

datatype exit_status = Exit_Success | Exit_Alloc_Failure | Exit_Failure | Undefined_Behaviour

record 'f main_output =
  out_trace :: "('f \<times> 'f) list"
  out_result :: "'f option"
  out_abs_error :: "'f option"
  out_status :: exit_status

section \<open>printAbsoluteError\<close>

definition absolute_error :: "'f fops \<Rightarrow> 'f \<Rightarrow> 'f \<Rightarrow> 'f" where
  "absolute_error F trueValue approximateValue = f_abs F (f_sub F trueValue approximateValue)"

section \<open>main\<close>

text \<open>Lines 39--62: the struct filled from the input, the terms in reading order.\<close>

definition read_equation :: "'f main_input \<Rightarrow> 'f equation" where
  "read_equation inp =
     \<lparr>y_coefficient = in_y_coefficient inp, y_prime_coefficient = in_y_prime_coefficient inp,
      gx_term_count = in_term_count inp,
      gx_coefficients = map fst (in_terms inp), gx_powers = map snd (in_terms inp)\<rparr>"

definition main_model ::
  "'f fops \<Rightarrow> bool \<Rightarrow> (int \<Rightarrow> bool) \<Rightarrow> 'f main_input \<Rightarrow> 'f main_output" where
  "main_model F equation_alloc buffers_alloc inp =
     (if \<not> equation_alloc then
        \<lparr>out_trace = [], out_result = None, out_abs_error = None, out_status = Exit_Alloc_Failure\<rparr>
      else if \<not> buffers_alloc (in_term_count inp) then
        \<lparr>out_trace = [], out_result = None, out_abs_error = None, out_status = Exit_Alloc_Failure\<rparr>
      else
        (case rungeKutta F (in_x0 inp) (in_y0 inp) (in_x_target inp) (in_h inp) (read_equation inp) of
           (tr, Inr result) \<Rightarrow>
             \<lparr>out_trace = tr, out_result = Some result,
              out_abs_error = Some (absolute_error F (in_true_value inp) result),
              out_status = Exit_Success\<rparr>
         | (tr, Inl ZeroYPrimeCoefficient) \<Rightarrow>
             \<lparr>out_trace = tr, out_result = None, out_abs_error = None, out_status = Exit_Failure\<rparr>
         | (tr, Inl _) \<Rightarrow>
             \<lparr>out_trace = tr, out_result = None, out_abs_error = None,
              out_status = Undefined_Behaviour\<rparr>))"

section \<open>Properties\<close>

lemma read_equation_wf: "wf_input inp \<Longrightarrow> 0 \<le> in_term_count inp \<Longrightarrow> wf_equation (read_equation inp)"
  by (simp add: wf_input_def read_equation_def wf_equation_def)

text \<open>
  C13 (error). For input that \<open>scanf\<close> delivers in full and allocations
  that succeed, \<open>main\<close> ends in one of three ways, for any floating-point
  semantics: undefined behaviour when the iteration count is not a defined
  \<open>int\<close>; the failure exit of \<open>calculateDerivative\<close> when the coefficient of
  \<open>y'\<close> is zero and at least one iteration is due; success otherwise, in
  particular with a zero coefficient and no iteration due.
\<close>

theorem main_exit_status:
  assumes "wf_input inp" "0 \<le> in_term_count inp" "buffers_alloc (in_term_count inp)"
  shows "out_status (main_model F True buffers_alloc inp) =
           (case iteration_count F (in_x0 inp) (in_x_target inp) (in_h inp) of
              None \<Rightarrow> Undefined_Behaviour
            | Some n \<Rightarrow>
                if 0 < n \<and> in_y_prime_coefficient inp = 0 then Exit_Failure else Exit_Success)"
proof (cases "iteration_count F (in_x0 inp) (in_x_target inp) (in_h inp)")
  case None
  with assms(3) show ?thesis by (simp add: main_model_def rungeKutta_def)
next
  case (Some n)
  let ?eq = "read_equation inp"
  have wf: "wf_equation ?eq" using assms(1,2) by (rule read_equation_wf)
  show ?thesis
  proof (cases "0 < n")
    case False
    with Some assms(3) show ?thesis
      by (simp add: main_model_def rungeKutta_def rk_loop_stop)
  next
    case True
    show ?thesis
    proof (cases "in_y_prime_coefficient inp = 0")
      case zero: True
      then have "y_prime_coefficient ?eq = 0" by (simp add: read_equation_def)
      with zero Some True assms(3) show ?thesis
        by (simp add: main_model_def rungeKutta_def rk_loop_fail rk4_step_zero_coefficient)
    next
      case nonzero: False
      then have "y_prime_coefficient ?eq \<noteq> 0" by (simp add: read_equation_def)
      from rungeKutta_iterate [OF wf this Some] nonzero Some assms(3) show ?thesis
        by (simp add: main_model_def Let_def)
    qed
  qed
qed

theorem main_exit_status_witness:
  "wf_input \<lparr>in_y_prime_coefficient = 0, in_y_coefficient = 1, in_term_count = 0, in_terms = [],
      in_x0 = 0, in_y0 = 1, in_h = 1/2, in_x_target = 1, in_true_value = 1\<rparr> \<and>
   iteration_count exact_ops 0 1 (1/2) = Some 2 \<and>
   out_status (main_model exact_ops True (\<lambda>_. True) \<lparr>in_y_prime_coefficient = 0, in_y_coefficient = 1, in_term_count = 0, in_terms = [],
      in_x0 = 0, in_y0 = 1, in_h = 1/2, in_x_target = 1, in_true_value = 1\<rparr>) = Exit_Failure"
proof -
  have wf: "wf_input \<lparr>in_y_prime_coefficient = 0, in_y_coefficient = 1, in_term_count = 0, in_terms = [],
      in_x0 = 0, in_y0 = 1, in_h = 1/2, in_x_target = 1, in_true_value = 1\<rparr>" by (simp add: wf_input_def)
  have n: "iteration_count exact_ops 0 1 (1/2 :: real) = Some 2"
    by (simp add: iteration_count_def step_size_def real_to_int32_def trunc_toward_zero_def
                  in_int32_def int32_min_def int32_max_def)
  show ?thesis
    using main_exit_status [OF wf, of "\<lambda>_. True" exact_ops] wf n by simp
qed

end
