(* ===== verification/Special_Values.thy ===== *)
theory Special_Values
  imports Driver
begin

text \<open>
  Non-finite values. IEEE arithmetic has values outside the reals: a NaN, which
  every arithmetic operation with a NaN operand returns, and the infinities of
  an overflow, a division by zero or a pole of \<open>pow\<close>. The instance
  \<open>xops\<close> works over \<open>xreal\<close>, the reals with one non-finite value standing
  for both NaN and the infinities, in which \<open>h = 0\<close> and \<open>pow(0, p)\<close>,
  \<open>p < 0\<close>, behave as in C.
\<close>

section \<open>The reals with a non-finite value\<close>

datatype xreal = Fin real | NonFinite

fun x_add :: "xreal \<Rightarrow> xreal \<Rightarrow> xreal" where
  "x_add (Fin a) (Fin b) = Fin (a + b)"
| "x_add _ _ = NonFinite"

fun x_sub :: "xreal \<Rightarrow> xreal \<Rightarrow> xreal" where
  "x_sub (Fin a) (Fin b) = Fin (a - b)"
| "x_sub _ _ = NonFinite"

fun x_mul :: "xreal \<Rightarrow> xreal \<Rightarrow> xreal" where
  "x_mul (Fin a) (Fin b) = Fin (a * b)"
| "x_mul _ _ = NonFinite"

text \<open>Division by zero gives an infinity (or a NaN for \<open>0 / 0\<close>).\<close>

fun x_div :: "xreal \<Rightarrow> xreal \<Rightarrow> xreal" where
  "x_div (Fin a) (Fin b) = (if b = 0 then NonFinite else Fin (a / b))"
| "x_div _ _ = NonFinite"

fun x_neg :: "xreal \<Rightarrow> xreal" where
  "x_neg (Fin a) = Fin (- a)"
| "x_neg NonFinite = NonFinite"

text \<open>Every ordered comparison with a NaN is false.\<close>

fun x_lt :: "xreal \<Rightarrow> xreal \<Rightarrow> bool" where
  "x_lt (Fin a) (Fin b) = (a < b)"
| "x_lt _ _ = False"

text \<open>
  \<open>pow(0, p)\<close> with \<open>p < 0\<close> is a pole (an infinity); \<open>pow(x, 0) = 1\<close> for
  every \<open>x\<close>, a NaN included.
\<close>

fun x_pow :: "xreal \<Rightarrow> int \<Rightarrow> xreal" where
  "x_pow (Fin t) p = (if t = 0 \<and> p < 0 then NonFinite else Fin (t powi p))"
| "x_pow NonFinite p = (if p = 0 then Fin 1 else NonFinite)"

fun x_to_int :: "xreal \<Rightarrow> int option" where
  "x_to_int (Fin x) = real_to_int32 x"
| "x_to_int NonFinite = None"

fun x_abs :: "xreal \<Rightarrow> xreal" where
  "x_abs (Fin a) = Fin \<bar>a\<bar>"
| "x_abs NonFinite = NonFinite"

definition xops :: "xreal fops" where
  "xops =
     \<lparr>f_add = x_add, f_sub = x_sub, f_mul = x_mul, f_div = x_div, f_neg = x_neg, f_lt = x_lt,
      f_of_int = (\<lambda>k. Fin (of_int k)), f_to_int = x_to_int, f_abs = x_abs,
      d_add = x_add, d_mul = x_mul, d_div = x_div, d_lit = (\<lambda>q. Fin (of_rat q)), d_pow = x_pow,
      to_float = id\<rparr>"

section \<open>Lemmas\<close>

lemma xops_simps [simp]:
  "f_add xops = x_add" "f_sub xops = x_sub" "f_mul xops = x_mul" "f_div xops = x_div"
  "f_neg xops = x_neg" "f_lt xops = x_lt" "f_of_int xops = (\<lambda>k. Fin (of_int k))"
  "f_to_int xops = x_to_int" "f_abs xops = x_abs" "d_add xops = x_add" "d_mul xops = x_mul"
  "d_div xops = x_div" "d_lit xops = (\<lambda>q. Fin (of_rat q))" "d_pow xops = x_pow" "to_float xops = id"
  by (simp_all add: xops_def)

section \<open>Properties\<close>

text \<open>
  C16 (error). A zero step size, which \<open>main\<close> accepts unchecked, makes the
  quotient \<open>(x_target - x0) / h\<close> non-finite and its cast to \<open>int\<close> undefined:
  \<open>rungeKutta\<close> ends with \<open>IterationCountUndefined\<close> before printing anything,
  and \<open>main\<close> with undefined behaviour, for any finite inputs.
\<close>

theorem main_zero_step_undefined:
  assumes "in_h inp = Fin 0" "in_x0 inp = Fin x0" "in_x_target inp = Fin xt"
    and "buffers_alloc (in_term_count inp)"
  shows "out_status (main_model xops True buffers_alloc inp) = Undefined_Behaviour \<and>
         out_trace (main_model xops True buffers_alloc inp) = []"
proof -
  have "iteration_count xops (in_x0 inp) (in_x_target inp) (in_h inp) = None"
    using assms(1-3) by (simp add: iteration_count_def step_size_def)
  with assms(4) show ?thesis by (simp add: main_model_def rungeKutta_def)
qed

theorem main_zero_step_undefined_witness:
  "out_status (main_model xops True (\<lambda>_. True) \<lparr>in_y_prime_coefficient = 1, in_y_coefficient = 1, in_term_count = 0, in_terms = [],
      in_x0 = Fin 0, in_y0 = Fin 1, in_h = Fin 0, in_x_target = Fin 1, in_true_value = Fin 0\<rparr>) = Undefined_Behaviour \<and>
   out_trace (main_model xops True (\<lambda>_. True) \<lparr>in_y_prime_coefficient = 1, in_y_coefficient = 1, in_term_count = 0, in_terms = [],
      in_x0 = Fin 0, in_y0 = Fin 1, in_h = Fin 0, in_x_target = Fin 1, in_true_value = Fin 0\<rparr>) = []"
  using main_zero_step_undefined [of "\<lparr>in_y_prime_coefficient = 1, in_y_coefficient = 1, in_term_count = 0, in_terms = [],
          in_x0 = Fin 0, in_y0 = Fin 1, in_h = Fin 0, in_x_target = Fin 1, in_true_value = Fin 0\<rparr>" 0 1 "\<lambda>_. True"]
  by simp

end
