(* ===== verification/Print_Equation.thy ===== *)
theory Print_Equation
  imports Equation_Model
begin

text \<open>
  \<open>printEquation\<close> (\<open>src/runge.c\<close> lines 97--106) as the string it prints.
  \<open>%d\<close> is the decimal rendering \<open>show_int\<close>; \<open>%lf\<close> of a float is a
  parameter \<open>fmt\<close>, since the model does not fix the float format. The loop
  prints the separator \<open>" + "\<close> after every term but the last; it is proved
  equal to the terms joined by the reference \<open>join_with\<close>, and \<open>show_int\<close> is proved
  to be read back by the decimal parser \<open>parse_int\<close>.
\<close>

section \<open>Decimal integers\<close>

definition digit_char :: "nat \<Rightarrow> char" where
  "digit_char d = char_of (48 + d)"

fun nat_digits :: "nat \<Rightarrow> string" where
  "nat_digits n = (if n < 10 then [digit_char n] else nat_digits (n div 10) @ [digit_char (n mod 10)])"

declare nat_digits.simps [simp del]

definition show_int :: "int \<Rightarrow> string" where
  "show_int k = (if k < 0 then CHR ''-'' # nat_digits (nat (- k)) else nat_digits (nat k))"

definition parse_nat :: "string \<Rightarrow> nat" where
  "parse_nat s = foldl (\<lambda>acc c. 10 * acc + (of_char c - 48)) 0 s"

definition parse_int :: "string \<Rightarrow> int" where
  "parse_int s = (case s of c # r \<Rightarrow> if c = CHR ''-'' then - int (parse_nat r) else int (parse_nat s)
                           | [] \<Rightarrow> 0)"

section \<open>printEquation\<close>

text \<open>The reference: strings joined by a separator, one between neighbours.\<close>

fun join_with :: "string \<Rightarrow> string list \<Rightarrow> string" where
  "join_with s [] = []"
| "join_with s [x] = x"
| "join_with s (x # y # ys) = x @ s @ join_with s (y # ys)"

definition term_string :: "('f \<Rightarrow> string) \<Rightarrow> 'f \<Rightarrow> int \<Rightarrow> string" where
  "term_string fmt c p = ''( '' @ fmt c @ '' * x^'' @ show_int p @ '' )''"

function print_terms_loop :: "('f \<Rightarrow> string) \<Rightarrow> 'f equation \<Rightarrow> int \<Rightarrow> string result" where
  "print_terms_loop fmt eq i =
     (if i < gx_term_count eq then
        (if nat i < length (gx_coefficients eq) \<and> nat i < length (gx_powers eq) then
           ebind (print_terms_loop fmt eq (i + 1)) (\<lambda>rest.
             Inr (term_string fmt (gx_coefficients eq ! nat i) (gx_powers eq ! nat i)
                  @ (if i < gx_term_count eq - 1 then '' + '' else '''') @ rest))
         else Inl TermIndexOutOfBounds)
      else Inr '''')"
  by pat_completeness auto
termination
  by (relation "measure (\<lambda>(fmt, eq, i). nat (gx_term_count eq - i))") auto

declare print_terms_loop.simps [simp del]

definition printEquation :: "('f \<Rightarrow> string) \<Rightarrow> 'f equation \<Rightarrow> string result" where
  "printEquation fmt eq =
     ebind (print_terms_loop fmt eq 0) (\<lambda>terms.
       Inr (show_int (y_prime_coefficient eq) @ ''*y' + '' @ show_int (y_coefficient eq) @ ''*y = ''
            @ terms @ ''\<newline>''))"

text \<open>
  Reading the header back: the digits up to the first \<open>*\<close>, the literal
  \<open>*y' + \<close>, the digits up to the next \<open>*\<close>.
\<close>

definition parse_header :: "string \<Rightarrow> int \<times> int" where
  "parse_header s =
     (let a = takeWhile (\<lambda>c. c \<noteq> CHR ''*'') s;
          b = takeWhile (\<lambda>c. c \<noteq> CHR ''*'') (drop (length a + 6) s)
      in (parse_int a, parse_int b))"

section \<open>Lemmas\<close>

lemma of_char_digit_char: "d < 10 \<Longrightarrow> of_char (digit_char d) = 48 + d"
  by (simp add: digit_char_def)

lemma parse_nat_snoc: "parse_nat (s @ [c]) = 10 * parse_nat s + (of_char c - 48)"
  by (simp add: parse_nat_def)

lemma parse_nat_digits: "parse_nat (nat_digits n) = n"
proof (induction n rule: nat_digits.induct)
  case (1 n)
  show ?case
  proof (cases "n < 10")
    case True
    then show ?thesis
      by (simp add: nat_digits.simps [of n] parse_nat_def of_char_digit_char)
  next
    case False
    with "1.IH" show ?thesis
      by (simp add: nat_digits.simps [of n] parse_nat_snoc of_char_digit_char)
  qed
qed

lemma nat_digits_code: "c \<in> set (nat_digits n) \<Longrightarrow> 48 \<le> (of_char c :: nat)"
proof (induction n rule: nat_digits.induct)
  case (1 n)
  show ?case
  proof (cases "n < 10")
    case True
    with "1.prems" show ?thesis by (simp add: nat_digits.simps [of n] of_char_digit_char)
  next
    case False
    with "1.prems" have "c \<in> set (nat_digits (n div 10)) \<or> c = digit_char (n mod 10)"
      by (auto simp: nat_digits.simps [of n])
    then show ?thesis using "1.IH" False by (auto simp: of_char_digit_char)
  qed
qed

lemma nat_digits_not_minus: "c \<in> set (nat_digits n) \<Longrightarrow> c \<noteq> CHR ''-''"
  using nat_digits_code [of c n] by auto

lemma nat_digits_nonempty: "nat_digits n \<noteq> []"
  by (simp add: nat_digits.simps [of n])

lemma join_with_Cons:
  "join_with s (x # xs) = x @ (if xs = [] then [] else s @ join_with s xs)"
  by (cases xs) simp_all

lemma print_terms_loop_join:
  assumes "wf_equation eq" "0 \<le> i"
  shows "print_terms_loop fmt eq i =
           Inr (join_with '' + ''
             (map (\<lambda>cp. term_string fmt (fst cp) (snd cp))
                  (drop (nat i) (zip (gx_coefficients eq) (gx_powers eq)))))"
  using assms
proof (induction fmt eq i rule: print_terms_loop.induct)
  case (1 fmt eq i)
  show ?case
  proof (cases "i < gx_term_count eq")
    case True
    with "1.prems" have bounds: "nat i < length (gx_coefficients eq)" "nat i < length (gx_powers eq)"
      by (auto simp: wf_equation_def)
    have last: "drop (Suc (nat i)) (zip (gx_coefficients eq) (gx_powers eq)) = [] \<longleftrightarrow>
                \<not> i < gx_term_count eq - 1"
      using "1.prems" True by (auto simp: wf_equation_def)
    from True bounds "1.IH" "1.prems" last show ?thesis
      by (simp add: print_terms_loop.simps [of fmt eq i] drop_zip_Cons join_with_Cons
                    nat_add_distrib)
  next
    case False
    with "1.prems" show ?thesis
      by (simp add: print_terms_loop.simps [of fmt eq i] wf_equation_def)
  qed
qed

lemma show_int_roundtrip: "parse_int (show_int k) = k"
proof (cases "k < 0")
  case True
  then show ?thesis by (simp add: show_int_def parse_int_def parse_nat_digits)
next
  case False
  obtain c r where cr: "nat_digits (nat k) = c # r"
    using nat_digits_nonempty by (cases "nat_digits (nat k)") auto
  then have "c \<noteq> CHR ''-''" using nat_digits_not_minus [of c "nat k"] by simp
  with False cr parse_nat_digits [of "nat k"] show ?thesis
    by (simp add: show_int_def parse_int_def)
qed

lemma show_int_no_star: "c \<in> set (show_int k) \<Longrightarrow> c \<noteq> CHR ''*''"
  using nat_digits_code [of c] by (auto simp: show_int_def split: if_splits)

lemma takeWhile_not_star:
  "takeWhile (\<lambda>c. c \<noteq> CHR ''*'') (show_int k @ CHR ''*'' # s) = show_int k"
  using show_int_no_star [of _ k] by (simp add: takeWhile_append2)

section \<open>Properties\<close>


text \<open>
  C17 (roundtrip). What \<open>printEquation\<close> prints determines the coefficients
  it was given: the header of the printed line parses back to the coefficient
  of \<open>y'\<close> and the coefficient of \<open>y\<close>, for every float format.
\<close>

theorem printEquation_header_roundtrip:
  assumes "printEquation fmt eq = Inr s"
  shows "parse_header s = (y_prime_coefficient eq, y_coefficient eq)"
proof -
  from assms obtain terms where
    s: "s = show_int (y_prime_coefficient eq) @ ''*y' + '' @ show_int (y_coefficient eq) @ ''*y = ''
            @ terms @ ''\<newline>''"
    by (auto simp: printEquation_def ebind_eq_Inr)
  then show ?thesis
    by (simp add: parse_header_def takeWhile_not_star show_int_roundtrip)
qed

theorem printEquation_header_roundtrip_witness:
  "printEquation show_int \<lparr>y_coefficient = -7, y_prime_coefficient = 12, gx_term_count = 0,
      gx_coefficients = [] :: int list, gx_powers = []\<rparr> = Inr (''12*y' + -7*y = '' @ ''\<newline>'') \<and>
   parse_header (''12*y' + -7*y = '' @ ''\<newline>'') = (12, -7)"
proof -
  have p: "printEquation show_int \<lparr>y_coefficient = -7, y_prime_coefficient = 12, gx_term_count = 0,
      gx_coefficients = [] :: int list, gx_powers = []\<rparr> = Inr (''12*y' + -7*y = '' @ ''\<newline>'')"
    by code_simp
  show ?thesis using printEquation_header_roundtrip [OF p] p by simp
qed

text \<open>
  C18 (equivalence). On a well-formed equation the loop of \<open>printEquation\<close>,
  which prints \<open>" + "\<close> after each term whose index is below
  \<open>gx_term_count - 1\<close>, prints the header and the terms joined by
  \<open>" + "\<close>: one separator between consecutive terms and none after the last.
\<close>

theorem printEquation_join:
  assumes "wf_equation eq"
  shows "printEquation fmt eq =
           Inr (show_int (y_prime_coefficient eq) @ ''*y' + '' @ show_int (y_coefficient eq) @ ''*y = ''
                @ join_with '' + ''
                    (map (\<lambda>cp. term_string fmt (fst cp) (snd cp))
                         (zip (gx_coefficients eq) (gx_powers eq)))
                @ ''\<newline>'')"
  using print_terms_loop_join [OF assms, of 0 fmt] by (simp add: printEquation_def)

theorem printEquation_join_witness:
  "wf_equation \<lparr>y_coefficient = 2, y_prime_coefficient = 1, gx_term_count = 2, gx_coefficients = [3, 4 :: int], gx_powers = [2, -1]\<rparr> \<and>
   printEquation show_int \<lparr>y_coefficient = 2, y_prime_coefficient = 1, gx_term_count = 2, gx_coefficients = [3, 4 :: int], gx_powers = [2, -1]\<rparr> =
     Inr (''1*y' + 2*y = ( 3 * x^2 ) + ( 4 * x^-1 )'' @ ''\<newline>'')"
proof -
  have wf: "wf_equation \<lparr>y_coefficient = 2, y_prime_coefficient = 1, gx_term_count = 2, gx_coefficients = [3, 4 :: int], gx_powers = [2, -1]\<rparr>"
    by (simp add: wf_equation_def)
  have "printEquation show_int \<lparr>y_coefficient = 2, y_prime_coefficient = 1, gx_term_count = 2, gx_coefficients = [3, 4 :: int], gx_powers = [2, -1]\<rparr> =
          Inr (show_int 1 @ ''*y' + '' @ show_int 2 @ ''*y = ''
               @ join_with '' + '' (map (\<lambda>cp. term_string show_int (fst cp) (snd cp))
                                      (zip [3, 4 :: int] [2, -1]))
               @ ''\<newline>'')"
    using printEquation_join [OF wf, of show_int] by simp
  also have "\<dots> = Inr (''1*y' + 2*y = ( 3 * x^2 ) + ( 4 * x^-1 )'' @ ''\<newline>'')"
    by code_simp
  finally show ?thesis using wf by simp
qed

end
