(* ===== verification/RK4_Machine.thy ===== *)
theory RK4_Machine
  imports RK4_Integrator
begin

text \<open>
  The loop of \<open>rungeKutta\<close> (\<open>src/runge.c\<close> lines 119--144) as a small-step
  state machine: the state holds the loop variables \<open>i\<close>, \<open>current_x\<close> and
  \<open>y\<close>, the trace lines printed so far and whether the loop is still running,
  has left the loop, or has exited inside \<open>calculateDerivative\<close>. One step of
  the machine is one pass of the loop body (or the failed loop test). The
  theory proves the machine's invariants by rule induction over its runs,
  that no run is infinite and every run reaches a final state within
  \<open>n + 1\<close> steps, and how \<open>current_x\<close> and the counter evolve.
\<close>

section \<open>State and steps\<close>

datatype rk_phase = Running | Finished | Aborted rk_error

record 'f rk_state =
  rs_i :: int
  rs_x :: 'f
  rs_y :: 'f
  rs_trace :: "('f \<times> 'f) list"
  rs_phase :: rk_phase

text \<open>Lines 119--122 and the loop's \<open>i = 0\<close>: nothing printed yet.\<close>

definition rk_init :: "'f \<Rightarrow> 'f \<Rightarrow> 'f rk_state" where
  "rk_init x0 y0 = \<lparr>rs_i = 0, rs_x = x0, rs_y = y0, rs_trace = [], rs_phase = Running\<rparr>"

text \<open>
  Lines 132--142 for the signed step \<open>h\<close> and the count \<open>n\<close>: while
  \<open>i < n\<close> the body prints \<open>(current_x, y)\<close> and either completes the RK4
  step and increments \<open>i\<close>, or exits in \<open>calculateDerivative\<close>; when the test
  fails the loop is left.
\<close>

inductive rk_machine_step ::
  "'f fops \<Rightarrow> 'f equation \<Rightarrow> 'f \<Rightarrow> int \<Rightarrow> 'f rk_state \<Rightarrow> 'f rk_state \<Rightarrow> bool"
  for F eq h n where
  iterate: "rs_phase s = Running \<Longrightarrow> rs_i s < n \<Longrightarrow>
     rk4_step F eq h (rs_x s) (rs_y s) = Inr (x', y') \<Longrightarrow>
     rk_machine_step F eq h n s
       (s\<lparr>rs_i := rs_i s + 1, rs_x := x', rs_y := y', rs_trace := rs_trace s @ [(rs_x s, rs_y s)]\<rparr>)"
| abort: "rs_phase s = Running \<Longrightarrow> rs_i s < n \<Longrightarrow>
     rk4_step F eq h (rs_x s) (rs_y s) = Inl e \<Longrightarrow>
     rk_machine_step F eq h n s
       (s\<lparr>rs_trace := rs_trace s @ [(rs_x s, rs_y s)], rs_phase := Aborted e\<rparr>)"
| finish: "rs_phase s = Running \<Longrightarrow> \<not> rs_i s < n \<Longrightarrow>
     rk_machine_step F eq h n s (s\<lparr>rs_phase := Finished\<rparr>)"

inductive_cases rk_machine_stepE: "rk_machine_step F eq h n s t"

code_pred rk_machine_step .

text \<open>
  What a final state hands back to the caller: the returned \<open>y\<close>, or the
  error that ended the run; a running state has no result yet.
\<close>

fun rk_outcome :: "'f rk_state \<Rightarrow> 'f result option" where
  "rk_outcome s = (case rs_phase s of
                     Running \<Rightarrow> None
                   | Finished \<Rightarrow> Some (Inr (rs_y s))
                   | Aborted e \<Rightarrow> Some (Inl e))"

text \<open>
  The invariant of the loop: \<open>i\<close> counts the completed iterations, from 0 up
  to \<open>max 0 n\<close>; one line is printed per completed iteration, plus the line of
  an iteration that exited; the loop is left only at \<open>i = max 0 n\<close> and exits
  only while \<open>i < n\<close>.
\<close>

definition rk_inv :: "int \<Rightarrow> 'f rk_state \<Rightarrow> bool" where
  "rk_inv n s \<longleftrightarrow>
     0 \<le> rs_i s \<and> rs_i s \<le> max 0 n \<and>
     length (rs_trace s) = nat (rs_i s) + (case rs_phase s of Aborted e \<Rightarrow> 1 | _ \<Rightarrow> 0) \<and>
     (rs_phase s = Finished \<longrightarrow> rs_i s = max 0 n) \<and>
     (case rs_phase s of Aborted e \<Rightarrow> rs_i s < n | _ \<Rightarrow> True)"

text \<open>The distance to the end of the loop, which every step decreases.\<close>

definition rk_variant :: "int \<Rightarrow> 'f rk_state \<Rightarrow> nat" where
  "rk_variant n s = (if rs_phase s = Running then 2 * nat (n - rs_i s) + 1 else 0)"

section \<open>Lemmas\<close>

lemma rk_machine_step_running: "rk_machine_step F eq h n s t \<Longrightarrow> rs_phase s = Running"
  by (erule rk_machine_stepE) simp_all

lemma rk_machine_step_progress:
  "rs_phase s = Running \<Longrightarrow> \<exists>t. rk_machine_step F eq h n s t"
proof (cases "rs_i s < n")
  case True
  assume "rs_phase s = Running"
  with True show ?thesis
    by (cases "rk4_step F eq h (rs_x s) (rs_y s)")
       (auto intro: rk_machine_step.abort rk_machine_step.iterate)
next
  case False
  assume "rs_phase s = Running"
  with False show ?thesis by (auto intro: rk_machine_step.finish)
qed

lemma rk_machine_step_variant:
  "rk_machine_step F eq h n s t \<Longrightarrow> rk_variant n t < rk_variant n s"
  by (induction rule: rk_machine_step.induct) (auto simp: rk_variant_def)

lemma rk_inv_init: "rk_inv n (rk_init x0 y0)"
  by (simp add: rk_inv_def rk_init_def)

lemma rk_inv_step: "rk_machine_step F eq h n s t \<Longrightarrow> rk_inv n s \<Longrightarrow> rk_inv n t"
  by (induction rule: rk_machine_step.induct) (auto simp: rk_inv_def)

lemma rk_reach_inv:
  "(rk_machine_step F eq h n)\<^sup>*\<^sup>* (rk_init x0 y0) s \<Longrightarrow> rk_inv n s"
  by (induction rule: rtranclp_induct) (auto intro: rk_inv_init rk_inv_step)

lemma rk_reach_x:
  assumes "(rk_machine_step F eq h n)\<^sup>*\<^sup>* (rk_init x0 y0) s"
  shows "rs_x s = ((\<lambda>x. f_add F x h) ^^ nat (rs_i s)) x0 \<and> 0 \<le> rs_i s"
  using assms
proof (induction rule: rtranclp_induct)
  case base
  show ?case by (simp add: rk_init_def)
next
  case (step s t)
  from step(2,3) show ?case
    by (induction rule: rk_machine_step.induct)
       (auto simp: rk4_step_fst nat_add_distrib)
qed

lemma rk_reach_final_from:
  "rs_phase s = Running \<Longrightarrow> nat (n - rs_i s) = m \<Longrightarrow>
     \<exists>k t. (rk_machine_step F eq h n ^^ k) s t \<and> k \<le> m + 1 \<and> rs_phase t \<noteq> Running"
proof (induction m arbitrary: s)
  case 0
  then have "rk_machine_step F eq h n s (s\<lparr>rs_phase := Finished\<rparr>)"
    by (auto intro: rk_machine_step.finish)
  then show ?case by (metis le_add2 relpowp_1 rk_phase.distinct(1) ext_inject surjective update_convs(5))
next
  case (Suc m)
  then have run: "rs_i s < n" by simp
  show ?case
  proof (cases "rk4_step F eq h (rs_x s) (rs_y s)")
    case (Inl e)
    with Suc.prems run have "rk_machine_step F eq h n s
       (s\<lparr>rs_trace := rs_trace s @ [(rs_x s, rs_y s)], rs_phase := Aborted e\<rparr>)"
      by (auto intro: rk_machine_step.abort)
    then show ?thesis by (metis le_add2 relpowp_1 rk_phase.distinct(3) select_convs(5) surjective update_convs(4,5))
  next
    case (Inr xy)
    obtain x' y' where xy: "xy = (x', y')" by (cases xy)
    let ?t = "s\<lparr>rs_i := rs_i s + 1, rs_x := x', rs_y := y', rs_trace := rs_trace s @ [(rs_x s, rs_y s)]\<rparr>"
    from Suc.prems run Inr xy have st: "rk_machine_step F eq h n s ?t"
      by (auto intro: rk_machine_step.iterate)
    from Suc.prems have "rs_phase ?t = Running" "nat (n - rs_i ?t) = m" by simp_all
    from Suc.IH [OF this] obtain k u where "(rk_machine_step F eq h n ^^ k) ?t u" "k \<le> m + 1"
      "rs_phase u \<noteq> Running" by blast
    with st show ?thesis by (metis Suc_le_mono add_Suc relpowp_Suc_I2)
  qed
qed

text \<open>
  A run used by the examples below: for \<open>y' = 0\<close> (\<open>a = 1\<close>, \<open>b = 0\<close>, no
  terms), step \<open>1/2\<close> and one iteration, the machine completes one step and
  leaves the loop.
\<close>

lemma rk_machine_example_run:
  "(rk_machine_step exact_ops \<lparr>y_coefficient = 0, y_prime_coefficient = 1, gx_term_count = 0,
      gx_coefficients = [] :: real list, gx_powers = []\<rparr> (1/2) 1)\<^sup>*\<^sup>* (rk_init 0 1)
     \<lparr>rs_i = 1, rs_x = 1/2, rs_y = 1, rs_trace = [(0, 1)], rs_phase = Finished\<rparr>"
proof -
  let ?eq = "\<lparr>y_coefficient = 0, y_prime_coefficient = 1, gx_term_count = 0,
      gx_coefficients = [] :: real list, gx_powers = []\<rparr>"
  have d: "calculateDerivative exact_ops x y ?eq = Inr 0" for x y
    by (simp add: calculateDerivative_wf wf_equation_def gx_fold_def)
  then have "rk4_step exact_ops ?eq (1/2) 0 1 = Inr (1/2, 1)"
    by (simp add: rk4_step_def rk4_scheme_def)
  then have "rk_machine_step exact_ops ?eq (1/2) 1 (rk_init 0 1)
               \<lparr>rs_i = 1, rs_x = 1/2, rs_y = 1, rs_trace = [(0, 1)], rs_phase = Running\<rparr>"
    using rk_machine_step.iterate [of "rk_init 0 1" 1 exact_ops ?eq "1/2"] by (simp add: rk_init_def)
  moreover have "rk_machine_step exact_ops ?eq (1/2) 1
               \<lparr>rs_i = 1, rs_x = 1/2, rs_y = 1, rs_trace = [(0, 1)], rs_phase = Running\<rparr>
               \<lparr>rs_i = 1, rs_x = 1/2, rs_y = 1, rs_trace = [(0, 1)], rs_phase = Finished\<rparr>"
    using rk_machine_step.finish [of "\<lparr>rs_i = 1, rs_x = 1/2, rs_y = 1, rs_trace = [(0, 1)], rs_phase = Running\<rparr>" 1]
    by simp
  ultimately show ?thesis by (meson rtranclp.rtrancl_into_rtrancl rtranclp.rtrancl_refl)
qed

section \<open>Properties\<close>

text \<open>
  C19 (invariant). In every state a run of the loop reaches, \<open>i\<close> lies
  between 0 and \<open>max 0 n\<close>, one trace line has been printed per completed
  iteration (plus the line of the iteration that exited, if one did), and the
  loop has been left only with \<open>i = max 0 n\<close>.
\<close>

theorem rk_machine_invariant:
  assumes "(rk_machine_step F eq h n)\<^sup>*\<^sup>* (rk_init x0 y0) s"
  shows "0 \<le> rs_i s \<and> rs_i s \<le> max 0 n \<and>
         length (rs_trace s) = nat (rs_i s) + (if rs_phase s \<in> {Running, Finished} then 0 else 1) \<and>
         (rs_phase s = Finished \<longrightarrow> rs_i s = max 0 n)"
  using rk_reach_inv [OF assms] by (auto simp: rk_inv_def split: rk_phase.splits)

theorem rk_machine_invariant_witness:
  "0 \<le> rs_i \<lparr>rs_i = 1, rs_x = 1/2, rs_y = 1 :: real, rs_trace = [(0, 1)], rs_phase = Finished\<rparr> \<and>
   length (rs_trace \<lparr>rs_i = 1, rs_x = 1/2, rs_y = 1 :: real, rs_trace = [(0, 1)], rs_phase = Finished\<rparr>) = 1"
  using rk_machine_invariant [OF rk_machine_example_run] by simp

text \<open>
  C20 (termination). The loop has no infinite run: the converse of the step
  relation is well-founded, for any semantics, step and count, because every
  step decreases \<open>2 (n - i) + 1\<close> in a running state and no step leaves a
  final one.
\<close>

theorem rk_machine_terminates: "wf {(t, s). rk_machine_step F eq h n s t}"
proof (rule wf_subset [OF wf_measure [of "rk_variant n"]])
  show "{(t, s). rk_machine_step F eq h n s t} \<subseteq> measure (rk_variant n)"
    by (auto dest: rk_machine_step_variant)
qed

text \<open>
  C21 (liveness). From the initial point, every run of the loop reaches a
  final state, returning or exiting, within \<open>max 0 n + 1\<close> steps.
\<close>

theorem rk_machine_reaches_final:
  "\<exists>k s. (rk_machine_step F eq h n ^^ k) (rk_init x0 y0) s \<and> k \<le> nat n + 1 \<and> rk_outcome s \<noteq> None"
proof -
  from rk_reach_final_from [of "rk_init x0 y0" n "nat n" F eq h]
  obtain k s where "(rk_machine_step F eq h n ^^ k) (rk_init x0 y0) s" "k \<le> nat n + 1"
    "rs_phase s \<noteq> Running"
    by (auto simp: rk_init_def)
  then show ?thesis by (auto split: rk_phase.splits)
qed

text \<open>
  C22 (invariant). \<open>current_x\<close> is accumulated, not recomputed: in every
  reached state it is \<open>x0\<close> with \<open>h\<close> added \<open>i\<close> times in the program's
  arithmetic, so with rounding it drifts from \<open>x0 + i h\<close>.
\<close>

theorem rk_machine_x_accumulates:
  assumes "(rk_machine_step F eq h n)\<^sup>*\<^sup>* (rk_init x0 y0) s"
  shows "rs_x s = ((\<lambda>x. f_add F x h) ^^ nat (rs_i s)) x0"
  using rk_reach_x [OF assms] by simp

theorem rk_machine_x_accumulates_witness:
  "rs_x \<lparr>rs_i = 1, rs_x = 1/2, rs_y = 1 :: real, rs_trace = [(0, 1)], rs_phase = Finished\<rparr> =
     ((\<lambda>x. f_add exact_ops x (1/2)) ^^ 1) 0"
  using rk_machine_x_accumulates [OF rk_machine_example_run] by simp

text \<open>
  C23 (type). When the count \<open>n\<close> is an \<open>int\<close>, the loop counter \<open>i\<close> is
  an \<open>int\<close> in every reached state and \<open>i++\<close>, executed only while
  \<open>i < n\<close>, never overflows.
\<close>

theorem rk_machine_counter_in_int32:
  assumes "(rk_machine_step F eq h n)\<^sup>*\<^sup>* (rk_init x0 y0) s" "in_int32 n"
  shows "in_int32 (rs_i s) \<and> (rs_i s < n \<longrightarrow> in_int32 (rs_i s + 1))"
  using rk_reach_inv [OF assms(1)] assms(2)
  by (auto simp: rk_inv_def in_int32_def int32_min_def int32_max_def)

theorem rk_machine_counter_in_int32_witness:
  "in_int32 (1 :: int) \<and> in_int32 (rs_i \<lparr>rs_i = 1, rs_x = 1/2, rs_y = 1 :: real, rs_trace = [(0, 1)], rs_phase = Finished\<rparr>)"
  using rk_machine_counter_in_int32 [OF rk_machine_example_run] by (simp add: in_int32_def int32_min_def int32_max_def)


end
