(* ===== verification/Main_IO.thy ===== *)
theory Main_IO
  imports Driver Print_Equation
begin

text \<open>
  The terminal transcript of \<open>main\<close> (\<open>src/runge.c\<close> lines 24--95), the
  \<open>printf\<close> calls of \<open>printEquation\<close>, \<open>rungeKutta\<close> and
  \<open>printAbsoluteError\<close>, and the error message of \<open>calculateDerivative\<close>:
  the calls that write to \<open>stdout\<close> and \<open>stderr\<close> and the values each
  \<open>scanf\<close> stores, as one list of events in program order. The text of a
  \<open>%f\<close> or \<open>%lf\<close> conversion is a parameter \<open>fmt\<close> (both print the
  \<open>double\<close> a \<open>float\<close> argument is promoted to); \<open>perror\<close> is recorded
  with its message, since the text it appends comes from \<open>errno\<close>. The order
  is the order of the calls, not the order in which buffered bytes reach a
  terminal.
\<close>

section \<open>Events\<close>

datatype 'f io_event = Stdout string | Stderr string | Perror string | Scan_int int | Scan_float 'f

fun is_scan :: "'f io_event \<Rightarrow> bool" where
  "is_scan (Scan_int v) = True"
| "is_scan (Scan_float v) = True"
| "is_scan _ = False"

text \<open>A prompt: a write to \<open>stdout\<close> that ends in \<open>": "\<close>.\<close>

fun is_prompt :: "'f io_event \<Rightarrow> bool" where
  "is_prompt (Stdout p) = (drop (length p - 2) p = '': '' \<and> 2 \<le> length p)"
| "is_prompt _ = False"

section \<open>The writes of the callees\<close>

text \<open>Line 134: \<open>printf("f(%lf)=%lf\n", current_x, y);\<close>\<close>

definition trace_line :: "('f \<Rightarrow> string) \<Rightarrow> 'f \<times> 'f \<Rightarrow> string" where
  "trace_line fmt xy = ''f('' @ fmt (fst xy) @ '')='' @ fmt (snd xy) @ ''\<newline>''"

text \<open>Line 111, written before \<open>exit(EXIT_FAILURE)\<close>.\<close>

definition derivative_error_message :: string where
  "derivative_error_message = ''Error: Coefficient of y' is zero, cannot calculate derivative.\<newline>''"

text \<open>
  Lines 129--142: \<open>"ITERATIONS"\<close> once the count is computed, a trace line
  per iteration, and the message of \<open>calculateDerivative\<close> when a step exits.
\<close>

definition rungeKutta_io ::
  "'f fops \<Rightarrow> ('f \<Rightarrow> string) \<Rightarrow> 'f \<Rightarrow> 'f \<Rightarrow> 'f \<Rightarrow> 'f \<Rightarrow> 'f equation \<Rightarrow> 'f io_event list \<times> 'f result" where
  "rungeKutta_io F fmt x0 y0 x_target h eq =
     (case iteration_count F x0 x_target h of
        None \<Rightarrow> ([], Inl IterationCountUndefined)
      | Some n \<Rightarrow>
          (case rk_loop F eq (step_size F x0 x_target h) 0 n x0 y0 of
             (tr, r) \<Rightarrow>
               (Stdout ''ITERATIONS\<newline>'' # map (\<lambda>xy. Stdout (trace_line fmt xy)) tr
                  @ (if r = Inl ZeroYPrimeCoefficient then [Stderr derivative_error_message] else []),
                r)))"

text \<open>Lines 158--161.\<close>

definition printAbsoluteError_io :: "'f fops \<Rightarrow> ('f \<Rightarrow> string) \<Rightarrow> 'f \<Rightarrow> 'f \<Rightarrow> 'f io_event list" where
  "printAbsoluteError_io F fmt trueValue approximateValue =
     [Stdout (''Absolute error: '' @ fmt (absolute_error F trueValue approximateValue) @ ''\<newline>'')]"

section \<open>main\<close>

text \<open>Lines 36--44: the banner and the three integers of the equation.\<close>

definition header_io :: "'f main_input \<Rightarrow> 'f io_event list" where
  "header_io inp =
     [Stdout ''Runge-Kutta method for first-order differential equation\<newline>'',
      Stdout ''a * y' + b * y = g(x)\<newline>\<newline>'',
      Stdout ''Enter the coefficient of y': '', Scan_int (in_y_prime_coefficient inp),
      Stdout ''Enter the coefficient of y: '', Scan_int (in_y_coefficient inp),
      Stdout ''Enter the number of terms in g(x): '', Scan_int (in_term_count inp)]"

text \<open>Lines 56--62: two prompts and two reads per term, numbered from 1.\<close>

fun read_terms_io :: "int \<Rightarrow> ('f \<times> int) list \<Rightarrow> 'f io_event list" where
  "read_terms_io i [] = []"
| "read_terms_io i ((c, p) # ts) =
     [Stdout (''Enter the coefficient for the '' @ show_int (i + 1) @ ''. term of g(x): ''), Scan_float c,
      Stdout (''Enter the power for the '' @ show_int (i + 1) @ ''. term of g(x): ''), Scan_int p]
     @ read_terms_io (i + 1) ts"

text \<open>Lines 67--82: the initial point, the step, the target and the reference value.\<close>

definition read_problem_io :: "'f main_input \<Rightarrow> 'f io_event list" where
  "read_problem_io inp =
     [Stdout ''Enter initial values for the solution:\<newline>'',
      Stdout ''x0: '', Scan_float (in_x0 inp), Stdout ''y0: '', Scan_float (in_y0 inp),
      Stdout ''Enter the step size (h): '', Scan_float (in_h inp),
      Stdout ''Enter the x value to find the solution at: '', Scan_float (in_x_target inp),
      Stdout ''Enter the true value of the function at the target point: '', Scan_float (in_true_value inp),
      Stdout ''\<newline>\<newline>'']"

text \<open>Lines 85--88: the result twice and the absolute error.\<close>

definition result_io :: "'f fops \<Rightarrow> ('f \<Rightarrow> string) \<Rightarrow> 'f main_input \<Rightarrow> 'f \<Rightarrow> 'f io_event list" where
  "result_io F fmt inp result =
     [Stdout (''y('' @ fmt (in_x_target inp) @ '') = '' @ fmt result @ ''\<newline>''),
      Stdout (''Approximate value of the equation at point '' @ fmt (in_x_target inp) @ '': ''
              @ fmt result @ ''\<newline>'')]
     @ printAbsoluteError_io F fmt (in_true_value inp) result"

text \<open>
  The whole of \<open>main\<close>: the transcript up to the exit and the exit status, with
  the allocation outcomes as in \<open>main_model\<close>.
\<close>

definition main_io ::
  "'f fops \<Rightarrow> ('f \<Rightarrow> string) \<Rightarrow> bool \<Rightarrow> (int \<Rightarrow> bool) \<Rightarrow> 'f main_input \<Rightarrow> 'f io_event list \<times> exit_status" where
  "main_io F fmt equation_alloc buffers_alloc inp =
     (if \<not> equation_alloc then ([Perror ''Memory allocation failed for equation''], Exit_Alloc_Failure)
      else if \<not> buffers_alloc (in_term_count inp) then
        (header_io inp @ [Perror ''Memory allocation failed for g(x) terms''], Exit_Alloc_Failure)
      else
        (let eq = read_equation inp;
             input = header_io inp @ read_terms_io 0 (in_terms inp) @ [Stdout ''Entered equation: '']
         in case printEquation fmt eq of
              Inl e \<Rightarrow> (input, Undefined_Behaviour)
            | Inr line \<Rightarrow>
                (let before = input @ [Stdout line] @ read_problem_io inp
                 in case rungeKutta_io F fmt (in_x0 inp) (in_y0 inp) (in_x_target inp) (in_h inp) eq of
                      (out, Inr result) \<Rightarrow> (before @ out @ result_io F fmt inp result, Exit_Success)
                    | (out, Inl ZeroYPrimeCoefficient) \<Rightarrow> (before @ out, Exit_Failure)
                    | (out, Inl e) \<Rightarrow> (before @ out, Undefined_Behaviour))))"

section \<open>Reading the transcript back\<close>

text \<open>The values a transcript's reads stored, decoded into an input record.\<close>

fun scans :: "'f io_event list \<Rightarrow> 'f io_event list" where
  "scans [] = []"
| "scans (e # es) = (if is_scan e then e # scans es else scans es)"

fun parse_terms :: "nat \<Rightarrow> 'f io_event list \<Rightarrow> (('f \<times> int) list \<times> 'f io_event list) option" where
  "parse_terms 0 es = Some ([], es)"
| "parse_terms (Suc k) (Scan_float c # Scan_int p # es) =
     (case parse_terms k es of Some (ts, rest) \<Rightarrow> Some ((c, p) # ts, rest) | None \<Rightarrow> None)"
| "parse_terms (Suc k) es = None"

fun parse_input :: "'f io_event list \<Rightarrow> 'f main_input option" where
  "parse_input (Scan_int a # Scan_int b # Scan_int cnt # es) =
     (case parse_terms (nat cnt) es of
        Some (ts, [Scan_float x0, Scan_float y0, Scan_float h, Scan_float xt, Scan_float tv]) \<Rightarrow>
          Some \<lparr>in_y_prime_coefficient = a, in_y_coefficient = b, in_term_count = cnt, in_terms = ts,
                in_x0 = x0, in_y0 = y0, in_h = h, in_x_target = xt, in_true_value = tv\<rparr>
      | _ \<Rightarrow> None)"
| "parse_input es = None"

text \<open>
  Every read directly follows a prompt: \<open>prompted_after p es\<close> checks the
  events \<open>es\<close> after the event \<open>p\<close> (\<open>None\<close> at the start).
\<close>

fun prompted_after :: "'f io_event option \<Rightarrow> 'f io_event list \<Rightarrow> bool" where
  "prompted_after p [] = True"
| "prompted_after p (e # es) =
     ((is_scan e \<longrightarrow> (case p of Some a \<Rightarrow> is_prompt a | None \<Rightarrow> False)) \<and> prompted_after (Some e) es)"

definition reads_prompted :: "'f io_event list \<Rightarrow> bool" where
  "reads_prompted es = prompted_after None es"

section \<open>Lemmas\<close>

lemma prompted_after_None: "prompted_after None es \<Longrightarrow> prompted_after p es"
  by (cases es) simp_all

lemma prompted_after_append:
  "prompted_after p xs \<Longrightarrow> prompted_after None ys \<Longrightarrow> prompted_after p (xs @ ys)"
  by (induction xs arbitrary: p) (simp_all add: prompted_after_None)

lemma prompted_after_no_scan: "\<forall>e \<in> set es. \<not> is_scan e \<Longrightarrow> prompted_after p es"
  by (induction es arbitrary: p) simp_all

lemma read_terms_io_prompted: "prompted_after None (read_terms_io i ts)"
proof (induction i ts rule: read_terms_io.induct)
  case (2 i c p ts)
  then show ?case by (simp add: prompted_after_append prompted_after_None)
qed simp

lemma read_terms_io_prompted_append:
  "prompted_after None rest \<Longrightarrow> prompted_after p (read_terms_io i ts @ rest)"
  using prompted_after_append [OF prompted_after_None [OF read_terms_io_prompted]] by blast

lemma prompted_after_no_scan_append:
  "\<forall>e \<in> set xs. \<not> is_scan e \<Longrightarrow> prompted_after None ys \<Longrightarrow> prompted_after p (xs @ ys)"
  by (rule prompted_after_append [OF prompted_after_no_scan])

lemma rungeKutta_io_no_scan:
  "\<forall>e \<in> set (fst (rungeKutta_io F fmt x0 y0 x_target h eq)). \<not> is_scan e"
  by (auto simp: rungeKutta_io_def split: option.split prod.split)

lemma result_io_no_scan: "\<forall>e \<in> set (result_io F fmt inp y). \<not> is_scan e"
  by (simp add: result_io_def printAbsoluteError_io_def)

lemma scans_append [simp]: "scans (xs @ ys) = scans xs @ scans ys"
  by (induction xs) simp_all

lemma scans_no_scan: "\<forall>e \<in> set es. \<not> is_scan e \<Longrightarrow> scans es = []"
  by (induction es) simp_all

lemma scans_read_terms_io:
  "scans (read_terms_io i ts) = concat (map (\<lambda>(c, p). [Scan_float c, Scan_int p]) ts)"
  by (induction i ts rule: read_terms_io.induct) simp_all

lemma parse_terms_concat:
  "parse_terms (length ts) (concat (map (\<lambda>(c, p). [Scan_float c, Scan_int p]) ts) @ rest) = Some (ts, rest)"
  by (induction ts) auto

lemma printEquation_wf:
  "wf_equation eq \<Longrightarrow> \<exists>line. printEquation fmt eq = Inr line"
  using print_terms_loop_join [of eq 0 fmt] by (simp add: printEquation_def)

lemma main_io_input:
  assumes "wf_input inp" "0 \<le> in_term_count inp" "buffers_alloc (in_term_count inp)"
  obtains line where
    "printEquation fmt (read_equation inp) = Inr line"
    "main_io F fmt True buffers_alloc inp =
       (let before = header_io inp @ read_terms_io 0 (in_terms inp) @ [Stdout ''Entered equation: '']
                     @ [Stdout line] @ read_problem_io inp
        in case rungeKutta_io F fmt (in_x0 inp) (in_y0 inp) (in_x_target inp) (in_h inp) (read_equation inp) of
             (out, Inr result) \<Rightarrow> (before @ out @ result_io F fmt inp result, Exit_Success)
           | (out, Inl ZeroYPrimeCoefficient) \<Rightarrow> (before @ out, Exit_Failure)
           | (out, Inl e) \<Rightarrow> (before @ out, Undefined_Behaviour))"
proof -
  from printEquation_wf [OF read_equation_wf [OF assms(1,2)]]
  obtain line where "printEquation fmt (read_equation inp) = Inr line" by blast
  with assms(3) show ?thesis using that by (simp add: main_io_def Let_def)
qed

section \<open>Properties\<close>

text \<open>
  C24 (safety). Whatever the input and the outcome of the allocations, every
  \<open>scanf\<close> of \<open>main\<close> is issued directly after a prompt ending in \<open>": "\<close>,
  and no read comes first: the prompts and the reads interleave as the
  program promises the user.
\<close>

theorem main_reads_prompted: "reads_prompted (fst (main_io F fmt equation_alloc buffers_alloc inp))"
  using rungeKutta_io_no_scan [of F fmt "in_x0 inp" "in_y0 inp" "in_x_target inp" "in_h inp" "read_equation inp"]
  by (auto simp: reads_prompted_def main_io_def Let_def header_io_def read_problem_io_def
                 read_terms_io_prompted_append prompted_after_no_scan_append prompted_after_no_scan
                 result_io_no_scan
           split: sum.split prod.split rk_error.split)

theorem main_reads_prompted_witness:
  "reads_prompted (fst (main_io exact_ops (\<lambda>_. ''v'') True (\<lambda>_. True)
     \<lparr>in_y_prime_coefficient = 1, in_y_coefficient = 1, in_term_count = 1, in_terms = [(2, 3)],
      in_x0 = 0, in_y0 = 1, in_h = 1/2, in_x_target = 1, in_true_value = 1\<rparr>))"
  using main_reads_prompted [of exact_ops "\<lambda>_. ''v''" True "\<lambda>_. True"] by simp

text \<open>
  C25 (roundtrip). When the allocations succeed and \<open>scanf\<close> delivers every
  value, the values the transcript's reads store, in order, decode to the
  input: the coefficient of \<open>y'\<close>, of \<open>y\<close>, the count, a coefficient and
  a power per term, then \<open>x0\<close>, \<open>y0\<close>, \<open>h\<close>, the target and the reference
  value; and no other event of the run is a read.
\<close>

theorem main_io_scans_roundtrip:
  assumes "wf_input inp" "0 \<le> in_term_count inp" "buffers_alloc (in_term_count inp)"
  shows "parse_input (scans (fst (main_io F fmt True buffers_alloc inp))) = Some inp"
proof -
  obtain line where main: "main_io F fmt True buffers_alloc inp =
       (let before = header_io inp @ read_terms_io 0 (in_terms inp) @ [Stdout ''Entered equation: '']
                     @ [Stdout line] @ read_problem_io inp
        in case rungeKutta_io F fmt (in_x0 inp) (in_y0 inp) (in_x_target inp) (in_h inp) (read_equation inp) of
             (out, Inr result) \<Rightarrow> (before @ out @ result_io F fmt inp result, Exit_Success)
           | (out, Inl ZeroYPrimeCoefficient) \<Rightarrow> (before @ out, Exit_Failure)
           | (out, Inl e) \<Rightarrow> (before @ out, Undefined_Behaviour))"
    using main_io_input [where inp = inp and buffers_alloc = buffers_alloc and fmt = fmt and F = F, OF assms] by blast
  have out: "scans (fst (rungeKutta_io F fmt (in_x0 inp) (in_y0 inp) (in_x_target inp) (in_h inp) (read_equation inp))) = []"
    by (rule scans_no_scan [OF rungeKutta_io_no_scan])
  have len: "nat (in_term_count inp) = length (in_terms inp)" using assms(1) by (simp add: wf_input_def)
  have "scans (fst (main_io F fmt True buffers_alloc inp)) =
          [Scan_int (in_y_prime_coefficient inp), Scan_int (in_y_coefficient inp), Scan_int (in_term_count inp)]
          @ concat (map (\<lambda>(c, p). [Scan_float c, Scan_int p]) (in_terms inp))
          @ [Scan_float (in_x0 inp), Scan_float (in_y0 inp), Scan_float (in_h inp),
             Scan_float (in_x_target inp), Scan_float (in_true_value inp)]"
    using out by (auto simp: main Let_def header_io_def read_problem_io_def scans_read_terms_io
                             scans_no_scan [OF result_io_no_scan] split: prod.split sum.split rk_error.split)
  then show ?thesis
    by (simp add: len parse_terms_concat)
qed

theorem main_io_scans_roundtrip_witness:
  "wf_input \<lparr>in_y_prime_coefficient = 1, in_y_coefficient = 1, in_term_count = 1, in_terms = [(2 :: real, 3)],
      in_x0 = 0, in_y0 = 1, in_h = 1/2, in_x_target = 1, in_true_value = 1\<rparr> \<and>
   parse_input (scans (fst (main_io exact_ops (\<lambda>_. ''v'') True (\<lambda>_. True)
     \<lparr>in_y_prime_coefficient = 1, in_y_coefficient = 1, in_term_count = 1, in_terms = [(2, 3)],
      in_x0 = 0, in_y0 = 1, in_h = 1/2, in_x_target = 1, in_true_value = 1\<rparr>))) =
   Some \<lparr>in_y_prime_coefficient = 1, in_y_coefficient = 1, in_term_count = 1, in_terms = [(2, 3)],
      in_x0 = 0, in_y0 = 1, in_h = 1/2, in_x_target = 1, in_true_value = 1\<rparr>"
proof -
  let ?inp = "\<lparr>in_y_prime_coefficient = 1, in_y_coefficient = 1, in_term_count = 1, in_terms = [(2 :: real, 3)],
      in_x0 = 0, in_y0 = 1, in_h = 1/2, in_x_target = 1, in_true_value = 1\<rparr>"
  have wf: "wf_input ?inp" by (simp add: wf_input_def)
  show ?thesis
    using main_io_scans_roundtrip [OF wf _ , of "\<lambda>_. True" exact_ops "\<lambda>_. ''v''"] wf by simp
qed

text \<open>
  C26 (error). With a zero coefficient of \<open>y'\<close> and at least one iteration
  due, \<open>main\<close> has already read the whole problem and printed
  \<open>"ITERATIONS"\<close> and the first trace line \<open>f(x0)=y0\<close> when
  \<open>calculateDerivative\<close> writes its error to \<open>stderr\<close> and exits with
  failure; no result is printed.
\<close>

theorem main_io_zero_coefficient:
  assumes "wf_input inp" "0 \<le> in_term_count inp" "buffers_alloc (in_term_count inp)"
    and "in_y_prime_coefficient inp = 0"
    and "iteration_count F (in_x0 inp) (in_x_target inp) (in_h inp) = Some n" "0 < n"
  shows "\<exists>line. main_io F fmt True buffers_alloc inp =
           (header_io inp @ read_terms_io 0 (in_terms inp) @ [Stdout ''Entered equation: '', Stdout line]
            @ read_problem_io inp
            @ [Stdout ''ITERATIONS\<newline>'', Stdout (trace_line fmt (in_x0 inp, in_y0 inp)),
               Stderr derivative_error_message],
            Exit_Failure)"
proof -
  obtain line where main: "main_io F fmt True buffers_alloc inp =
       (let before = header_io inp @ read_terms_io 0 (in_terms inp) @ [Stdout ''Entered equation: '']
                     @ [Stdout line] @ read_problem_io inp
        in case rungeKutta_io F fmt (in_x0 inp) (in_y0 inp) (in_x_target inp) (in_h inp) (read_equation inp) of
             (out, Inr result) \<Rightarrow> (before @ out @ result_io F fmt inp result, Exit_Success)
           | (out, Inl ZeroYPrimeCoefficient) \<Rightarrow> (before @ out, Exit_Failure)
           | (out, Inl e) \<Rightarrow> (before @ out, Undefined_Behaviour))"
    using main_io_input [where inp = inp and buffers_alloc = buffers_alloc and fmt = fmt and F = F,
                         OF assms(1-3)] by blast
  have "y_prime_coefficient (read_equation inp) = 0" using assms(4) by (simp add: read_equation_def)
  then have "rungeKutta_io F fmt (in_x0 inp) (in_y0 inp) (in_x_target inp) (in_h inp) (read_equation inp) =
               ([Stdout ''ITERATIONS\<newline>'', Stdout (trace_line fmt (in_x0 inp, in_y0 inp)),
                 Stderr derivative_error_message], Inl ZeroYPrimeCoefficient)"
    using assms(5,6) by (simp add: rungeKutta_io_def rk_loop_fail rk4_step_zero_coefficient)
  then show ?thesis by (simp add: main Let_def)
qed

theorem main_io_zero_coefficient_witness:
  "wf_input \<lparr>in_y_prime_coefficient = 0, in_y_coefficient = 1, in_term_count = 0, in_terms = [],
      in_x0 = 0, in_y0 = 1, in_h = 1/2, in_x_target = 1, in_true_value = 1 :: real\<rparr> \<and>
   iteration_count exact_ops 0 1 (1/2) = Some 2 \<and>
   snd (main_io exact_ops (\<lambda>_. ''v'') True (\<lambda>_. True) \<lparr>in_y_prime_coefficient = 0, in_y_coefficient = 1,
      in_term_count = 0, in_terms = [], in_x0 = 0, in_y0 = 1, in_h = 1/2, in_x_target = 1, in_true_value = 1\<rparr>) =
   Exit_Failure"
proof -
  let ?inp = "\<lparr>in_y_prime_coefficient = 0, in_y_coefficient = 1, in_term_count = 0, in_terms = [],
      in_x0 = 0, in_y0 = 1, in_h = 1/2, in_x_target = 1, in_true_value = 1 :: real\<rparr>"
  have wf: "wf_input ?inp" by (simp add: wf_input_def)
  have n: "iteration_count exact_ops 0 1 (1/2 :: real) = Some 2"
    by (simp add: iteration_count_def step_size_def real_to_int32_def trunc_toward_zero_def
                  in_int32_def int32_min_def int32_max_def)
  show ?thesis
    using main_io_zero_coefficient [OF wf _ _ _ _, of "\<lambda>_. True" exact_ops 2 "\<lambda>_. ''v''"] wf n by auto
qed

end
