(* ===== verification/Allocation.thy ===== *)
theory Allocation
  imports Driver "HOL-Library.Word"
begin

text \<open>
  The size of the term buffers \<open>main\<close> requests (\<open>src/runge.c\<close> lines
  46--53): \<open>malloc(equation->gx_term_count * sizeof(float))\<close> and the same
  with \<open>sizeof(int)\<close>. On an LP64 platform \<open>size_t\<close> is a 64-bit unsigned
  type and \<open>sizeof(float) = sizeof(int) = 4\<close>: the \<open>int\<close> count is
  converted to \<open>size_t\<close> modulo \<open>2^64\<close> and the product wraps modulo
  \<open>2^64\<close>, so the request is a \<open>64 word\<close>. A C library's \<open>malloc\<close> is
  an arbitrary predicate on the request (whether it returns non-\<open>NULL\<close>);
  the one of glibc refuses every request above \<open>PTRDIFF_MAX\<close>.
\<close>

definition term_buffer_bytes :: "int \<Rightarrow> 64 word" where
  "term_buffer_bytes count = word_of_int count * 4"

definition ptrdiff_max :: nat where
  "ptrdiff_max = 2 ^ 63 - 1"

definition malloc_bounded :: "(64 word \<Rightarrow> bool) \<Rightarrow> bool" where
  "malloc_bounded malloc \<longleftrightarrow> (\<forall>sz. malloc sz \<longrightarrow> unat sz \<le> ptrdiff_max)"

text \<open>
  Lines 46--49: the buffers are allocated when both requests succeed; both
  requests have the same size.
\<close>

definition buffers_alloc_of :: "(64 word \<Rightarrow> bool) \<Rightarrow> int \<Rightarrow> bool" where
  "buffers_alloc_of malloc count \<longleftrightarrow> malloc (term_buffer_bytes count) \<and> malloc (term_buffer_bytes count)"

section \<open>Lemmas\<close>

lemma unat_term_buffer_bytes:
  "unat (term_buffer_bytes count) = nat ((4 * count) mod 2 ^ 64)"
proof -
  have w: "term_buffer_bytes count = word_of_int (4 * count)"
    unfolding term_buffer_bytes_def by (simp only: of_int_mult of_int_numeral mult.commute)
  have "uint (word_of_int (4 * count) :: 64 word) = (4 * count) mod 2 ^ 64"
    by (simp only: uint_word_of_int len_of_numeral_defs) simp
  then show ?thesis by (simp only: w unat_eq_nat_uint)
qed

lemma term_buffer_bytes_negative:
  assumes "in_int32 count" "count < 0"
  shows "ptrdiff_max < unat (term_buffer_bytes count)"
proof -
  from assms have lo: "- (2 ^ 33) \<le> 4 * count" "4 * count < 0"
    by (simp_all add: in_int32_def int32_min_def)
  have "(4 * count) mod 2 ^ 64 = (4 * count + 2 ^ 64) mod (2 ^ 64 :: int)"
    by (simp only: mod_add_self2)
  also have "\<dots> = 4 * count + 2 ^ 64"
    by (rule mod_pos_pos_trivial) (use lo in simp)+
  finally have m: "(4 * count) mod 2 ^ 64 = 4 * count + 2 ^ 64" .
  have "int ptrdiff_max < 4 * count + 2 ^ 64"
    using lo(1) by (simp add: ptrdiff_max_def)
  then show ?thesis
    by (simp only: unat_term_buffer_bytes m zless_nat_eq_int_zless)
qed

section \<open>Properties\<close>

text \<open>
  C27 (bounds). For a count that is a non-negative \<open>int\<close>, the request for a
  term buffer does not wrap around: it is exactly \<open>4 * count\<close> bytes, at most
  \<open>2^33\<close> and so within \<open>PTRDIFF_MAX\<close>.
\<close>

theorem term_buffer_bytes_exact:
  assumes "in_int32 count" "0 \<le> count"
  shows "unat (term_buffer_bytes count) = 4 * nat count \<and> unat (term_buffer_bytes count) \<le> ptrdiff_max"
proof -
  from assms have "4 * count < 2 ^ 64" by (simp add: in_int32_def int32_max_def)
  with assms(2) have "(4 * count) mod 2 ^ 64 = 4 * count" by simp
  moreover from assms have "nat count \<le> 2 ^ 31" by (simp add: in_int32_def int32_max_def nat_le_iff)
  ultimately show ?thesis using assms(2)
    by (simp add: unat_term_buffer_bytes ptrdiff_max_def nat_mult_distrib)
qed

theorem term_buffer_bytes_exact_witness:
  "in_int32 3 \<and> unat (term_buffer_bytes 3) = 12"
  using term_buffer_bytes_exact [of 3] by (simp add: in_int32_def int32_min_def int32_max_def)

text \<open>
  C28 (error). \<open>main\<close> does not check the count it reads; a negative count
  converted to \<open>size_t\<close> wraps to a request above \<open>PTRDIFF_MAX\<close>, which a
  \<open>malloc\<close> bounded like glibc's refuses, so the run ends in the
  allocation-failure exit before any term is read.
\<close>

theorem main_negative_count_alloc_failure:
  assumes "malloc_bounded malloc" "in_int32 (in_term_count inp)" "in_term_count inp < 0"
  shows "out_status (main_model F True (buffers_alloc_of malloc) inp) = Exit_Alloc_Failure"
proof -
  from term_buffer_bytes_negative [OF assms(2,3)] assms(1)
  have "\<not> malloc (term_buffer_bytes (in_term_count inp))"
    by (auto simp: malloc_bounded_def)
  then show ?thesis by (simp add: main_model_def buffers_alloc_of_def)
qed

theorem main_negative_count_alloc_failure_witness:
  "malloc_bounded (\<lambda>sz. unat sz \<le> ptrdiff_max) \<and> in_int32 (-1) \<and>
   out_status (main_model exact_ops True (buffers_alloc_of (\<lambda>sz. unat sz \<le> ptrdiff_max))
     \<lparr>in_y_prime_coefficient = 1, in_y_coefficient = 1, in_term_count = -1, in_terms = [],
      in_x0 = 0, in_y0 = 1, in_h = 1/2, in_x_target = 1, in_true_value = 1\<rparr>) = Exit_Alloc_Failure"
proof -
  have m: "malloc_bounded (\<lambda>sz. unat sz \<le> ptrdiff_max)" by (simp add: malloc_bounded_def)
  have c: "in_int32 (-1)" by (simp add: in_int32_def int32_min_def int32_max_def)
  have "out_status (main_model exact_ops True (buffers_alloc_of (\<lambda>sz. unat sz \<le> ptrdiff_max))
     \<lparr>in_y_prime_coefficient = 1, in_y_coefficient = 1, in_term_count = -1, in_terms = [],
      in_x0 = 0, in_y0 = 1, in_h = 1/2, in_x_target = 1, in_true_value = 1 :: real\<rparr>) = Exit_Alloc_Failure"
    by (rule main_negative_count_alloc_failure [OF m]) (simp_all only: c main_input.select_convs neg_less_0_iff_less zero_less_one)
  with m c show ?thesis by blast
qed

end
