(* ===== verification/IEEE_Ops.thy ===== *)
theory IEEE_Ops
  imports Special_Values
begin

text \<open>
  IEEE 754 binary arithmetic as C performs it on the platforms the program
  targets: \<open>float\<close> is binary32 (24-bit significand, least normal exponent
  \<open>-126\<close>), \<open>double\<close> is binary64 (53 bits, \<open>-1022\<close>), every operation
  rounds its exact result to nearest, ties to even, and a result beyond the
  largest finite value overflows to an infinity. The values are \<open>xreal\<close>:
  \<open>Fin\<close> of a representable real, or \<open>NonFinite\<close> for the infinities and
  NaN (the sign of zero and of an infinity is not kept). \<open>pow\<close> is taken
  correctly rounded; glibc's \<open>pow\<close> is within one ulp of that. \<open>scanf("%f")\<close>
  converts a decimal to the nearest \<open>float\<close> (\<open>scanf_float\<close>).
\<close>

section \<open>Rounding\<close>

text \<open>The integer nearest to \<open>r\<close>, ties to the even one.\<close>

definition round_even :: "real \<Rightarrow> int" where
  "round_even r =
     (let f = \<lfloor>r\<rfloor>; d = r - of_int f
      in if d < 1/2 then f else if 1/2 < d then f + 1 else if even f then f else f + 1)"

text \<open>
  The exponent of the spacing of the representable values around \<open>x\<close> in a
  format with precision \<open>p\<close> and least normal exponent \<open>emin\<close>: the
  spacing is \<open>2 ^ (e - p + 1)\<close> with \<open>e = max \<lfloor>log\<^sub>2 |x|\<rfloor> emin\<close>, the
  subnormals sharing the spacing of the least binade.
\<close>

definition ulp_exp :: "nat \<Rightarrow> int \<Rightarrow> real \<Rightarrow> int" where
  "ulp_exp p emin x = max \<lfloor>log 2 \<bar>x\<bar>\<rfloor> emin - int p + 1"

definition round_fmt :: "nat \<Rightarrow> int \<Rightarrow> real \<Rightarrow> real" where
  "round_fmt p emin x =
     (if x = 0 then 0
      else of_int (round_even (x / 2 powi ulp_exp p emin x)) * 2 powi ulp_exp p emin x)"

definition max_float32 :: real where "max_float32 = (2 - 2 powi (-23)) * 2 powi 127"
definition max_float64 :: real where "max_float64 = (2 - 2 powi (-52)) * 2 powi 1023"

definition round32 :: "real \<Rightarrow> xreal" where
  "round32 x = (let r = round_fmt 24 (-126) x in if \<bar>r\<bar> \<le> max_float32 then Fin r else NonFinite)"

definition round64 :: "real \<Rightarrow> xreal" where
  "round64 x = (let r = round_fmt 53 (-1022) x in if \<bar>r\<bar> \<le> max_float64 then Fin r else NonFinite)"

section \<open>The operations\<close>

fun lift2 :: "(real \<Rightarrow> xreal) \<Rightarrow> (real \<Rightarrow> real \<Rightarrow> real) \<Rightarrow> xreal \<Rightarrow> xreal \<Rightarrow> xreal" where
  "lift2 rnd op (Fin a) (Fin b) = rnd (op a b)"
| "lift2 rnd op _ _ = NonFinite"

fun ieee_div :: "(real \<Rightarrow> xreal) \<Rightarrow> xreal \<Rightarrow> xreal \<Rightarrow> xreal" where
  "ieee_div rnd (Fin a) (Fin b) = (if b = 0 then NonFinite else rnd (a / b))"
| "ieee_div rnd _ _ = NonFinite"

fun ieee_pow :: "xreal \<Rightarrow> int \<Rightarrow> xreal" where
  "ieee_pow (Fin t) p = (if t = 0 \<and> p < 0 then NonFinite else round64 (t powi p))"
| "ieee_pow NonFinite p = (if p = 0 then Fin 1 else NonFinite)"

fun to_float32 :: "xreal \<Rightarrow> xreal" where
  "to_float32 (Fin x) = round32 x"
| "to_float32 NonFinite = NonFinite"

definition ieee_ops :: "xreal fops" where
  "ieee_ops =
     \<lparr>f_add = lift2 round32 (+), f_sub = lift2 round32 (-), f_mul = lift2 round32 (*),
      f_div = ieee_div round32, f_neg = x_neg, f_lt = x_lt,
      f_of_int = (\<lambda>k. round32 (of_int k)), f_to_int = x_to_int, f_abs = x_abs,
      d_add = lift2 round64 (+), d_mul = lift2 round64 (*), d_div = ieee_div round64,
      d_lit = (\<lambda>q. round64 (of_rat q)), d_pow = ieee_pow, to_float = to_float32\<rparr>"

text \<open>\<open>scanf("%f", &v)\<close> on a decimal numeral \<open>q\<close>.\<close>

definition scanf_float :: "rat \<Rightarrow> xreal" where
  "scanf_float q = round32 (of_rat q)"

section \<open>Lemmas\<close>

lemma ieee_ops_simps [simp]:
  "f_add ieee_ops = lift2 round32 (+)" "f_sub ieee_ops = lift2 round32 (-)"
  "f_mul ieee_ops = lift2 round32 (*)" "f_div ieee_ops = ieee_div round32"
  "f_neg ieee_ops = x_neg" "f_lt ieee_ops = x_lt" "f_of_int ieee_ops = (\<lambda>k. round32 (of_int k))"
  "f_to_int ieee_ops = x_to_int" "f_abs ieee_ops = x_abs"
  "d_add ieee_ops = lift2 round64 (+)" "d_mul ieee_ops = lift2 round64 (*)"
  "d_div ieee_ops = ieee_div round64" "d_lit ieee_ops = (\<lambda>q. round64 (of_rat q))"
  "d_pow ieee_ops = ieee_pow" "to_float ieee_ops = to_float32"
  by (simp_all add: ieee_ops_def)

lemma round_even_error: "\<bar>of_int (round_even r) - r\<bar> \<le> 1/2"
proof -
  have "of_int \<lfloor>r\<rfloor> \<le> r" "r < of_int \<lfloor>r\<rfloor> + 1" by linarith+
  then show ?thesis by (auto simp: round_even_def Let_def)
qed

lemma round_even_eq:
  assumes "of_int k - 1/2 < r" "r < of_int k + 1/2"
  shows "round_even r = k"
proof -
  from assms have "\<lfloor>r\<rfloor> = k \<or> \<lfloor>r\<rfloor> = k - 1" by linarith
  then show ?thesis using assms by (auto simp: round_even_def Let_def)
qed

lemma log2_powi [simp]: "log 2 (2 powi e) = of_int e"
  using powr_real_of_int' [of "2 :: real" e] by (simp flip: powr_real_of_int')

lemma powr2_of_int: "(2 :: real) powr of_int e = 2 powi e"
  by (rule powr_real_of_int') simp_all

lemma floor_log2_eq:
  assumes "2 powi e \<le> x" "x < 2 powi (e + 1)"
  shows "\<lfloor>log 2 x\<rfloor> = e"
proof -
  have pos: "0 < x" using assms(1) zero_less_power_int [of "2 :: real" e] by linarith
  have "of_int e \<le> log 2 x"
    using assms(1) pos by (simp add: le_log_iff powr2_of_int)
  moreover have "log 2 x < of_int (e + 1)"
    using assms(2) pos by (simp only: log_less_iff [OF _ pos] powr2_of_int)
  ultimately show ?thesis by (simp add: floor_eq_iff)
qed

text \<open>Evaluating a rounding: the binade of \<open>x\<close> and the nearest multiple of its spacing.\<close>

lemma round_fmt_eq:
  assumes "2 powi e \<le> \<bar>x\<bar>" "\<bar>x\<bar> < 2 powi (e + 1)" "emin \<le> e" "u = e - int p + 1"
    and "of_int k - 1/2 < x / 2 powi u" "x / 2 powi u < of_int k + 1/2"
  shows "round_fmt p emin x = of_int k * 2 powi u"
proof -
  have "0 < (2 :: real) powi e" by simp
  with assms(1) have "0 < \<bar>x\<bar>" by linarith
  then have "x \<noteq> 0" by simp
  moreover have "ulp_exp p emin x = u"
    using floor_log2_eq [OF assms(1,2)] assms(3,4) by (simp add: ulp_exp_def)
  ultimately show ?thesis using round_even_eq [OF assms(5,6)] by (simp add: round_fmt_def)
qed

lemma powi_floor_log2_le: "x \<noteq> 0 \<Longrightarrow> 2 powi \<lfloor>log 2 \<bar>x\<bar>\<rfloor> \<le> \<bar>x\<bar>"
proof -
  assume "x \<noteq> 0"
  then have pos: "0 < \<bar>x\<bar>" by simp
  have "2 powr of_int \<lfloor>log 2 \<bar>x\<bar>\<rfloor> \<le> 2 powr log 2 \<bar>x\<bar>"
    by (rule powr_mono) simp_all
  then show ?thesis using pos by (simp add: powr2_of_int)
qed

text \<open>
  The error of a rounding is at most half the spacing, which is at most
  \<open>2\<^sup>1\<^sup>-\<^sup>p |x|\<close> in the normal range and \<open>2\<^sup>e\<^sup>m\<^sup>i\<^sup>n\<^sup>-\<^sup>p\<^sup>+\<^sup>1\<close> below it.
\<close>

lemma round_fmt_error:
  "\<bar>round_fmt p emin x - x\<bar> \<le> \<bar>x\<bar> * 2 powi (- int p) + 2 powi (emin - int p)"
proof (cases "x = 0")
  case True
  then show ?thesis by (simp add: round_fmt_def)
next
  case False
  let ?u = "ulp_exp p emin x"
  have q: "0 < (2 :: real) powi ?u" by simp
  have "round_fmt p emin x - x = (of_int (round_even (x / 2 powi ?u)) - x / 2 powi ?u) * 2 powi ?u"
    using False q by (simp add: round_fmt_def algebra_simps)
  then have err: "\<bar>round_fmt p emin x - x\<bar> \<le> 2 powi ?u / 2"
    using round_even_error [of "x / 2 powi ?u"] q by (simp add: abs_mult)
  show ?thesis
  proof (cases "emin \<le> \<lfloor>log 2 \<bar>x\<bar>\<rfloor>")
    case True
    then have "?u = \<lfloor>log 2 \<bar>x\<bar>\<rfloor> + (1 - int p)" by (simp add: ulp_exp_def)
    then have "(2 :: real) powi ?u = 2 powi \<lfloor>log 2 \<bar>x\<bar>\<rfloor> * 2 powi (1 - int p)"
      by (simp add: power_int_add)
    also have "\<dots> \<le> \<bar>x\<bar> * 2 powi (1 - int p)"
      using powi_floor_log2_le [OF False] by simp
    finally have "2 powi ?u / 2 \<le> \<bar>x\<bar> * 2 powi (- int p)"
      by (simp add: power_int_diff power_int_minus field_simps)
    with err show ?thesis by (smt (verit) zero_less_power_int zero_less_numeral)
  next
    case False
    then have "?u = (emin - int p) + 1" by (simp add: ulp_exp_def)
    then have "(2 :: real) powi ?u / 2 = 2 powi (emin - int p)"
      by (simp add: power_int_add_1)
    with err show ?thesis by (smt (verit) abs_ge_zero mult_nonneg_nonneg zero_less_power_int zero_less_numeral)
  qed
qed

lemma round32_error: "round32 x = Fin r \<Longrightarrow> \<bar>r - x\<bar> \<le> \<bar>x\<bar> * 2 powi (-24) + 2 powi (-150)"
  using round_fmt_error [of 24 "-126" x] by (auto simp: round32_def Let_def split: if_splits)

text \<open>
  \<open>current_x = current_x + h\<close> in \<open>float\<close>: after \<open>k\<close> additions the value
  is within \<open>((1 + 2\<^sup>-\<^sup>2\<^sup>4)\<^sup>k - 1) (B + 2\<^sup>-\<^sup>1\<^sup>2\<^sup>6)\<close> of \<open>x0 + k h\<close>,
  where \<open>B\<close> bounds the exact points \<open>|x0 + i h|\<close>, \<open>i \<le> k\<close>.
\<close>

lemma accumulate_step:
  "(1 + u) * (((1 + u) ^ k - 1) * (B + c)) + u * B + u * c = ((1 + u) ^ Suc k - 1) * (B + (c :: real))"
  by (simp add: algebra_simps)

lemma float_accumulate_error:
  assumes "((\<lambda>x. lift2 round32 (+) x (Fin h)) ^^ k) (Fin x0) = Fin xk"
    and "\<forall>i \<le> k. \<bar>x0 + of_nat i * h\<bar> \<le> B"
  shows "\<bar>xk - (x0 + of_nat k * h)\<bar> \<le> ((1 + 2 powi (-24)) ^ k - 1) * (B + 2 powi (-126))"
  using assms
proof (induction k arbitrary: xk)
  case 0
  then show ?case by simp
next
  case (Suc k)
  let ?u = "(2 :: real) powi (-24)"
  let ?f = "\<lambda>x. lift2 round32 (+) x (Fin h)"
  obtain xj where xj: "(?f ^^ k) (Fin x0) = Fin xj"
    using Suc.prems(1) by (cases "(?f ^^ k) (Fin x0)") simp_all
  then have r: "round32 (xj + h) = Fin xk" using Suc.prems(1) by simp
  have ih: "\<bar>xj - (x0 + of_nat k * h)\<bar> \<le> ((1 + ?u) ^ k - 1) * (B + 2 powi (-126))"
    using Suc.IH [OF xj] Suc.prems(2) by simp
  have bound: "\<bar>x0 + of_nat (Suc k) * h\<bar> \<le> B" using Suc.prems(2) by blast
  have step: "\<bar>xk - (xj + h)\<bar> \<le> \<bar>xj + h\<bar> * ?u + 2 powi (-150)"
    by (rule round32_error [OF r])
  let ?e = "\<bar>xj - (x0 + of_nat k * h)\<bar>"
  have tri: "\<bar>xk - (x0 + of_nat (Suc k) * h)\<bar> \<le> \<bar>xk - (xj + h)\<bar> + ?e"
    using abs_triangle_ineq [of "xk - (xj + h)" "xj - (x0 + of_nat k * h)"] by (simp add: algebra_simps)
  have "\<bar>xj + h\<bar> \<le> B + ?e"
    using bound by (simp add: algebra_simps)
  then have ub: "\<bar>xj + h\<bar> * ?u \<le> B * ?u + ?e * ?u"
    by (simp add: distrib_right [symmetric])
  from tri step ub have "\<bar>xk - (x0 + of_nat (Suc k) * h)\<bar> \<le>
               (1 + ?u) * ?e + ?u * B + 2 powi (-150)"
    by (simp only: distrib_right mult_1 mult.commute [of ?u])
  also have "\<dots> \<le> (1 + ?u) * (((1 + ?u) ^ k - 1) * (B + 2 powi (-126))) + ?u * B + 2 powi (-150)"
    using ih by simp
  also have "\<dots> = ((1 + ?u) ^ Suc k - 1) * (B + 2 powi (-126))"
  proof -
    have "(2 :: real) powi (-150) = ?u * 2 powi (-126)" by simp
    then show ?thesis using accumulate_step [of ?u k B "2 powi (-126)"] by (simp only:)
  qed
  finally show ?case .
qed

lemma round32_eq:
  assumes "2 powi e \<le> \<bar>x\<bar>" "\<bar>x\<bar> < 2 powi (e + 1)" "-126 \<le> e" "u = e - 23"
    and "of_int k - 1/2 < x / 2 powi u" "x / 2 powi u < of_int k + 1/2"
    and "\<bar>of_int k * 2 powi u\<bar> \<le> max_float32"
  shows "round32 x = Fin (of_int k * 2 powi u)"
  using round_fmt_eq [of e x "-126" u 24 k] assms by (simp add: round32_def)

lemma round64_eq:
  assumes "2 powi e \<le> \<bar>x\<bar>" "\<bar>x\<bar> < 2 powi (e + 1)" "-1022 \<le> e" "u = e - 52"
    and "of_int k - 1/2 < x / 2 powi u" "x / 2 powi u < of_int k + 1/2"
    and "\<bar>of_int k * 2 powi u\<bar> \<le> max_float64"
  shows "round64 x = Fin (of_int k * 2 powi u)"
  using round_fmt_eq [of e x "-1022" u 53 k] assms by (simp add: round64_def)

lemma round32_small_ints: "round32 0 = Fin 0" "round32 1 = Fin 1" "round32 2 = Fin 2"
  using round32_eq [of 0 1 "-23" 8388608] round32_eq [of 1 2 "-22" 8388608]
  by (simp_all add: round32_def round_fmt_def max_float32_def)

lemma round64_consts: "round64 1 = Fin 1" "round64 6 = Fin 6" "round64 (1/2) = Fin (1/2)"
  using round64_eq [of 0 1 "-52" 4503599627370496] round64_eq [of 2 6 "-50" 6755399441055744]
        round64_eq [of "-1" "1/2" "-53" 4503599627370496]
  by (simp_all add: max_float64_def)

lemma round32_finite:
  fixes x :: real
  assumes "\<bar>x\<bar> \<le> 2 ^ 100"
  shows "\<exists>r. round32 x = Fin r \<and> \<bar>r - x\<bar> \<le> \<bar>x\<bar> / 16777216 + 1 / 2 ^ 150"
proof -
  let ?r = "round_fmt 24 (-126) x"
  have p24: "(2 :: real) powi (-24) = 1 / 16777216" and p150: "(2 :: real) powi (-150) = 1 / 2 ^ 150"
    by (simp_all add: power_int_minus)
  have "\<bar>?r - x\<bar> \<le> \<bar>x\<bar> * 2 powi (-24) + 2 powi (-150)"
    using round_fmt_error [of 24 "-126" x] by simp
  then have err: "\<bar>?r - x\<bar> \<le> \<bar>x\<bar> / 16777216 + 1 / 2 ^ 150" by (simp add: p24 p150)
  have "\<bar>x\<bar> / 16777216 \<le> 2 ^ 100" "(1::real) / 2 ^ 150 \<le> 1" using assms by simp_all
  moreover have "\<bar>?r\<bar> \<le> \<bar>x\<bar> + \<bar>?r - x\<bar>" using abs_triangle_ineq [of x "?r - x"] by simp
  ultimately have "\<bar>?r\<bar> \<le> 2 ^ 100 + 2 ^ 100 + 1" using assms err by linarith
  then have "\<bar>?r\<bar> \<le> max_float32" by (simp add: max_float32_def power_int_minus)
  then have "round32 x = Fin ?r" by (simp add: round32_def)
  with err show ?thesis by blast
qed

text \<open>The values of the example below: \<open>0.9f\<close>, \<open>0.3f\<close> and their quotient.\<close>

lemma scanf_float_9_10: "scanf_float (9/10) = Fin (7549747 / 8388608)"
  using round32_eq [of "-1" "9/10" "-24" 15099494] by (simp add: scanf_float_def max_float32_def of_rat_divide)

lemma scanf_float_3_10: "scanf_float (3/10) = Fin (5033165 / 16777216)"
  using round32_eq [of "-2" "3/10" "-25" 10066330] by (simp add: scanf_float_def max_float32_def of_rat_divide)

lemma round32_9_10: "round32 (7549747 / 8388608) = Fin (7549747 / 8388608)"
  using round32_eq [of "-1" "7549747 / 8388608" "-24" 15099494] by (simp add: max_float32_def)

lemma round32_quotient:
  "round32 (15099494 / 5033165) = Fin (12582911 / 4194304)"
  using round32_eq [of 1 "15099494 / 5033165" "-22" 12582911]
  by (simp add: max_float32_def)

lemma iteration_count_9_10_3_10:
  "iteration_count ieee_ops (Fin 0) (scanf_float (9/10)) (scanf_float (3/10)) = Some 2"
proof -
  have "x_to_int (Fin (12582911 / 4194304)) = Some 2"
    by (simp add: real_to_int32_def trunc_toward_zero_def in_int32_def int32_min_def int32_max_def)
  then show ?thesis
    by (simp add: iteration_count_def step_size_def scanf_float_9_10 scanf_float_3_10 round32_9_10
                  round32_quotient)
qed

section \<open>The count shortfall\<close>

text \<open>
  A counterexample to the specification's count (section 4.2). In \<open>float\<close> arithmetic the truncated iteration count can
  fall a whole step short of \<open>\<lfloor>(x_target - x0) / h\<rfloor>\<close>: with \<open>x0 = 0\<close>,
  \<open>x_target = 0.9\<close> and \<open>h = 0.3\<close> as \<open>scanf\<close> reads them, the quotient
  \<open>0.9f / 0.3f\<close> rounds to \<open>2.9999998\<close>, so \<open>rungeKutta\<close> performs two
  steps, not three, on every equation it can integrate, and reports the value at
  \<open>x = 0.6\<close> as the value at the target.
\<close>

theorem rungeKutta_float_count_shortfall:
  assumes "wf_equation eq" "y_prime_coefficient eq \<noteq> 0"
  shows "iteration_count ieee_ops (Fin 0) (scanf_float (9/10)) (scanf_float (3/10)) = Some 2 \<and>
         length (fst (rungeKutta ieee_ops (Fin 0) y0 (scanf_float (9/10)) (scanf_float (3/10)) eq)) = 2 \<and>
         \<lfloor>(9/10 - 0) / (3/10 :: real)\<rfloor> = 3"
  using rungeKutta_iterate [OF assms iteration_count_9_10_3_10, of y0]
  by (simp add: iteration_count_9_10_3_10 Let_def)

theorem rungeKutta_float_count_shortfall_witness:
  "wf_equation \<lparr>y_coefficient = 1, y_prime_coefficient = 1, gx_term_count = 0,
                 gx_coefficients = [] :: xreal list, gx_powers = []\<rparr> \<and>
   length (fst (rungeKutta ieee_ops (Fin 0) (Fin 1) (scanf_float (9/10)) (scanf_float (3/10))
     \<lparr>y_coefficient = 1, y_prime_coefficient = 1, gx_term_count = 0,
      gx_coefficients = [] :: xreal list, gx_powers = []\<rparr>)) = 2"
proof -
  have wf: "wf_equation \<lparr>y_coefficient = 1, y_prime_coefficient = 1, gx_term_count = 0,
                 gx_coefficients = [] :: xreal list, gx_powers = []\<rparr>"
    by (simp add: wf_equation_def)
  show ?thesis using rungeKutta_float_count_shortfall [OF wf, of "Fin 1"] wf by simp
qed

section \<open>Properties\<close>

text \<open>
  C29 (bounds). In \<open>float\<close> arithmetic the \<open>i\<close>-th trace point of
  \<open>rungeKutta\<close> drifts from \<open>x0 + i s\<close> (\<open>s\<close> the signed step) by at most
  \<open>((1 + 2\<^sup>-\<^sup>2\<^sup>4)\<^sup>i - 1) (B + 2\<^sup>-\<^sup>1\<^sup>2\<^sup>6)\<close>, where \<open>B\<close> bounds the exact
  points \<open>|x0 + j s|\<close>, \<open>j \<le> i\<close>: about \<open>i 2\<^sup>-\<^sup>2\<^sup>4 B\<close>, since
  \<open>current_x\<close> is accumulated by one rounded addition per step.
\<close>

theorem rungeKutta_float_trace_x_error:
  assumes "wf_equation eq" "y_prime_coefficient eq \<noteq> 0"
    and "iteration_count ieee_ops (Fin x0) x_target h = Some n"
    and "step_size ieee_ops (Fin x0) x_target h = Fin s"
    and "i < length (fst (rungeKutta ieee_ops (Fin x0) y0 x_target h eq))"
    and "fst (fst (rungeKutta ieee_ops (Fin x0) y0 x_target h eq) ! i) = Fin xi"
    and "\<forall>j \<le> i. \<bar>x0 + of_nat j * s\<bar> \<le> B"
  shows "\<bar>xi - (x0 + of_nat i * s)\<bar> \<le> ((1 + 2 powi (-24)) ^ i - 1) * (B + 2 powi (-126))"
proof -
  let ?s = "rk4_update ieee_ops eq (step_size ieee_ops (Fin x0) x_target h)"
  have tr: "fst (rungeKutta ieee_ops (Fin x0) y0 x_target h eq) = map (\<lambda>k. (?s ^^ k) (Fin x0, y0)) [0..<nat n]"
    using rungeKutta_iterate [OF assms(1-3), of y0] by (simp add: Let_def)
  with assms(5,6) have "fst ((?s ^^ i) (Fin x0, y0)) = Fin xi" by simp
  then have "((\<lambda>x. lift2 round32 (+) x (Fin s)) ^^ i) (Fin x0) = Fin xi"
    using rk4_iterate_x [OF assms(1,2), where F = ieee_ops and h = "step_size ieee_ops (Fin x0) x_target h"
                                              and k = i and xy = "(Fin x0, y0)"]
    by (simp add: assms(4))
  then show ?thesis by (rule float_accumulate_error [OF _ assms(7)])
qed

theorem rungeKutta_float_trace_x_error_witness:
  "iteration_count ieee_ops (Fin 0) (Fin 1) (Fin (1/2)) = Some 2 \<and>
   fst (fst (rungeKutta ieee_ops (Fin 0) (Fin 1) (Fin 1) (Fin (1/2))
     \<lparr>y_coefficient = 1, y_prime_coefficient = 1, gx_term_count = 0,
      gx_coefficients = [] :: xreal list, gx_powers = []\<rparr>) ! 1) = Fin (1/2) \<and>
   \<bar>1/2 - (0 + of_nat 1 * (1/2))\<bar> \<le> ((1 + 2 powi (-24)) ^ 1 - 1) * (1 + 2 powi (-126) :: real)"
proof -
  let ?eq = "\<lparr>y_coefficient = 1, y_prime_coefficient = 1, gx_term_count = 0,
      gx_coefficients = [] :: xreal list, gx_powers = []\<rparr>"
  have wf: "wf_equation ?eq" by (simp add: wf_equation_def)
  have r1: "round32 1 = Fin 1"
    using round32_eq [of 0 1 "-23" 8388608] by (simp add: max_float32_def)
  have r2: "round32 2 = Fin 2"
    using round32_eq [of 1 2 "-22" 8388608] by (simp add: max_float32_def)
  have rh: "round32 (1/2) = Fin (1/2)"
    using round32_eq [of "-1" "1/2" "-24" 8388608] by (simp add: max_float32_def)
  have n: "iteration_count ieee_ops (Fin 0) (Fin 1) (Fin (1/2)) = Some 2"
    by (simp add: iteration_count_def step_size_def r1 r2 real_to_int32_def trunc_toward_zero_def
                  in_int32_def int32_min_def int32_max_def)
  have s: "step_size ieee_ops (Fin 0) (Fin 1) (Fin (1/2)) = Fin (1/2)" by (simp add: step_size_def)
  let ?s = "rk4_update ieee_ops ?eq (Fin (1/2))"
  have tr: "fst (rungeKutta ieee_ops (Fin 0) (Fin 1) (Fin 1) (Fin (1/2)) ?eq) = map (\<lambda>k. (?s ^^ k) (Fin 0, Fin 1)) [0..<2]"
    using rungeKutta_iterate [OF wf _ n, of "Fin 1"] s by (simp add: Let_def)
  have "fst ((?s ^^ 1) (Fin 0, Fin 1)) = Fin (1/2)"
    using rk4_iterate_x [OF wf, where F = ieee_ops and h = "Fin (1/2)" and k = 1 and xy = "(Fin 0, Fin 1)"]
    by (simp add: rh)
  then have x1: "fst (fst (rungeKutta ieee_ops (Fin 0) (Fin 1) (Fin 1) (Fin (1/2)) ?eq) ! 1) = Fin (1/2)"
    by (simp add: tr)
  have len: "1 < length (fst (rungeKutta ieee_ops (Fin 0) (Fin 1) (Fin 1) (Fin (1/2)) ?eq))"
    by (simp add: tr)
  have B: "\<forall>j \<le> 1. \<bar>0 + of_nat j * (1/2)\<bar> \<le> (1 :: real)" by auto
  from rungeKutta_float_trace_x_error [OF wf _ n s len x1 B] n x1 show ?thesis by simp
qed

end
