(* ===== verification/Float_Closed_Form.thy ===== *)
theory Float_Closed_Form
  imports IEEE_Ops RK4_Exact Driver
begin

text \<open>
  The closed-form check of the specification (section 8) for the program as
  compiled: \<open>y' + y = 0\<close> (\<open>a = b = 1\<close>, no terms), \<open>x0 = 0\<close>, \<open>y0 = 1\<close>,
  \<open>h = 0.01\<close>, target \<open>1\<close>, run by \<open>main\<close> and \<open>rungeKutta\<close> of
  \<open>src/runge.c\<close> over \<open>ieee_ops\<close> (binary32 \<open>float\<close>, binary64 \<open>double\<close>,
  round to nearest even). The input \<open>0.01\<close> is read as the \<open>float\<close>
  \<open>5368709 / 2^29\<close>; the count \<open>(int)((1 - 0) / h)\<close> is exactly \<open>100\<close>.
  Every rounding of one RK4 step is followed as a stage
  \<open>|v - c * Y| \<le> e * Y\<close>, relative to the value \<open>Y\<close> of \<open>y\<close> before the
  step: the coefficient \<open>c\<close> is the exact one, the error \<open>e\<close> grows by the
  unit roundoff of the format at each rounding. One step is within
  \<open>9 * 10^-8 * Y\<close> of the exact RK4 update \<open>rk4_growth (-h) * Y\<close>; while
  \<open>Y\<close> stays in \<open>[1/4, 1]\<close> these errors add up over the 100 steps, and the
  exact RK4 factor is within \<open>10^-8\<close> of \<open>exp (-h)\<close> per step.
\<close>

abbreviation hundredth_f :: real where
  "hundredth_f \<equiv> 5368709 / 536870912"

abbreviation sixth_d :: real where
  "sixth_d \<equiv> 6004799503160661 / 36028797018963968"

abbreviation decay_growth :: real where
  "decay_growth \<equiv> rk4_growth (- hundredth_f)"

abbreviation decay_eq :: "xreal equation" where
  "decay_eq \<equiv> \<lparr>y_coefficient = 1, y_prime_coefficient = 1, gx_term_count = 0,
                gx_coefficients = [], gx_powers = []\<rparr>"

abbreviation decay_input :: "xreal main_input" where
  "decay_input \<equiv>
     \<lparr>in_y_prime_coefficient = 1, in_y_coefficient = 1, in_term_count = 0, in_terms = [],
      in_x0 = scanf_float 0, in_y0 = scanf_float 1, in_h = scanf_float (1/100),
      in_x_target = scanf_float 1, in_true_value = scanf_float (367879/1000000)\<rparr>"

section \<open>Rounding stages\<close>

lemma stage_bounds:
  fixes z c Y e :: real
  assumes "\<bar>z - c * Y\<bar> \<le> e * Y" "0 < Y"
  shows "0 \<le> e" "\<bar>z\<bar> \<le> (\<bar>c\<bar> + e) * Y" "(\<bar>c\<bar> - e) * Y \<le> \<bar>z\<bar>"
proof -
  have "0 \<le> \<bar>z - c * Y\<bar>" by simp
  with assms(1) have "0 \<le> e * Y" by linarith
  then show "0 \<le> e" using assms(2) by (simp add: zero_le_mult_iff)
  have cY: "\<bar>c * Y\<bar> = \<bar>c\<bar> * Y" using assms(2) by (simp add: abs_mult)
  have "\<bar>z\<bar> \<le> \<bar>c * Y\<bar> + \<bar>z - c * Y\<bar>" using abs_triangle_ineq [of "c * Y" "z - c * Y"] by simp
  with assms(1) cY show "\<bar>z\<bar> \<le> (\<bar>c\<bar> + e) * Y" by (simp add: distrib_right)
  have "\<bar>c * Y\<bar> \<le> \<bar>z\<bar> + \<bar>z - c * Y\<bar>" using abs_triangle_ineq [of z "c * Y - z"] by (simp add: abs_minus_commute)
  with assms(1) cY show "(\<bar>c\<bar> - e) * Y \<le> \<bar>z\<bar>" by (simp add: left_diff_distrib)
qed

lemma stage_round:
  fixes z r c Y e u a w :: real
  assumes "\<bar>z - c * Y\<bar> \<le> e * Y" "\<bar>r - z\<bar> \<le> \<bar>z\<bar> * u + a" "a \<le> w * Y" "0 \<le> u" "0 < Y"
  shows "\<bar>r - c * Y\<bar> \<le> (e + (\<bar>c\<bar> + e) * u + w) * Y"
proof -
  have "\<bar>z\<bar> * u \<le> ((\<bar>c\<bar> + e) * Y) * u"
    by (rule mult_right_mono [OF stage_bounds(2) [OF assms(1,5)] assms(4)])
  moreover have "\<bar>r - c * Y\<bar> \<le> \<bar>r - z\<bar> + \<bar>z - c * Y\<bar>"
    using abs_triangle_ineq [of "r - z" "z - c * Y"] by simp
  moreover have "(e + (\<bar>c\<bar> + e) * u + w) * Y = e * Y + ((\<bar>c\<bar> + e) * Y) * u + w * Y"
    by (simp add: algebra_simps)
  ultimately show ?thesis using assms(1-3) by linarith
qed

lemma tiny_le_Y:
  fixes Y :: real
  assumes "1/4 \<le> Y"
  shows "1 / 2 ^ 150 \<le> (1 / 2 ^ 100) * Y"
proof -
  have "(1::real) / 2 ^ 150 \<le> (1 / 2 ^ 100) * (1/4)" by simp
  also have "\<dots> \<le> (1 / 2 ^ 100) * Y" using assms by (rule mult_left_mono) simp
  finally show ?thesis .
qed

lemma stage_in_range:
  fixes z r c Y e u a :: real
  assumes "\<bar>z - c * Y\<bar> \<le> e * Y" "0 < Y" "Y \<le> 1" "\<bar>c\<bar> + e \<le> 1000"
    and "\<bar>r - z\<bar> \<le> \<bar>z\<bar> * u + a" "0 \<le> u" "u \<le> 1/1000" "a \<le> 1"
  shows "\<bar>r\<bar> \<le> 1002"
proof -
  note b = stage_bounds [OF assms(1,2)]
  have "(\<bar>c\<bar> + e) * Y \<le> \<bar>c\<bar> + e" using assms(3) b(1) by (simp add: mult_left_le)
  with b(2) assms(4) have z: "\<bar>z\<bar> \<le> 1000" by linarith
  have "\<bar>z\<bar> * u \<le> 1000 * (1/1000)" by (rule mult_mono [OF z assms(7)]) (simp_all add: assms(6))
  moreover have "\<bar>r\<bar> \<le> \<bar>z\<bar> + \<bar>r - z\<bar>" using abs_triangle_ineq [of z "r - z"] by simp
  ultimately show ?thesis using z assms(5,8) by linarith
qed

lemma round32_stage:
  fixes z c Y e :: real
  assumes "\<bar>z - c * Y\<bar> \<le> e * Y" "1/4 \<le> Y" "Y \<le> 1" "\<bar>c\<bar> + e \<le> 1000"
  shows "\<exists>r. round32 z = Fin r \<and> \<bar>r - c * Y\<bar> \<le> (e + (\<bar>c\<bar> + e) / 16777216 + 1 / 2 ^ 100) * Y"
proof -
  have Y: "0 < Y" using assms(2) by simp
  let ?r = "round_fmt 24 (-126) z"
  have p24: "(2 :: real) powi (-24) = 1 / 16777216" and p150: "(2 :: real) powi (-150) = 1 / 2 ^ 150"
    by (simp_all add: power_int_minus)
  have "\<bar>?r - z\<bar> \<le> \<bar>z\<bar> * 2 powi (-24) + 2 powi (-150)"
    using round_fmt_error [of 24 "-126" z] by simp
  then have err: "\<bar>?r - z\<bar> \<le> \<bar>z\<bar> * (1 / 16777216) + 1 / 2 ^ 150" by (simp only: p24 p150)
  have "\<bar>?r\<bar> \<le> 1002" by (rule stage_in_range [OF assms(1) Y assms(3,4) err]) simp_all
  then have "round32 z = Fin ?r" by (simp add: round32_def max_float32_def power_int_minus)
  moreover have "\<bar>?r - c * Y\<bar> \<le> (e + (\<bar>c\<bar> + e) * (1 / 16777216) + 1 / 2 ^ 100) * Y"
    by (rule stage_round [OF assms(1) err tiny_le_Y [OF assms(2)] _ Y]) simp
  ultimately show ?thesis by auto
qed

lemma round64_stage:
  fixes z c Y e :: real
  assumes "\<bar>z - c * Y\<bar> \<le> e * Y" "1/4 \<le> Y" "Y \<le> 1" "\<bar>c\<bar> + e \<le> 1000"
  shows "\<exists>r. round64 z = Fin r \<and> \<bar>r - c * Y\<bar> \<le> (e + (\<bar>c\<bar> + e) / 9007199254740992 + 1 / 2 ^ 100) * Y"
proof -
  have Y: "0 < Y" using assms(2) by simp
  let ?r = "round_fmt 53 (-1022) z"
  have p53: "(2 :: real) powi (-53) = 1 / 9007199254740992" and p150: "(2 :: real) powi (-150) = 1 / 2 ^ 150"
    by (simp_all add: power_int_minus)
  have "(2 :: real) powi (-1075) < 2 powi (-150)" by (rule power_int_strict_increasing) simp_all
  then have "\<bar>?r - z\<bar> \<le> \<bar>z\<bar> * 2 powi (-53) + 2 powi (-150)"
    using round_fmt_error [of 53 "-1022" z] by simp
  then have err: "\<bar>?r - z\<bar> \<le> \<bar>z\<bar> * (1 / 9007199254740992) + 1 / 2 ^ 150" by (simp only: p53 p150)
  have "\<bar>?r\<bar> \<le> 1002" by (rule stage_in_range [OF assms(1) Y assms(3,4) err]) simp_all
  then have "round64 z = Fin ?r" by (simp add: round64_def max_float64_def power_int_minus)
  moreover have "\<bar>?r - c * Y\<bar> \<le> (e + (\<bar>c\<bar> + e) * (1 / 9007199254740992) + 1 / 2 ^ 100) * Y"
    by (rule stage_round [OF assms(1) err tiny_le_Y [OF assms(2)] _ Y]) simp
  ultimately show ?thesis by auto
qed

lemma stage_neg:
  fixes a c Y e :: real
  shows "\<bar>a - c * Y\<bar> \<le> e * Y \<Longrightarrow> \<bar>- a - (- c) * Y\<bar> \<le> e * Y"
  by (simp add: abs_minus_commute)

lemma stage_scale:
  fixes a c Y e k :: real
  assumes "\<bar>a - c * Y\<bar> \<le> e * Y"
  shows "\<bar>k * a - (k * c) * Y\<bar> \<le> (\<bar>k\<bar> * e) * Y"
proof -
  have "\<bar>k * a - (k * c) * Y\<bar> = \<bar>k\<bar> * \<bar>a - c * Y\<bar>" by (simp add: abs_mult [symmetric] algebra_simps)
  also have "\<dots> \<le> \<bar>k\<bar> * (e * Y)" by (rule mult_left_mono [OF assms]) simp
  finally show ?thesis by (simp add: mult.assoc)
qed

lemma stage_add:
  fixes a b ca cb ea eb Y :: real
  assumes "\<bar>a - ca * Y\<bar> \<le> ea * Y" "\<bar>b - cb * Y\<bar> \<le> eb * Y"
  shows "\<bar>(a + b) - (ca + cb) * Y\<bar> \<le> (ea + eb) * Y"
proof -
  have "\<bar>(a + b) - (ca + cb) * Y\<bar> \<le> \<bar>a - ca * Y\<bar> + \<bar>b - cb * Y\<bar>"
    using abs_triangle_ineq [of "a - ca * Y" "b - cb * Y"] by (simp add: algebra_simps)
  with assms show ?thesis by (simp add: distrib_right)
qed

lemma stage_weaken:
  fixes a c Y e e' :: real
  assumes "\<bar>a - c * Y\<bar> \<le> e * Y" "e \<le> e'" "0 \<le> Y"
  shows "\<bar>a - c * Y\<bar> \<le> e' * Y"
  using assms(1) mult_right_mono [OF assms(2,3)] by linarith

section \<open>The slopes of one step\<close>

lemma deriv_stage:
  fixes ym c Y e :: real
  assumes "\<bar>ym - c * Y\<bar> \<le> e * Y" "1/4 \<le> Y" "Y \<le> 1" "\<bar>c\<bar> \<le> 10" "e \<le> 1"
  shows "\<exists>d. (\<forall>x. calculateDerivative ieee_ops x (Fin ym) decay_eq = Inr (Fin d)) \<and>
             \<bar>d - (- c) * Y\<bar> \<le> (e + (\<bar>c\<bar> + e) / 5000000 + 1 / 2 ^ 98) * Y"
proof -
  have e0: "0 \<le> e" using stage_bounds(1) [OF assms(1)] assms(2) by simp
  have t: "0 \<le> (1::real) / 2 ^ 100" "(1::real) / 2 ^ 100 \<le> 1 / 1000" by simp_all
  define e1 where "e1 = e + (\<bar>c\<bar> + e) / 16777216 + 1 / 2 ^ 100"
  define e2 where "e2 = e1 + (\<bar>c\<bar> + e1) / 16777216 + 1 / 2 ^ 100"
  define e3 where "e3 = e2 + (\<bar>c\<bar> + e2) / 16777216 + 1 / 2 ^ 100"
  have p: "\<bar>c\<bar> + e \<le> 1000" "\<bar>- c\<bar> + e1 \<le> 1000" "\<bar>- c\<bar> + e2 \<le> 1000"
    using assms(4,5) e0 t e1_def e2_def unfolding abs_minus_cancel add_divide_distrib by linarith+
  obtain r1 where r1: "round32 ym = Fin r1" "\<bar>r1 - c * Y\<bar> \<le> e1 * Y"
    using round32_stage [OF assms(1-3) p(1)] unfolding e1_def by blast
  obtain r2 where r2: "round32 (- r1) = Fin r2" "\<bar>r2 - (- c) * Y\<bar> \<le> e2 * Y"
    using round32_stage [OF stage_neg [OF r1(2)] assms(2,3) p(2)] unfolding e2_def by auto
  obtain r3 where r3: "round32 r2 = Fin r3" "\<bar>r3 - (- c) * Y\<bar> \<le> e3 * Y"
    using round32_stage [OF r2(2) assms(2,3) p(3)] unfolding e3_def by auto
  have "(1::real) / 2 ^ 98 = 4 * (1 / 2 ^ 100)" by simp
  then have "e3 \<le> e + (\<bar>c\<bar> + e) / 5000000 + 1 / 2 ^ 98"
    using e0 t assms(4,5) e3_def e2_def e1_def unfolding add_divide_distrib by linarith
  then have "\<bar>r3 - (- c) * Y\<bar> \<le> (e + (\<bar>c\<bar> + e) / 5000000 + 1 / 2 ^ 98) * Y"
    using stage_weaken [OF r3(2)] assms(2) by simp
  moreover have "calculateDerivative ieee_ops x (Fin ym) decay_eq = Inr (Fin r3)" for x
    by (simp add: calculateDerivative_def calculate_gx_def  gx_loop_done
                  round32_small_ints r1(1) r2(1) r3(1))
  ultimately show ?thesis by blast
qed

lemma tiny_bounds:
  "0 \<le> (1::real) / 2 ^ 100" "(1::real) / 2 ^ 100 \<le> 1 / 100000000000000000000"
  "(1::real) / 2 ^ 98 = 4 * (1 / 2 ^ 100)"
  by simp_all

lemma round32_within:
  fixes z c Y e E :: real
  assumes "\<bar>z - c * Y\<bar> \<le> e * Y" "1/4 \<le> Y" "Y \<le> 1" "\<bar>c\<bar> + e \<le> 1000"
    and "e + (\<bar>c\<bar> + e) / 16777216 + 1 / 2 ^ 100 \<le> E"
  shows "\<exists>r. round32 z = Fin r \<and> \<bar>r - c * Y\<bar> \<le> E * Y"
  using round32_stage [OF assms(1-4)] stage_weaken [OF _ assms(5)] assms(2) by fastforce

lemma round64_within:
  fixes z c Y e E :: real
  assumes "\<bar>z - c * Y\<bar> \<le> e * Y" "1/4 \<le> Y" "Y \<le> 1" "\<bar>c\<bar> + e \<le> 1000"
    and "e + (\<bar>c\<bar> + e) / 9007199254740992 + 1 / 2 ^ 100 \<le> E"
  shows "\<exists>r. round64 z = Fin r \<and> \<bar>r - c * Y\<bar> \<le> E * Y"
  using round64_stage [OF assms(1-4)] stage_weaken [OF _ assms(5)] assms(2) by fastforce

lemma slope_stage:
  fixes ym c Y e E :: real
  assumes "\<bar>ym - c * Y\<bar> \<le> e * Y" "1/4 \<le> Y" "Y \<le> 1" "\<bar>c\<bar> \<le> 2" "e \<le> 1/1000"
    and "e / 99 + 6 / 1000000000 \<le> E"
  shows "\<exists>d k. (\<forall>x. calculateDerivative ieee_ops x (Fin ym) decay_eq = Inr (Fin d)) \<and>
               round32 (hundredth_f * d) = Fin k \<and> \<bar>k - (hundredth_f * - c) * Y\<bar> \<le> E * Y"
proof -
  have e0: "0 \<le> e" using stage_bounds(1) [OF assms(1)] assms(2) by simp
  note t = tiny_bounds
  define ed where "ed = e + (\<bar>c\<bar> + e) / 5000000 + 1 / 2 ^ 98"
  obtain d where d: "\<forall>x. calculateDerivative ieee_ops x (Fin ym) decay_eq = Inr (Fin d)"
      "\<bar>d - (- c) * Y\<bar> \<le> ed * Y"
    using deriv_stage [OF assms(1-3)] assms(4,5) unfolding ed_def by fastforce
  have a: "\<bar>hundredth_f * - c\<bar> = hundredth_f * \<bar>c\<bar>" "\<bar>hundredth_f\<bar> = hundredth_f" by (simp_all add: abs_mult)
  have hd: "\<bar>hundredth_f * d - (hundredth_f * - c) * Y\<bar> \<le> (hundredth_f * ed) * Y"
    using stage_scale [OF d(2), of hundredth_f] by (simp only: a)
  have "\<bar>hundredth_f * - c\<bar> + hundredth_f * ed \<le> 1000"
    "hundredth_f * ed + (\<bar>hundredth_f * - c\<bar> + hundredth_f * ed) / 16777216 + 1 / 2 ^ 100 \<le> E"
    using assms(4-6) e0 t ed_def unfolding a add_divide_distrib by linarith+
  from round32_within [OF hd assms(2,3) this] d(1) show ?thesis by blast
qed

lemma stage_self:
  fixes Y :: real
  shows "\<bar>Y - 1 * Y\<bar> \<le> 0 * Y"
  by simp

lemma mid_stage:
  fixes k c Y e E :: real
  assumes "\<bar>k - c * Y\<bar> \<le> e * Y" "1/4 \<le> Y" "Y \<le> 1" "\<bar>c\<bar> \<le> 1/10" "e \<le> 1/1000"
    and "e / 2 + e / 1000000 + 7 / 100000000 \<le> E"
  shows "\<exists>ym. to_float ieee_ops (d_add ieee_ops (Fin Y) (d_mul ieee_ops (d_lit ieee_ops (1/2)) (Fin k))) = Fin ym
               \<and> \<bar>ym - (1 + 1/2 * c) * Y\<bar> \<le> E * Y"
proof -
  have e0: "0 \<le> e" using stage_bounds(1) [OF assms(1)] assms(2) by simp
  note t = tiny_bounds
  have lit: "round64 (of_rat (1/2)) = Fin (1/2)" by (simp add: round64_consts of_rat_divide)
  have c: "\<bar>1/2 * c\<bar> = \<bar>c\<bar> / 2" "\<bar>1 + 1/2 * c\<bar> \<le> 1 + \<bar>c\<bar> / 2"
    using abs_triangle_ineq [of 1 "1/2 * c"] by (simp_all add: abs_mult)
  define ea where "ea = e / 2 + (\<bar>1/2 * c\<bar> + e / 2) / 9007199254740992 + 1 / 2 ^ 100"
  have "\<bar>1/2 * k - (1/2 * c) * Y\<bar> \<le> (e / 2) * Y" using stage_scale [OF assms(1), of "1/2"] by simp
  moreover have "\<bar>1/2 * c\<bar> + e / 2 \<le> 1000" using assms(4,5) c(1) by linarith
  ultimately obtain a where a: "round64 (1/2 * k) = Fin a" "\<bar>a - (1/2 * c) * Y\<bar> \<le> ea * Y"
    using round64_stage [OF _ assms(2,3)] unfolding ea_def by blast
  define eb where "eb = (0 + ea) + (\<bar>1 + 1/2 * c\<bar> + (0 + ea)) / 9007199254740992 + 1 / 2 ^ 100"
  note ya = stage_add [OF stage_self a(2)]
  have "\<bar>1 + 1/2 * c\<bar> + (0 + ea) \<le> 1000" using assms(4,5) c e0 t ea_def unfolding add_divide_distrib by linarith
  then obtain b where b: "round64 (Y + a) = Fin b" "\<bar>b - (1 + 1/2 * c) * Y\<bar> \<le> eb * Y"
    using round64_stage [OF ya assms(2,3)] unfolding eb_def by blast
  have "0 \<le> 1 + 1/2 * c" using assms(4) unfolding abs_le_iff by linarith
  then have c1: "\<bar>1 + 1/2 * c\<bar> = 1 + 1/2 * c" by simp
  have "\<bar>1 + 1/2 * c\<bar> + eb \<le> 1000"
    "eb + (\<bar>1 + 1/2 * c\<bar> + eb) / 16777216 + 1 / 2 ^ 100 \<le> E"
    using assms(4-6) c(1) e0 t ea_def eb_def unfolding c1 add_divide_distrib by linarith+
  from round32_within [OF b(2) assms(2,3) this] obtain ym
    where "round32 b = Fin ym" "\<bar>ym - (1 + 1/2 * c) * Y\<bar> \<le> E * Y" by blast
  moreover have "to_float ieee_ops (d_add ieee_ops (Fin Y) (d_mul ieee_ops (d_lit ieee_ops (1/2)) (Fin k))) = round32 b"
    by (simp only: ieee_ops_simps lit lift2.simps a(1) b(1) to_float32.simps)
  ultimately show ?thesis by auto
qed

lemma abs_one_plus:
  fixes c :: real
  assumes "\<bar>c\<bar> \<le> 1/10"
  shows "\<bar>1 + c\<bar> = 1 + c" "\<bar>1 + 1/2 * c\<bar> = 1 + 1/2 * c"
proof -
  have "0 \<le> 1 + c" "0 \<le> 1 + 1/2 * c" using assms unfolding abs_le_iff by linarith+
  then show "\<bar>1 + c\<bar> = 1 + c" "\<bar>1 + 1/2 * c\<bar> = 1 + 1/2 * c" by simp_all
qed

lemma mid_slope_stage:
  fixes k c Y e E :: real
  assumes "\<bar>k - c * Y\<bar> \<le> e * Y" "1/4 \<le> Y" "Y \<le> 1" "\<bar>c\<bar> \<le> 1/10" "e \<le> 1/1000"
    and "(e / 2 + e / 1000000 + 7 / 100000000) / 99 + 6 / 1000000000 \<le> E"
  shows "\<exists>d k'. (\<forall>x. calculateDerivative ieee_ops x
                   (to_float ieee_ops (d_add ieee_ops (Fin Y) (d_mul ieee_ops (d_lit ieee_ops (1/2)) (Fin k))))
                   decay_eq = Inr (Fin d)) \<and>
                round32 (hundredth_f * d) = Fin k' \<and> \<bar>k' - (hundredth_f * - (1 + 1/2 * c)) * Y\<bar> \<le> E * Y"
proof -
  obtain ym where ym: "to_float ieee_ops (d_add ieee_ops (Fin Y) (d_mul ieee_ops (d_lit ieee_ops (1/2)) (Fin k))) = Fin ym"
      "\<bar>ym - (1 + 1/2 * c) * Y\<bar> \<le> (e / 2 + e / 1000000 + 7 / 100000000) * Y"
    using mid_stage [OF assms(1-5) order_refl] by blast
  have "\<bar>1 + 1/2 * c\<bar> \<le> 2" "e / 2 + e / 1000000 + 7 / 100000000 \<le> 1/1000"
    using assms(4,5) unfolding abs_one_plus(2) [OF assms(4)] abs_le_iff by linarith+
  from slope_stage [OF ym(2) assms(2,3) this assms(6)] show ?thesis unfolding ym(1) .
qed

lemma end_slope_stage:
  fixes k c Y e E :: real
  assumes "\<bar>k - c * Y\<bar> \<le> e * Y" "1/4 \<le> Y" "Y \<le> 1" "\<bar>c\<bar> \<le> 1/10" "e \<le> 1/2000"
    and "(e + 1 / 10000000) / 99 + 6 / 1000000000 \<le> E"
  shows "\<exists>d k'. (\<forall>x. calculateDerivative ieee_ops x (f_add ieee_ops (Fin Y) (Fin k)) decay_eq = Inr (Fin d)) \<and>
                round32 (hundredth_f * d) = Fin k' \<and> \<bar>k' - (hundredth_f * - (1 + c)) * Y\<bar> \<le> E * Y"
proof -
  have e0: "0 \<le> e" using stage_bounds(1) [OF assms(1)] assms(2) by simp
  note t = tiny_bounds
  note sum = stage_add [OF stage_self assms(1)]
  have "\<bar>1 + c\<bar> + (0 + e) \<le> 1000" "0 + e + (\<bar>1 + c\<bar> + (0 + e)) / 16777216 + 1 / 2 ^ 100 \<le> e + 1 / 10000000"
    using assms(4,5) e0 t unfolding abs_one_plus(1) [OF assms(4)] abs_le_iff add_divide_distrib by linarith+
  from round32_within [OF sum assms(2,3) this] obtain ym
    where ym: "round32 (Y + k) = Fin ym" "\<bar>ym - (1 + c) * Y\<bar> \<le> (e + 1 / 10000000) * Y" by blast
  have "\<bar>1 + c\<bar> \<le> 2" "e + 1 / 10000000 \<le> 1/1000"
    using assms(4,5) unfolding abs_one_plus(1) [OF assms(4)] abs_le_iff by linarith+
  from slope_stage [OF ym(2) assms(2,3) this assms(6)]
  show ?thesis by (simp only: ieee_ops_simps lift2.simps ym(1))
qed

lemma abs_add_le:
  fixes x y A B :: real
  shows "\<bar>x\<bar> \<le> A \<Longrightarrow> \<bar>y\<bar> \<le> B \<Longrightarrow> \<bar>x + y\<bar> \<le> A + B"
  by (rule order_trans [OF abs_triangle_ineq add_mono])

lemma round32_bounded:
  fixes z c Y e C E :: real
  assumes "\<bar>z - c * Y\<bar> \<le> e * Y" "1/4 \<le> Y" "Y \<le> 1" "\<bar>c\<bar> \<le> C" "C + e \<le> 1000"
    and "e + (C + e) / 16777216 + 1 / 2 ^ 100 \<le> E"
  shows "\<exists>r. round32 z = Fin r \<and> \<bar>r - c * Y\<bar> \<le> E * Y"
  by (rule round32_within [OF assms(1-3)]) (use assms(4-6) in \<open>unfold add_divide_distrib, linarith+\<close>)

lemma round64_bounded:
  fixes z c Y e C E :: real
  assumes "\<bar>z - c * Y\<bar> \<le> e * Y" "1/4 \<le> Y" "Y \<le> 1" "\<bar>c\<bar> \<le> C" "C + e \<le> 1000"
    and "e + (C + e) / 9007199254740992 + 1 / 2 ^ 100 \<le> E"
  shows "\<exists>r. round64 z = Fin r \<and> \<bar>r - c * Y\<bar> \<le> E * Y"
  by (rule round64_within [OF assms(1-3)]) (use assms(4-6) in \<open>unfold add_divide_distrib, linarith+\<close>)

lemma sixth_d_eval: "ieee_div round64 (round64 (of_rat 1)) (round64 (of_rat 6)) = Fin sixth_d"
proof -
  have "round64 (1/6) = Fin sixth_d"
    using round64_eq [of "-3" "1/6" "-55" 6004799503160661] by (simp add: max_float64_def)
  then show ?thesis by (simp add: round64_consts)
qed

lemma combine_stage:
  fixes k1 k2 k3 k4 c1 c2 c3 c4 Y :: real
  assumes Y: "1/4 \<le> Y" "Y \<le> 1"
    and k: "\<bar>k1 - c1 * Y\<bar> \<le> (1/100000000) * Y" "\<bar>k2 - c2 * Y\<bar> \<le> (1/100000000) * Y"
           "\<bar>k3 - c3 * Y\<bar> \<le> (1/100000000) * Y" "\<bar>k4 - c4 * Y\<bar> \<le> (1/100000000) * Y"
    and c: "\<bar>c1\<bar> \<le> 1/50" "\<bar>c2\<bar> \<le> 1/50" "\<bar>c3\<bar> \<le> 1/50" "\<bar>c4\<bar> \<le> 1/50"
  shows "\<exists>y'. to_float ieee_ops (d_add ieee_ops (Fin Y) (d_mul ieee_ops
                 (d_div ieee_ops (d_lit ieee_ops 1) (d_lit ieee_ops 6))
                 (f_add ieee_ops (f_add ieee_ops (f_add ieee_ops (Fin k1) (f_mul ieee_ops (f_of_int ieee_ops 2) (Fin k2)))
                                               (f_mul ieee_ops (f_of_int ieee_ops 2) (Fin k3))) (Fin k4)))) = Fin y'
             \<and> \<bar>y' - (1 + sixth_d * (c1 + 2 * c2 + (2 * c3) + c4)) * Y\<bar> \<le> (8/100000000) * Y"
proof -
  have two: "\<And>c :: real. \<bar>c\<bar> \<le> 1/50 \<Longrightarrow> \<bar>2 * c\<bar> \<le> 1/25" by (simp add: abs_mult)
  obtain a where a: "round32 (2 * k2) = Fin a" "\<bar>a - (2 * c2) * Y\<bar> \<le> (23/1000000000) * Y"
    using round32_bounded [OF stage_scale [OF k(2), of 2] Y two [OF c(2)], where E = "23/1000000000"] by auto
  obtain s1 where s1: "round32 (k1 + a) = Fin s1" "\<bar>s1 - (c1 + 2 * c2) * Y\<bar> \<le> (37/1000000000) * Y"
    using round32_bounded [OF stage_add [OF k(1) a(2)] Y abs_add_le [OF c(1) two [OF c(2)]], where E = "37/1000000000"] by auto
  obtain b where b: "round32 (2 * k3) = Fin b" "\<bar>b - (2 * c3) * Y\<bar> \<le> (23/1000000000) * Y"
    using round32_bounded [OF stage_scale [OF k(3), of 2] Y two [OF c(3)], where E = "23/1000000000"] by auto
  note cs1 = abs_add_le [OF c(1) two [OF c(2)]]
  obtain s2 where s2: "round32 (s1 + b) = Fin s2" "\<bar>s2 - (c1 + 2 * c2 + 2 * c3) * Y\<bar> \<le> (67/1000000000) * Y"
    using round32_bounded [OF stage_add [OF s1(2) b(2)] Y abs_add_le [OF cs1 two [OF c(3)]], where E = "67/1000000000"] by auto
  note cs2 = abs_add_le [OF abs_add_le [OF cs1 two [OF c(3)]] c(4)]
  obtain S where S: "round32 (s2 + k4) = Fin S" "\<bar>S - (c1 + 2 * c2 + 2 * c3 + c4) * Y\<bar> \<le> (85/1000000000) * Y"
    using round32_bounded [OF stage_add [OF s2(2) k(4)] Y cs2, where E = "85/1000000000"] by auto
  have cm: "\<bar>sixth_d * (c1 + 2 * c2 + 2 * c3 + c4)\<bar> \<le> 1/50"
    unfolding abs_mult by (rule order_trans [OF mult_left_mono [OF cs2]]) simp_all
  obtain m where m: "round64 (sixth_d * S) = Fin m"
      "\<bar>m - (sixth_d * (c1 + 2 * c2 + 2 * c3 + c4)) * Y\<bar> \<le> (15/1000000000) * Y"
    using round64_bounded [OF stage_scale [OF S(2), of sixth_d] Y cm, where E = "15/1000000000"] by auto
  have c1: "\<bar>1 :: real\<bar> \<le> 1" by simp
  obtain t where t: "round64 (Y + m) = Fin t"
      "\<bar>t - (1 + sixth_d * (c1 + 2 * c2 + 2 * c3 + c4)) * Y\<bar> \<le> (16/1000000000) * Y"
    using round64_bounded [OF stage_add [OF stage_self m(2)] Y abs_add_le [OF c1 cm], where E = "16/1000000000"] by auto
  obtain y' where y': "round32 t = Fin y'"
      "\<bar>y' - (1 + sixth_d * (c1 + 2 * c2 + 2 * c3 + c4)) * Y\<bar> \<le> (8/100000000) * Y"
    using round32_bounded [OF t(2) Y abs_add_le [OF c1 cm], where E = "8/100000000"] by auto
  have "round32 (real_of_int 2) = Fin 2" by (simp add: round32_small_ints)
  then show ?thesis using y'
    by (simp only: ieee_ops_simps lift2.simps sixth_d_eval a(1) s1(1) b(1) s2(1) S(1) m(1) t(1)
                   to_float32.simps) blast
qed

section \<open>One step\<close>

lemma stage_shift:
  fixes a c c' Y e \<delta> :: real
  assumes "\<bar>a - c * Y\<bar> \<le> e * Y" "\<bar>c - c'\<bar> \<le> \<delta>" "0 \<le> Y"
  shows "\<bar>a - c' * Y\<bar> \<le> (e + \<delta>) * Y"
proof -
  have "\<bar>(c - c') * Y\<bar> \<le> \<delta> * Y" unfolding abs_mult using assms(2,3) by (simp add: mult_right_mono)
  moreover have "\<bar>a - c' * Y\<bar> \<le> \<bar>a - c * Y\<bar> + \<bar>(c - c') * Y\<bar>"
    using abs_triangle_ineq [of "a - c * Y" "(c - c') * Y"] by (simp add: algebra_simps)
  ultimately show ?thesis using assms(1) by (simp add: distrib_right)
qed

lemma f_mul_hundredth: "round32 (hundredth_f * d) = Fin k \<Longrightarrow> f_mul ieee_ops (Fin hundredth_f) (Fin d) = Fin k"
  by simp

lemma decay_step:
  fixes Y :: real
  assumes Y: "1/4 \<le> Y" "Y \<le> 1"
  shows "\<exists>y'. rk4_step ieee_ops decay_eq (Fin hundredth_f) x (Fin Y) = Inr (f_add ieee_ops x (Fin hundredth_f), Fin y')
              \<and> \<bar>y' - rk4_growth (- hundredth_f) * Y\<bar> \<le> (9/100000000) * Y"
proof -
  obtain d1 k1 where s1: "\<forall>x. calculateDerivative ieee_ops x (Fin Y) decay_eq = Inr (Fin d1)"
      "round32 (hundredth_f * d1) = Fin k1" "\<bar>k1 - (hundredth_f * - 1) * Y\<bar> \<le> (1/100000000) * Y"
    using slope_stage [OF stage_self Y, where E = "1/100000000"] by auto
  obtain d2 k2 where s2: "\<forall>x. calculateDerivative ieee_ops x (to_float ieee_ops (d_add ieee_ops (Fin Y)
          (d_mul ieee_ops (d_lit ieee_ops (1/2)) (Fin k1)))) decay_eq = Inr (Fin d2)"
      "round32 (hundredth_f * d2) = Fin k2"
      "\<bar>k2 - (hundredth_f * - (1 + 1/2 * (hundredth_f * - 1))) * Y\<bar> \<le> (1/100000000) * Y"
    using mid_slope_stage [OF s1(3) Y, where E = "1/100000000"] by auto
  obtain d3 k3 where s3: "\<forall>x. calculateDerivative ieee_ops x (to_float ieee_ops (d_add ieee_ops (Fin Y)
          (d_mul ieee_ops (d_lit ieee_ops (1/2)) (Fin k2)))) decay_eq = Inr (Fin d3)"
      "round32 (hundredth_f * d3) = Fin k3"
      "\<bar>k3 - (hundredth_f * - (1 + 1/2 * (hundredth_f * - (1 + 1/2 * (hundredth_f * - 1))))) * Y\<bar> \<le> (1/100000000) * Y"
    using mid_slope_stage [OF s2(3) Y, where E = "1/100000000"] by auto
  obtain d4 k4 where s4: "\<forall>x. calculateDerivative ieee_ops x (f_add ieee_ops (Fin Y) (Fin k3)) decay_eq = Inr (Fin d4)"
      "round32 (hundredth_f * d4) = Fin k4"
      "\<bar>k4 - (hundredth_f * - (1 + hundredth_f * - (1 + 1/2 * (hundredth_f * - (1 + 1/2 * (hundredth_f * - 1)))))) * Y\<bar>
         \<le> (1/100000000) * Y"
    using end_slope_stage [OF s3(3) Y, where E = "1/100000000"] by auto
  obtain y' where y': "to_float ieee_ops (d_add ieee_ops (Fin Y) (d_mul ieee_ops
                 (d_div ieee_ops (d_lit ieee_ops 1) (d_lit ieee_ops 6))
                 (f_add ieee_ops (f_add ieee_ops (f_add ieee_ops (Fin k1) (f_mul ieee_ops (f_of_int ieee_ops 2) (Fin k2)))
                                               (f_mul ieee_ops (f_of_int ieee_ops 2) (Fin k3))) (Fin k4)))) = Fin y'"
      and b: "\<bar>y' - (1 + sixth_d * ((hundredth_f * - 1) + 2 * (hundredth_f * - (1 + 1/2 * (hundredth_f * - 1)))
                + (2 * (hundredth_f * - (1 + 1/2 * (hundredth_f * - (1 + 1/2 * (hundredth_f * - 1))))))
                + (hundredth_f * - (1 + hundredth_f * - (1 + 1/2 * (hundredth_f * - (1 + 1/2 * (hundredth_f * - 1)))))))) * Y\<bar>
             \<le> (8/100000000) * Y"
    using combine_stage [OF Y s1(3) s2(3) s3(3) s4(3)] by auto
  have "\<bar>(1 + sixth_d * ((hundredth_f * - 1) + 2 * (hundredth_f * - (1 + 1/2 * (hundredth_f * - 1)))
                + (2 * (hundredth_f * - (1 + 1/2 * (hundredth_f * - (1 + 1/2 * (hundredth_f * - 1))))))
                + (hundredth_f * - (1 + hundredth_f * - (1 + 1/2 * (hundredth_f * - (1 + 1/2 * (hundredth_f * - 1))))))))
         - rk4_growth (- hundredth_f)\<bar> \<le> 1/100000000"
    by (simp add: rk4_growth_def power_divide)
  from stage_shift [OF b this] Y have "\<bar>y' - rk4_growth (- hundredth_f) * Y\<bar> \<le> (9/100000000) * Y" by simp
  moreover have "rk4_step ieee_ops decay_eq (Fin hundredth_f) x (Fin Y) = Inr (f_add ieee_ops x (Fin hundredth_f), Fin y')"
    unfolding rk4_step_def rk4_scheme_def Let_def
    by (simp only: s1(1) [rule_format] s2(1) [rule_format] s3(1) [rule_format] s4(1) [rule_format] ebind_Inr
                   f_mul_hundredth [OF s1(2)] f_mul_hundredth [OF s2(2)] f_mul_hundredth [OF s3(2)]
                   f_mul_hundredth [OF s4(2)] y')
  ultimately show ?thesis by blast
qed

section \<open>A hundred steps\<close>

lemma decay_growth_bounds: "0 \<le> decay_growth" "decay_growth \<le> 199/200"
  by (simp_all add: rk4_growth_def power_divide)

lemma decay_growth_exp: "\<bar>exp (- hundredth_f) - decay_growth\<bar> \<le> 1/10000000000"
proof -
  have "\<bar>exp (- hundredth_f) - decay_growth\<bar> \<le> 3 * \<bar>- hundredth_f\<bar> ^ 5 / 120"
    by (rule rk4_growth_exp_error) simp
  also have "\<dots> \<le> 1/10000000000" by (simp add: power_divide)
  finally show ?thesis .
qed

lemma decay_growth_power:
  assumes "k \<le> 100"
  shows "\<bar>decay_growth ^ k - exp (- (of_nat k * hundredth_f))\<bar> \<le> 1/100000000"
proof -
  have "\<bar>decay_growth ^ k - exp (- hundredth_f) ^ k\<bar> \<le> of_nat k * \<bar>decay_growth - exp (- hundredth_f)\<bar>"
    by (rule power_diff_le) (use decay_growth_bounds in simp_all)
  also have "\<dots> \<le> 100 * (1/10000000000)"
    using assms decay_growth_exp by (intro mult_mono) (simp_all add: abs_minus_commute)
  finally show ?thesis by (simp add: exp_of_nat_mult [symmetric])
qed

lemma exp_minus_one_lower: "1/3 \<le> exp (-1 :: real)"
proof -
  have "exp (1 :: real) \<le> 3" using exp_le by simp
  then show ?thesis by (simp add: exp_minus field_simps)
qed

lemma decay_growth_power_lower:
  assumes "k \<le> 100"
  shows "33/100 \<le> decay_growth ^ k"
proof -
  have "of_nat k * hundredth_f \<le> 1" using assms by simp
  then have "exp (-1) \<le> exp (- (of_nat k * hundredth_f))" by simp
  with exp_minus_one_lower decay_growth_power [OF assms] show ?thesis by linarith
qed

lemma decay_value_range:
  fixes yk :: real
  assumes "k \<le> 100" "\<bar>yk - decay_growth ^ k\<bar> \<le> of_nat k * (9/100000000)"
  shows "1/4 \<le> yk" "yk \<le> 1"
proof -
  have k: "of_nat k * (9/100000000 :: real) \<le> 9/1000000" using assms(1) by simp
  show "1/4 \<le> yk" using decay_growth_power_lower [OF assms(1)] assms(2) k by linarith
  show "yk \<le> 1"
  proof (cases k)
    case 0
    then show ?thesis using assms(2) by simp
  next
    case (Suc m)
    have "decay_growth ^ k \<le> decay_growth ^ 1"
      by (rule power_decreasing) (use Suc decay_growth_bounds in simp_all)
    then have "decay_growth ^ k \<le> decay_growth" by simp
    then show ?thesis using decay_growth_bounds(2) assms(2) k by linarith
  qed
qed

lemma decay_iterate:
  assumes "k \<le> 100"
  shows "\<exists>yk. snd ((rk4_update ieee_ops decay_eq (Fin hundredth_f) ^^ k) (x0, Fin 1)) = Fin yk
              \<and> \<bar>yk - decay_growth ^ k\<bar> \<le> of_nat k * (9/100000000)"
  using assms
proof (induction k)
  case 0
  then show ?case by simp
next
  case (Suc k)
  let ?p = "(rk4_update ieee_ops decay_eq (Fin hundredth_f) ^^ k) (x0, Fin 1)"
  from Suc obtain yk where yk: "snd ?p = Fin yk" "\<bar>yk - decay_growth ^ k\<bar> \<le> of_nat k * (9/100000000)" by auto
  note r = decay_value_range [OF _ yk(2)]
  from Suc.prems obtain y' where y': "rk4_step ieee_ops decay_eq (Fin hundredth_f) (fst ?p) (Fin yk)
        = Inr (f_add ieee_ops (fst ?p) (Fin hundredth_f), Fin y')"
      "\<bar>y' - decay_growth * yk\<bar> \<le> (9/100000000) * yk"
    using decay_step [OF r] by fastforce
  have "\<bar>decay_growth * (yk - decay_growth ^ k)\<bar> \<le> \<bar>yk - decay_growth ^ k\<bar>"
    unfolding abs_mult using decay_growth_bounds by (simp add: mult_left_le_one_le)
  moreover have "\<bar>y' - decay_growth * decay_growth ^ k\<bar>
      \<le> \<bar>y' - decay_growth * yk\<bar> + \<bar>decay_growth * (yk - decay_growth ^ k)\<bar>"
    using abs_triangle_ineq [of "y' - decay_growth * yk" "decay_growth * (yk - decay_growth ^ k)"]
    by (simp add: algebra_simps)
  moreover have "(9/100000000) * yk \<le> 9/100000000" using r Suc.prems by simp
  ultimately have "\<bar>y' - decay_growth * decay_growth ^ k\<bar> \<le> 9/100000000 + of_nat k * (9/100000000)"
    using yk(2) y'(2) by linarith
  then have "\<bar>y' - decay_growth ^ Suc k\<bar> \<le> of_nat (Suc k) * (9/100000000)" by (simp add: distrib_right)
  moreover have "snd ((rk4_update ieee_ops decay_eq (Fin hundredth_f) ^^ Suc k) (x0, Fin 1)) = Fin y'"
    using y'(1) yk(1) by (simp add: prod_eq_iff)
  ultimately show ?case by blast
qed

lemma exp_hundred_steps: "\<bar>exp (- (100 * hundredth_f)) - exp (-1)\<bar> \<le> 1/10000000"
proof -
  define \<delta> :: real where "\<delta> = 3 / 134217728"
  have e: "exp (- (100 * hundredth_f)) = exp (-1) * exp \<delta>"
    by (simp add: \<delta>_def exp_add [symmetric])
  have lo: "1 \<le> exp \<delta>" by (simp add: \<delta>_def)
  have "norm (exp \<delta>) \<le> 1 + 2 * norm \<delta>" by (rule exp_bound_lemma) (simp add: \<delta>_def)
  then have hi: "exp \<delta> - 1 \<le> 2 * \<delta>" by (simp add: \<delta>_def)
  have m: "exp (-1 :: real) \<le> 1" "0 < exp (-1 :: real)" by simp_all
  have "exp (-1) * (exp \<delta> - 1) \<le> 1 * (2 * \<delta>)"
    by (rule mult_mono) (use m lo hi in simp_all)
  moreover have "0 \<le> exp (-1) * (exp \<delta> - 1)" using lo m by simp
  ultimately show ?thesis unfolding e by (simp add: \<delta>_def algebra_simps)
qed

lemma scanf_float_decay_inputs:
  "scanf_float 0 = Fin 0" "scanf_float 1 = Fin 1" "scanf_float (1/100) = Fin hundredth_f"
  "scanf_float (367879/1000000) = Fin (12343971 / 33554432)"
  using round32_small_ints round32_eq [of "-7" "1/100" "-30" 10737418]
        round32_eq [of "-2" "367879/1000000" "-25" 12343971]
  by (simp_all add: scanf_float_def max_float32_def of_rat_divide)

lemma decay_count: "iteration_count ieee_ops (Fin 0) (Fin 1) (Fin hundredth_f) = Some 100"
proof -
  have "round32 (536870912 / 5368709) = Fin 100"
    using round32_eq [of 6 "536870912 / 5368709" "-17" 13107200] by (simp add: max_float32_def)
  moreover have "x_to_int (Fin 100) = Some 100"
    by (simp add: real_to_int32_def trunc_toward_zero_def in_int32_def int32_min_def int32_max_def)
  ultimately show ?thesis by (simp add: iteration_count_def step_size_def round32_small_ints)
qed

lemma decay_eq_wf: "wf_equation decay_eq" "y_prime_coefficient decay_eq \<noteq> 0"
  by (simp_all add:  wf_equation_def)

lemma decay_run:
  "\<exists>tr y. rungeKutta ieee_ops (scanf_float 0) (scanf_float 1) (scanf_float 1) (scanf_float (1/100)) decay_eq
           = (tr, Inr (Fin y)) \<and> \<bar>y - exp (-1)\<bar> < 1/100000"
proof -
  have "step_size ieee_ops (Fin 0) (Fin 1) (Fin hundredth_f) = Fin hundredth_f" by (simp add: step_size_def)
  then have run: "snd (rungeKutta ieee_ops (scanf_float 0) (scanf_float 1) (scanf_float 1) (scanf_float (1/100)) decay_eq)
      = Inr (snd ((rk4_update ieee_ops decay_eq (Fin hundredth_f) ^^ 100) (Fin 0, Fin 1)))"
    using rungeKutta_iterate [OF decay_eq_wf decay_count] by (simp add: scanf_float_decay_inputs Let_def)
  obtain y where y: "snd ((rk4_update ieee_ops decay_eq (Fin hundredth_f) ^^ 100) (Fin 0, Fin 1)) = Fin y"
      "\<bar>y - decay_growth ^ 100\<bar> \<le> of_nat 100 * (9/100000000)"
    using decay_iterate [of 100 "Fin 0"] by auto
  have "\<bar>decay_growth ^ 100 - exp (- (100 * hundredth_f))\<bar> \<le> 1/100000000"
    using decay_growth_power [of 100] by simp
  moreover have "\<bar>y - decay_growth ^ 100\<bar> \<le> 9/1000000" using y(2) by simp
  ultimately have "y - exp (-1) < 1/100000" "exp (-1) - y < 1/100000"
    using exp_hundred_steps unfolding abs_le_iff by linarith+
  then have "\<bar>y - exp (-1)\<bar> < 1/100000" unfolding abs_less_iff by simp
  moreover have "snd (rungeKutta ieee_ops (scanf_float 0) (scanf_float 1) (scanf_float 1) (scanf_float (1/100)) decay_eq) = Inr (Fin y)"
    using run y(1) by simp
  then have "rungeKutta ieee_ops (scanf_float 0) (scanf_float 1) (scanf_float 1) (scanf_float (1/100)) decay_eq
      = (fst (rungeKutta ieee_ops (scanf_float 0) (scanf_float 1) (scanf_float 1) (scanf_float (1/100)) decay_eq), Inr (Fin y))"
    by (cases "rungeKutta ieee_ops (scanf_float 0) (scanf_float 1) (scanf_float 1) (scanf_float (1/100)) decay_eq") simp
  ultimately show ?thesis by blast
qed

lemma exp_minus_one_approx: "\<bar>12343971 / 33554432 - exp (-1 :: real)\<bar> \<le> 1/500000"
proof -
  obtain t where t: "\<bar>t\<bar> \<le> \<bar>-1 :: real\<bar>"
    and e: "exp (-1 :: real) = (\<Sum>m<10. (-1) ^ m / fact m) + exp t / fact 10 * (-1) ^ 10"
    using Maclaurin_exp_le [of "-1 :: real" 10] by blast
  have s: "(\<Sum>m<10. (-1 :: real) ^ m / fact m) = 16687 / 45360"
    by (simp add: lessThan_nat_numeral fact_numeral)
  have "exp t \<le> exp 1" using t by simp
  also have "exp (1::real) \<le> 3" using exp_le by simp
  finally have "0 < exp t" "exp t \<le> 3" by simp_all
  moreover have "exp (-1 :: real) = 16687 / 45360 + exp t / 3628800" using e s by (simp add: fact_numeral)
  ultimately show ?thesis unfolding abs_le_iff by linarith
qed

lemma decay_abs_error:
  fixes y :: real
  assumes "\<bar>y - exp (-1)\<bar> < 1/100000"
  shows "\<exists>err. absolute_error ieee_ops (scanf_float (367879/1000000)) (Fin y) = Fin err \<and> err < 1/10000"
proof -
  let ?d = "12343971 / 33554432 - y"
  have d: "\<bar>?d\<bar> \<le> 1/500000 + 1/100000"
    using assms exp_minus_one_approx unfolding abs_le_iff abs_less_iff by linarith
  then have "\<bar>?d\<bar> \<le> 2 ^ 100" by simp
  from round32_finite [OF this] obtain r where r: "round32 ?d = Fin r"
    "\<bar>r - ?d\<bar> \<le> \<bar>?d\<bar> / 16777216 + 1 / 2 ^ 150" by blast
  have "\<bar>r\<bar> \<le> \<bar>?d\<bar> + \<bar>r - ?d\<bar>" using abs_triangle_ineq [of ?d "r - ?d"] by simp
  then have "\<bar>r\<bar> < 1/10000" using d r(2) by simp
  moreover have "absolute_error ieee_ops (scanf_float (367879/1000000)) (Fin y) = Fin \<bar>r\<bar>"
    using r(1) by (simp add: absolute_error_def scanf_float_decay_inputs)
  ultimately show ?thesis by blast
qed

section \<open>Properties\<close>

text \<open>
  C30 (functional). The closed-form check of the specification holds for the
  program as compiled, in single precision with its \<open>double\<close> intermediate
  expressions: \<open>main\<close> run on \<open>y' + y = 0\<close>, \<open>x0 = 0\<close>, \<open>y0 = 1\<close>,
  \<open>h = 0.01\<close>, target \<open>1\<close>, with its allocations succeeding, exits
  successfully, prints a result within \<open>10^-5\<close> of \<open>e^-1\<close> (the
  specification asks for \<open>10^-4\<close>), and against the reference value
  \<open>0.367879\<close> prints an absolute error below \<open>10^-4\<close>.
\<close>

theorem main_float_closed_form:
  "\<exists>y err. out_status (main_model ieee_ops True (\<lambda>_. True) decay_input) = Exit_Success
       \<and> out_result (main_model ieee_ops True (\<lambda>_. True) decay_input) = Some (Fin y)
       \<and> \<bar>y - exp (-1)\<bar> < 1/100000
       \<and> out_abs_error (main_model ieee_ops True (\<lambda>_. True) decay_input) = Some (Fin err)
       \<and> err < 1/10000"
proof -
  have eq: "read_equation decay_input = decay_eq" by (simp add: read_equation_def)
  obtain tr y where r: "rungeKutta ieee_ops (scanf_float 0) (scanf_float 1) (scanf_float 1) (scanf_float (1/100)) decay_eq
      = (tr, Inr (Fin y))" and y: "\<bar>y - exp (-1)\<bar> < 1/100000"
    using decay_run by blast
  obtain err where err: "absolute_error ieee_ops (scanf_float (367879/1000000)) (Fin y) = Fin err"
      "err < 1/10000"
    using decay_abs_error [OF y] by blast
  have "out_status (main_model ieee_ops True (\<lambda>_. True) decay_input) = Exit_Success"
    "out_result (main_model ieee_ops True (\<lambda>_. True) decay_input) = Some (Fin y)"
    "out_abs_error (main_model ieee_ops True (\<lambda>_. True) decay_input) = Some (Fin err)"
    by (simp_all only: main_model_def eq r not_True_eq_False if_False prod.case sum.case
                       main_output.select_convs main_input.select_convs err(1))
  with y err(2) show ?thesis by blast
qed

end
