(* ===== verification/Float_Count.thy ===== *)
theory Float_Count
  imports IEEE_Ops RK4_Exact
begin

text \<open>
  The iteration count of \<open>rungeKutta\<close> (\<open>src/runge.c\<close> line 129) in IEEE
  \<open>float\<close> arithmetic against the count of the same \<open>float\<close> inputs in exact
  arithmetic: the subtraction and the division each round once, so the quotient
  that is truncated is within \<open>1/2\<close> of the exact one, and the two counts
  differ by at most one. Both differences occur: \<open>x_target = 1\<close>,
  \<open>h = 0.1f\<close> (slightly above \<open>0.1\<close>) has the exact quotient
  \<open>9.99999985...\<close> but the \<open>float\<close> one \<open>10\<close>.
\<close>

section \<open>Truncations of close values\<close>

lemma trunc_floor_close:
  fixes a b :: real
  assumes "0 \<le> b" "\<bar>a - b\<bar> < 1"
  shows "\<bar>trunc_toward_zero a - \<lfloor>b\<rfloor>\<bar> \<le> 1"
proof (cases "0 \<le> a")
  case True
  have "\<lfloor>a\<rfloor> < \<lfloor>b\<rfloor> + 2" "\<lfloor>b\<rfloor> < \<lfloor>a\<rfloor> + 2"
    using assms(2) unfolding abs_less_iff by linarith+
  with True show ?thesis by (simp add: trunc_toward_zero_nonneg)
next
  case False
  then have "-1 < a" "a < 0" using assms unfolding abs_less_iff by linarith+
  then have "trunc_toward_zero a = 0" by (simp add: trunc_toward_zero_def ceiling_eq_iff)
  moreover have "\<lfloor>b\<rfloor> = 0" using assms \<open>a < 0\<close> unfolding abs_less_iff by (simp add: floor_eq_iff)
  ultimately show ?thesis by simp
qed

section \<open>The rounded quotient\<close>

lemma float_quotient_close:
  fixes x0 xt h :: real
  assumes "x0 \<le> xt" "1 / 2 ^ 100 \<le> h" "xt - x0 \<le> 2 ^ 20 * h" "xt - x0 \<le> 2 ^ 100"
  shows "\<exists>q'. f_div ieee_ops (f_sub ieee_ops (Fin xt) (Fin x0)) (Fin h) = Fin q'
              \<and> \<bar>q' - (xt - x0) / h\<bar> < 1/2 \<and> \<bar>q'\<bar> \<le> 2 ^ 21"
proof -
  define D where "D = xt - x0"
  define q where "q = D / h"
  have h: "0 < h" using assms(2) by (rule order.strict_trans2 [rotated]) simp
  have D: "0 \<le> D" "D \<le> 2 ^ 100" using assms(1,4) by (simp_all add: D_def)
  have q: "0 \<le> q" "q \<le> 2 ^ 20" using D h assms(3) by (simp_all add: q_def D_def divide_le_eq)
  obtain D' where D': "round32 D = Fin D'" "\<bar>D' - D\<bar> \<le> D / 16777216 + 1 / 2 ^ 150"
    using round32_finite [of D] D by auto
  have "\<bar>D' / h - q\<bar> = \<bar>D' - D\<bar> / h" using h by (simp add: q_def diff_divide_distrib [symmetric])
  also have "\<dots> \<le> (D / 16777216 + 1 / 2 ^ 150) / h" by (rule divide_right_mono [OF D'(2)]) (use h in simp)
  also have "\<dots> = q / 16777216 + (1 / 2 ^ 150) / h" by (simp add: q_def add_divide_distrib)
  also have "(1 / 2 ^ 150) / h \<le> (1 / 2 ^ 150) / (1 / 2 ^ 100 :: real)"
    by (rule divide_left_mono) (use assms(2) h in simp_all)
  finally have e1: "\<bar>D' / h - q\<bar> \<le> q / 16777216 + 1 / 2 ^ 50" by simp
  have "\<bar>D' / h\<bar> \<le> q + \<bar>D' / h - q\<bar>" using abs_triangle_ineq [of q "D' / h - q"] q by simp
  then have x: "\<bar>D' / h\<bar> \<le> 2 ^ 21" "\<bar>D' / h\<bar> \<le> 2 ^ 100" using e1 q by simp_all
  obtain q' where q': "round32 (D' / h) = Fin q'" "\<bar>q' - D' / h\<bar> \<le> \<bar>D' / h\<bar> / 16777216 + 1 / 2 ^ 150"
    using round32_finite [OF x(2)] by auto
  have "\<bar>q' - q\<bar> \<le> \<bar>q' - D' / h\<bar> + \<bar>D' / h - q\<bar>" using abs_triangle_ineq [of "q' - D' / h" "D' / h - q"] by simp
  then have close: "\<bar>q' - q\<bar> < 1/2" using e1 q' x(1) q by simp
  have "\<bar>q'\<bar> \<le> q + \<bar>q' - q\<bar>" using abs_triangle_ineq [of q "q' - q"] q by simp
  then have "\<bar>q'\<bar> \<le> 2 ^ 21" using close q by simp
  moreover have "f_div ieee_ops (f_sub ieee_ops (Fin xt) (Fin x0)) (Fin h) = Fin q'"
    using h D'(1) q'(1) by (simp add: D_def)
  ultimately show ?thesis using close by (auto simp: q_def D_def)
qed

lemma iteration_count_exact_floor:
  fixes x0 xt h :: real
  assumes "x0 \<le> xt" "0 < h" "xt - x0 \<le> 2 ^ 20 * h"
  shows "iteration_count exact_ops x0 xt h = Some \<lfloor>(xt - x0) / h\<rfloor>"
proof -
  have q: "0 \<le> (xt - x0) / h" "(xt - x0) / h \<le> 2 ^ 20" using assms by (simp_all add: divide_le_eq)
  then have "\<lfloor>(xt - x0) / h\<rfloor> \<le> 2 ^ 20" by (simp add: floor_le_iff)
  with q(1) have "in_int32 \<lfloor>(xt - x0) / h\<rfloor>" by (simp add: in_int32_def int32_min_def int32_max_def)
  with q(1) assms(1) show ?thesis
    by (simp add: iteration_count_def step_size_def real_to_int32_def trunc_toward_zero_nonneg)
qed

section \<open>Properties\<close>

text \<open>
  C31 (bounds). For \<open>float\<close> inputs with \<open>x0 \<le> x_target\<close>, a step
  \<open>h \<ge> 2\<^sup>-\<^sup>1\<^sup>0\<^sup>0\<close> and at most \<open>2\<^sup>2\<^sup>0\<close> steps to the target, the
  iteration count \<open>main\<close> computes in IEEE \<open>float\<close> arithmetic is defined
  and differs by at most one from the count of the same values in exact
  arithmetic, \<open>\<lfloor>(x_target - x0) / h\<rfloor>\<close>.
\<close>

theorem iteration_count_float_within_one:
  fixes x0 xt h :: real
  assumes "x0 \<le> xt" "1 / 2 ^ 100 \<le> h" "xt - x0 \<le> 2 ^ 20 * h" "xt - x0 \<le> 2 ^ 100"
  shows "\<exists>n m. iteration_count ieee_ops (Fin x0) (Fin xt) (Fin h) = Some n
               \<and> iteration_count exact_ops x0 xt h = Some m \<and> \<bar>n - m\<bar> \<le> 1"
proof -
  have h: "0 < h" using assms(2) by (rule order.strict_trans2 [rotated]) simp
  obtain q' where q': "f_div ieee_ops (f_sub ieee_ops (Fin xt) (Fin x0)) (Fin h) = Fin q'"
      "\<bar>q' - (xt - x0) / h\<bar> < 1/2" "\<bar>q'\<bar> \<le> 2 ^ 21"
    using float_quotient_close [OF assms] by blast
  have "\<bar>trunc_toward_zero q'\<bar> \<le> 2 ^ 21"
    using q'(3) unfolding trunc_toward_zero_abs by (simp add: floor_le_iff)
  then have "in_int32 (trunc_toward_zero q')" by (simp add: in_int32_def int32_min_def int32_max_def abs_le_iff)
  then have n: "iteration_count ieee_ops (Fin x0) (Fin xt) (Fin h) = Some (trunc_toward_zero q')"
    using q'(1) assms(1) by (simp add: iteration_count_def step_size_def real_to_int32_def)
  have "\<bar>trunc_toward_zero q' - \<lfloor>(xt - x0) / h\<rfloor>\<bar> \<le> 1"
    by (rule trunc_floor_close) (use assms(1) h q'(2) in simp_all)
  with n iteration_count_exact_floor [OF assms(1) h assms(3)] show ?thesis by blast
qed

theorem iteration_count_float_within_one_witness:
  "(0 :: real) \<le> 1 \<and> 1 / 2 ^ 100 \<le> (13421773 / 134217728 :: real)
   \<and> 1 - 0 \<le> 2 ^ 20 * (13421773 / 134217728 :: real) \<and> 1 - 0 \<le> (2 ^ 100 :: real)
   \<and> iteration_count ieee_ops (Fin 0) (Fin 1) (Fin (13421773 / 134217728)) = Some 10
   \<and> iteration_count exact_ops 0 1 (13421773 / 134217728 :: real) = Some 9
   \<and> (\<exists>n m. iteration_count ieee_ops (Fin 0) (Fin 1) (Fin (13421773 / 134217728)) = Some n
            \<and> iteration_count exact_ops 0 1 (13421773 / 134217728 :: real) = Some m \<and> \<bar>n - m\<bar> \<le> 1)"
proof -
  have a: "(0 :: real) \<le> 1" "1 / 2 ^ 100 \<le> (13421773 / 134217728 :: real)"
    "1 - 0 \<le> 2 ^ 20 * (13421773 / 134217728 :: real)" "1 - 0 \<le> (2 ^ 100 :: real)" by simp_all
  have "round32 (134217728 / 13421773) = Fin 10"
    using round32_eq [of 3 "134217728 / 13421773" "-20" 10485760] by (simp add: max_float32_def)
  moreover have "x_to_int (Fin 10) = Some 10"
    by (simp add: real_to_int32_def trunc_toward_zero_def in_int32_def int32_min_def int32_max_def)
  ultimately have f: "iteration_count ieee_ops (Fin 0) (Fin 1) (Fin (13421773 / 134217728)) = Some 10"
    by (simp add: iteration_count_def step_size_def round32_small_ints)
  have "\<lfloor>(134217728 / 13421773 :: real)\<rfloor> = 9" by (simp add: floor_eq_iff)
  then have e: "iteration_count exact_ops 0 1 (13421773 / 134217728 :: real) = Some 9"
    using iteration_count_exact_floor [of 0 1 "13421773 / 134217728"] by simp
  show ?thesis using iteration_count_float_within_one [OF a] a f e by blast
qed

end
