(* ===== verification/Float_Gx.thy ===== *)
theory Float_Gx
  imports IEEE_Ops
begin

text \<open>
  \<open>calculate_gx\<close> (\<open>src/runge.c\<close> lines 147--156) in IEEE arithmetic:
  each term is \<open>pow\<close> in \<open>double\<close>, a \<open>double\<close> product with the
  \<open>float\<close> coefficient, a \<open>double\<close> sum with the \<open>float\<close> result and a
  conversion back to \<open>float\<close>. One term adds at most
  \<open>A * 2\<^sup>-\<^sup>2\<^sup>2 + 2\<^sup>-\<^sup>4\<^sup>0\<close> to the error, where \<open>A\<close> bounds the partial
  sums and the terms (\<open>gx_term_error\<close>); over the loop the errors add up
  (\<open>gx_fold_error\<close>).
\<close>

abbreviation float_equation :: "real equation \<Rightarrow> xreal equation" where
  "float_equation eq \<equiv>
     \<lparr>y_coefficient = y_coefficient eq, y_prime_coefficient = y_prime_coefficient eq,
      gx_term_count = gx_term_count eq, gx_coefficients = map Fin (gx_coefficients eq),
      gx_powers = gx_powers eq\<rparr>"

section \<open>One term\<close>


lemma round64_finite:
  fixes x :: real
  assumes "\<bar>x\<bar> \<le> 2 ^ 300"
  shows "\<exists>r. round64 x = Fin r \<and> \<bar>r - x\<bar> \<le> \<bar>x\<bar> / 9007199254740992 + 1 / 2 ^ 150"
proof -
  let ?r = "round_fmt 53 (-1022) x"
  have p53: "(2 :: real) powi (-53) = 1 / 9007199254740992" and p150: "(2 :: real) powi (-150) = 1 / 2 ^ 150"
    by (simp_all add: power_int_minus)
  have "(2 :: real) powi (-1075) < 2 powi (-150)" by (rule power_int_strict_increasing) simp_all
  then have "\<bar>?r - x\<bar> \<le> \<bar>x\<bar> * 2 powi (-53) + 2 powi (-150)"
    using round_fmt_error [of 53 "-1022" x] by simp
  then have err: "\<bar>?r - x\<bar> \<le> \<bar>x\<bar> / 9007199254740992 + 1 / 2 ^ 150" by (simp add: p53 p150)
  have "\<bar>x\<bar> / 9007199254740992 \<le> 2 ^ 300" "(1::real) / 2 ^ 150 \<le> 1" using assms by simp_all
  moreover have "\<bar>?r\<bar> \<le> \<bar>x\<bar> + \<bar>?r - x\<bar>" using abs_triangle_ineq [of x "?r - x"] by simp
  ultimately have "\<bar>?r\<bar> \<le> 2 ^ 300 + 2 ^ 300 + 1" using assms err by linarith
  then have "\<bar>?r\<bar> \<le> max_float64" by (simp add: max_float64_def power_int_minus)
  then have "round64 x = Fin ?r" by (simp add: round64_def)
  with err show ?thesis by blast
qed

lemma abs_diff_chain3:
  fixes x y z w :: real
  shows "\<bar>x - w\<bar> \<le> \<bar>x - y\<bar> + \<bar>y - z\<bar> + \<bar>z - w\<bar>"
  by arith

lemma gx_term_error:
  fixes r s e c t A :: real and p :: int
  assumes "\<bar>r - s\<bar> \<le> e" "\<bar>s\<bar> + \<bar>c * t powi p\<bar> \<le> A" "e \<le> A" "A \<le> 2 ^ 90"
    and "\<bar>c\<bar> \<le> 2 ^ 100" "\<bar>t powi p\<bar> \<le> 2 ^ 100" "t \<noteq> 0 \<or> 0 \<le> p"
  shows "\<exists>r'. gx_term ieee_ops (Fin t) (Fin r) (Fin c, p) = Fin r'
              \<and> \<bar>r' - (s + c * t powi p)\<bar> \<le> e + (A / 4194304 + 1 / 1099511627776)"
proof -
  define P where "P = t powi p"
  define T where "T = c * P"
  have T1: "\<bar>T\<bar> = \<bar>c\<bar> * \<bar>P\<bar>" by (simp add: T_def abs_mult)
  have T: "\<bar>T\<bar> \<le> A" "\<bar>s\<bar> \<le> A"
    using assms(2) abs_ge_zero [of s] abs_ge_zero [of T] unfolding T_def P_def by linarith+
  have P: "\<bar>P\<bar> \<le> 2 ^ 300" using assms(6) by (simp add: P_def)
  obtain pw where pw: "round64 P = Fin pw" "\<bar>pw - P\<bar> \<le> \<bar>P\<bar> / 9007199254740992 + 1 / 2 ^ 150"
    using round64_finite [OF P] by blast
  have "\<bar>pw\<bar> \<le> \<bar>P\<bar> + \<bar>pw - P\<bar>" using abs_triangle_ineq [of P "pw - P"] by simp
  then have "\<bar>pw\<bar> \<le> 2 ^ 101" using pw(2) assms(6) unfolding P_def by simp
  then have "\<bar>c\<bar> * \<bar>pw\<bar> \<le> 2 ^ 100 * 2 ^ 101" by (rule mult_mono [OF assms(5)]) simp_all
  then have cpw: "\<bar>c * pw\<bar> \<le> 2 ^ 300" by (simp add: abs_mult)
  obtain m where m: "round64 (c * pw) = Fin m" "\<bar>m - c * pw\<bar> \<le> \<bar>c * pw\<bar> / 9007199254740992 + 1 / 2 ^ 150"
    using round64_finite [OF cpw] by blast
  have "\<bar>c * pw - T\<bar> = \<bar>c\<bar> * \<bar>pw - P\<bar>" by (simp add: T_def abs_mult [symmetric] right_diff_distrib)
  also have "\<dots> \<le> \<bar>c\<bar> * (\<bar>P\<bar> / 9007199254740992 + 1 / 2 ^ 150)" by (rule mult_left_mono [OF pw(2)]) simp
  also have "\<dots> = \<bar>T\<bar> / 9007199254740992 + \<bar>c\<bar> / 2 ^ 150" by (simp add: T1 distrib_left)
  also have "\<bar>c\<bar> / 2 ^ 150 \<le> (2 ^ 100) / (2 ^ 150 :: real)" by (rule divide_right_mono [OF assms(5)]) simp
  finally have cT: "\<bar>c * pw - T\<bar> \<le> \<bar>T\<bar> / 9007199254740992 + 1 / 2 ^ 50" by simp
  have t150: "(1::real) / 2 ^ 150 = 1 / 1427247692705959881058285969449495136382746624"
    "(1::real) / 2 ^ 50 = 1 / 1125899906842624" "(2::real) ^ 90 = 1237940039285380274899124224" by simp_all
  have sT: "\<bar>s\<bar> + \<bar>T\<bar> \<le> A" using assms(2) unfolding T_def P_def .
  have A0: "0 \<le> A" using sT abs_ge_zero [of s] abs_ge_zero [of T] by linarith
  have "\<bar>c * pw\<bar> \<le> \<bar>T\<bar> + \<bar>c * pw - T\<bar>" using abs_triangle_ineq [of T "c * pw - T"] by simp
  moreover have "\<bar>m - T\<bar> \<le> \<bar>m - c * pw\<bar> + \<bar>c * pw - T\<bar>"
    using abs_triangle_ineq [of "m - c * pw" "c * pw - T"] by simp
  ultimately have mT: "\<bar>m - T\<bar> \<le> 3 * A / 9007199254740992 + 1 / 562949953421312"
    using m(2) cT T assms(4) unfolding t150 by linarith
  have rmT: "\<bar>(r + m) - (s + T)\<bar> \<le> e + \<bar>m - T\<bar>"
    using abs_triangle_ineq [of "r - s" "m - T"] assms(1) by simp
  have "\<bar>r + m\<bar> \<le> \<bar>s\<bar> + \<bar>T\<bar> + \<bar>(r + m) - (s + T)\<bar>"
    using abs_triangle_ineq [of "s + T" "(r + m) - (s + T)"] abs_triangle_ineq [of s T] by simp
  then have rm0: "\<bar>r + m\<bar> \<le> A + \<bar>(r + m) - (s + T)\<bar>" using sT by linarith
  then have rm: "\<bar>r + m\<bar> \<le> 3 * A + 1" using rmT mT assms(3,4) unfolding t150 by linarith
  then have "\<bar>r + m\<bar> \<le> 2 ^ 300" using assms(4) unfolding t150 by simp
  then obtain a where a: "round64 (r + m) = Fin a" "\<bar>a - (r + m)\<bar> \<le> \<bar>r + m\<bar> / 9007199254740992 + 1 / 2 ^ 150"
    using round64_finite by blast
  have "\<bar>a\<bar> \<le> \<bar>r + m\<bar> + \<bar>a - (r + m)\<bar>" using abs_triangle_ineq [of "r + m" "a - (r + m)"] by simp
  then have aa: "\<bar>a\<bar> \<le> \<bar>r + m\<bar> + \<bar>r + m\<bar> / 9007199254740992 + 1 / 2 ^ 150" using a(2) by linarith
  moreover have "\<And>x R :: real. x \<le> R + R / 9007199254740992 + 1 / 2 ^ 150 \<Longrightarrow> R \<le> 3 * A + 1 \<Longrightarrow>
      x \<le> 4 * A + 2" using A0 unfolding t150 by linarith
  ultimately have "\<bar>a\<bar> \<le> 4 * A + 2" using rm by blast
  then have "\<bar>a\<bar> \<le> 2 ^ 100" using assms(4) by simp
  then obtain r' where r': "round32 a = Fin r'" "\<bar>r' - a\<bar> \<le> \<bar>a\<bar> / 16777216 + 1 / 2 ^ 150"
    using round32_finite by blast
  have "\<bar>r' - (s + T)\<bar> \<le> \<bar>r' - a\<bar> + \<bar>a - (r + m)\<bar> + \<bar>(r + m) - (s + T)\<bar>"
    by (rule abs_diff_chain3)
  then have bound: "\<bar>r' - (s + c * t powi p)\<bar> \<le> e + (A / 4194304 + 1 / 1099511627776)"
    using r'(2) a(2) rmT mT rm0 aa A0 assms(3,4) unfolding t150 T_def P_def by linarith
  have np: "\<not> (t = 0 \<and> p < 0)" using assms(7) by auto
  have "gx_term ieee_ops (Fin t) (Fin r) (Fin c, p) = Fin r'"
    using pw(1) m(1) a(1) r'(1) np by (simp add: gx_term_def P_def)
  with bound show ?thesis by blast
qed

section \<open>The loop\<close>

lemma gx_fold_error:
  fixes cps :: "(real \<times> int) list" and t r s e A :: real
  assumes "\<bar>r - s\<bar> \<le> e" "\<bar>s\<bar> + (\<Sum>(c, p)\<leftarrow>cps. \<bar>c * t powi p\<bar>) \<le> A"
    and "e + of_nat (length cps) * (A / 4194304 + 1 / 1099511627776) \<le> A" "A \<le> 2 ^ 90"
    and "\<forall>(c, p) \<in> set cps. \<bar>c\<bar> \<le> 2 ^ 100 \<and> \<bar>t powi p\<bar> \<le> 2 ^ 100 \<and> (t \<noteq> 0 \<or> 0 \<le> p)"
  shows "\<exists>r'. foldl (gx_term ieee_ops (Fin t)) (Fin r) (map (\<lambda>(c, p). (Fin c, p)) cps) = Fin r'
              \<and> \<bar>r' - (s + (\<Sum>(c, p)\<leftarrow>cps. c * t powi p))\<bar>
                  \<le> e + of_nat (length cps) * (A / 4194304 + 1 / 1099511627776)"
  using assms
proof (induction cps arbitrary: r s e)
  case Nil
  then show ?case by simp
next
  case (Cons cp cps)
  obtain c p where cp: "cp = (c, p)" by (cases cp)
  define \<delta> where "\<delta> = A / 4194304 + 1 / 1099511627776"
  define S where "S = (\<Sum>(c, p)\<leftarrow>cps. \<bar>c * t powi p\<bar>)"
  define V where "V = (\<Sum>(c, p)\<leftarrow>cps. c * t powi p)"
  have rest: "0 \<le> S" unfolding S_def by (rule sum_list_nonneg) auto
  have p2: "\<bar>s\<bar> + (\<bar>c * t powi p\<bar> + S) \<le> A" using Cons.prems(2) by (simp add: cp S_def)
  have p3: "e + (1 + of_nat (length cps)) * \<delta> \<le> A" using Cons.prems(3) by (simp add: cp \<delta>_def)
  have p5: "\<bar>c\<bar> \<le> 2 ^ 100" "\<bar>t powi p\<bar> \<le> 2 ^ 100" "t \<noteq> 0 \<or> 0 \<le> p"
    "\<forall>(c, p) \<in> set cps. \<bar>c\<bar> \<le> 2 ^ 100 \<and> \<bar>t powi p\<bar> \<le> 2 ^ 100 \<and> (t \<noteq> 0 \<or> 0 \<le> p)"
    using Cons.prems(5) by (simp_all add: cp)
  have A0: "0 \<le> A" using p2 rest abs_ge_zero [of s] abs_ge_zero [of "c * t powi p"] by linarith
  have d0: "0 \<le> \<delta>" using A0 by (simp add: \<delta>_def)
  have "0 \<le> (1 + of_nat (length cps)) * \<delta>" using d0 by simp
  then have eA: "e \<le> A" using p3 by linarith
  have sA: "\<bar>s\<bar> + \<bar>c * t powi p\<bar> \<le> A" using p2 rest by linarith
  obtain r1 where r1: "gx_term ieee_ops (Fin t) (Fin r) (Fin c, p) = Fin r1"
      "\<bar>r1 - (s + c * t powi p)\<bar> \<le> e + \<delta>"
    using gx_term_error [OF Cons.prems(1) sA eA Cons.prems(4) p5(1-3)] unfolding \<delta>_def by blast
  have "\<bar>s + c * t powi p\<bar> \<le> \<bar>s\<bar> + \<bar>c * t powi p\<bar>" by (rule abs_triangle_ineq)
  then have q2: "\<bar>s + c * t powi p\<bar> + S \<le> A" using p2 by linarith
  have q3: "e + \<delta> + of_nat (length cps) * \<delta> \<le> A" using p3 by (simp add: algebra_simps)
  obtain r' where r': "foldl (gx_term ieee_ops (Fin t)) (Fin r1) (map (\<lambda>(c, p). (Fin c, p)) cps) = Fin r'"
      "\<bar>r' - (s + c * t powi p + V)\<bar> \<le> e + \<delta> + of_nat (length cps) * \<delta>"
    using Cons.IH [OF r1(2) [unfolded \<delta>_def] q2 [unfolded S_def] q3 [unfolded \<delta>_def] Cons.prems(4) p5(4)]
    unfolding V_def \<delta>_def by blast
  have "foldl (gx_term ieee_ops (Fin t)) (Fin r) (map (\<lambda>(c, p). (Fin c, p)) (cp # cps)) = Fin r'"
    using r1(1) r'(1) by (simp add: cp)
  moreover have "\<bar>r' - (s + (\<Sum>(c, p)\<leftarrow>cp # cps. c * t powi p))\<bar>
      \<le> e + of_nat (length (cp # cps)) * (A / 4194304 + 1 / 1099511627776)"
    using r'(2) by (simp add: cp V_def \<delta>_def algebra_simps add_divide_distrib)
  ultimately show ?case by blast
qed

section \<open>Properties\<close>

text \<open>
  C32 (bounds). \<open>calculate_gx\<close> in IEEE arithmetic, on an equation with
  \<open>float\<close> coefficients \<open>c\<^sub>i\<close> and powers \<open>p\<^sub>i\<close> (no pole, no term
  beyond \<open>2\<^sup>1\<^sup>0\<^sup>0\<close>), returns a finite value within
  \<open>m * (A * 2\<^sup>-\<^sup>2\<^sup>2 + 2\<^sup>-\<^sup>4\<^sup>0)\<close> of \<open>g(t) = \<Sum> c\<^sub>i t\<^sup>p\<^sup>\<^sub>i\<close>, where
  \<open>m\<close> is the number of terms and \<open>A\<close> bounds \<open>\<Sum> |c\<^sub>i t\<^sup>p\<^sup>\<^sub>i|\<close> with
  room for that error.
\<close>

theorem calculate_gx_float_error:
  fixes eq :: "real equation" and t A :: real
  assumes "wf_equation eq" "0 \<le> A" "A \<le> 2 ^ 90"
    and "(\<Sum>(c, p)\<leftarrow>zip (gx_coefficients eq) (gx_powers eq). \<bar>c * t powi p\<bar>)
           + of_nat (length (gx_coefficients eq)) * (A / 4194304 + 1 / 1099511627776) \<le> A"
    and "\<forall>(c, p) \<in> set (zip (gx_coefficients eq) (gx_powers eq)).
           \<bar>c\<bar> \<le> 2 ^ 100 \<and> \<bar>t powi p\<bar> \<le> 2 ^ 100 \<and> (t \<noteq> 0 \<or> 0 \<le> p)"
  shows "\<exists>g. calculate_gx ieee_ops (float_equation eq) (Fin t) = Inr (Fin g)
             \<and> \<bar>g - gx_real eq t\<bar> \<le> of_nat (length (gx_coefficients eq)) * (A / 4194304 + 1 / 1099511627776)"
proof -
  let ?cps = "zip (gx_coefficients eq) (gx_powers eq)"
  have len: "length ?cps = length (gx_coefficients eq)" using assms(1) by (simp add: wf_equation_def)
  have wf: "wf_equation (float_equation eq)" using assms(1) by (simp add: wf_equation_def)
  have "calculate_gx ieee_ops (float_equation eq) (Fin t)
          = Inr (foldl (gx_term ieee_ops (Fin t)) (Fin 0) (map (\<lambda>(c, p). (Fin c, p)) ?cps))"
    using gx_loop_fold [OF wf, of 0 ieee_ops "Fin t" "Fin 0"]
    by (simp add: calculate_gx_def round32_small_ints zip_map1)
  moreover
  have S0: "0 \<le> (\<Sum>(c, p)\<leftarrow>?cps. \<bar>c * t powi p\<bar>)" by (rule sum_list_nonneg) auto
  have "0 \<le> of_nat (length ?cps) * (A / 4194304 + 1 / 1099511627776)" using assms(2) by simp
  then have h: "\<bar>0\<bar> + (\<Sum>(c, p)\<leftarrow>?cps. \<bar>c * t powi p\<bar>) \<le> A"
      "0 + of_nat (length ?cps) * (A / 4194304 + 1 / 1099511627776) \<le> A"
    using assms(4) S0 len by simp_all
  obtain g where "foldl (gx_term ieee_ops (Fin t)) (Fin 0) (map (\<lambda>(c, p). (Fin c, p)) ?cps) = Fin g"
      "\<bar>g - (0 + (\<Sum>(c, p)\<leftarrow>?cps. c * t powi p))\<bar>
         \<le> 0 + of_nat (length ?cps) * (A / 4194304 + 1 / 1099511627776)"
    using gx_fold_error [where r = 0 and s = 0 and e = 0 and cps = ?cps and t = t and A = A, OF _ h assms(3,5)]
    by auto
  ultimately show ?thesis using len by (auto simp: gx_real_def)
qed

theorem calculate_gx_float_error_witness:
  "wf_equation \<lparr>y_coefficient = 1, y_prime_coefficient = 1, gx_term_count = 2,
                 gx_coefficients = [3, 2 :: real], gx_powers = [2, -1]\<rparr>
   \<and> (0 :: real) \<le> 14 \<and> (14 :: real) \<le> 2 ^ 90
   \<and> (\<Sum>(c, p)\<leftarrow>zip [3, 2] [2, -1]. \<bar>c * 2 powi p\<bar>) + of_nat 2 * (14 / 4194304 + 1 / 1099511627776) \<le> (14 :: real)
   \<and> \<bar>3 :: real\<bar> \<le> 2 ^ 100 \<and> \<bar>2 :: real\<bar> \<le> 2 ^ 100
   \<and> \<bar>(2 :: real) powi 2\<bar> \<le> 2 ^ 100 \<and> \<bar>(2 :: real) powi (-1)\<bar> \<le> 2 ^ 100
   \<and> (\<exists>g. calculate_gx ieee_ops \<lparr>y_coefficient = 1, y_prime_coefficient = 1, gx_term_count = 2,
                 gx_coefficients = [Fin 3, Fin 2], gx_powers = [2, -1]\<rparr> (Fin 2) = Inr (Fin g)
          \<and> \<bar>g - 13\<bar> \<le> 2 * (14 / 4194304 + 1 / 1099511627776))"
proof -
  let ?eq = "\<lparr>y_coefficient = 1, y_prime_coefficient = 1, gx_term_count = 2,
                 gx_coefficients = [3, 2 :: real], gx_powers = [2, -1]\<rparr>"
  have h: "wf_equation ?eq" "(0 :: real) \<le> 14" "(14 :: real) \<le> 2 ^ 90"
    "(\<Sum>(c, p)\<leftarrow>zip (gx_coefficients ?eq) (gx_powers ?eq). \<bar>c * 2 powi p\<bar>)
       + of_nat (length (gx_coefficients ?eq)) * (14 / 4194304 + 1 / 1099511627776) \<le> (14 :: real)"
    "\<forall>(c, p) \<in> set (zip (gx_coefficients ?eq) (gx_powers ?eq)).
       \<bar>c\<bar> \<le> 2 ^ 100 \<and> \<bar>(2 :: real) powi p\<bar> \<le> 2 ^ 100 \<and> ((2 :: real) \<noteq> 0 \<or> 0 \<le> p)"
    by (simp_all add: wf_equation_def power_int_minus)
  have "gx_real ?eq 2 = 13" by (simp add: gx_real_def power_int_minus)
  with calculate_gx_float_error [OF h] h show ?thesis by (simp add: wf_equation_def power_int_minus)
qed

end
