(* ===== verification/Main_Heap.thy ===== *)
theory Main_Heap
  imports Driver
begin

text \<open>
  The heap blocks of \<open>main\<close> (\<open>src/runge.c\<close> lines 30--53 and 90--92):
  the struct and the two term buffers. Each \<open>malloc\<close> either returns a live
  block or \<open>NULL\<close>; \<open>free\<close> releases a live block, does nothing on
  \<open>NULL\<close>, and is undefined on a block already released or never allocated.
  The operations \<open>main\<close> performs on the heap are a list, run from a heap with
  nothing allocated; which of them happen depends on the outcomes of the three
  \<open>malloc\<close> calls and on how \<open>main_model\<close> ends. A run that exits inside
  \<open>calculateDerivative\<close> (\<open>exit(1)\<close>) releases nothing.
\<close>

datatype block = Equation_Block | Coefficients_Block | Powers_Block

datatype ptr_state = Unallocated | Null_Pointer | Live | Freed

datatype heap_op = Malloc block bool | Free block

type_synonym heap = "block \<Rightarrow> ptr_state"

fun heap_apply :: "heap \<Rightarrow> heap_op \<Rightarrow> heap option" where
  "heap_apply H (Malloc b ok) =
     (if H b = Unallocated then Some (H(b := (if ok then Live else Null_Pointer))) else None)"
| "heap_apply H (Free b) =
     (case H b of Null_Pointer \<Rightarrow> Some H | Live \<Rightarrow> Some (H(b := Freed)) | _ \<Rightarrow> None)"

fun heap_run :: "heap \<Rightarrow> heap_op list \<Rightarrow> heap option" where
  "heap_run H [] = Some H"
| "heap_run H (op # ops) = (case heap_apply H op of None \<Rightarrow> None | Some H' \<Rightarrow> heap_run H' ops)"

text \<open>
  Lines 30--53: the struct is allocated and \<open>main\<close> returns if that fails;
  both buffers are requested before either is checked, and if one of them is
  \<open>NULL\<close> only the struct is released before the return.
\<close>

definition main_alloc_ops :: "bool \<Rightarrow> bool \<Rightarrow> bool \<Rightarrow> heap_op list" where
  "main_alloc_ops eq_ok coef_ok pow_ok =
     (if eq_ok then
        [Malloc Equation_Block True, Malloc Coefficients_Block coef_ok, Malloc Powers_Block pow_ok]
        @ (if coef_ok \<and> pow_ok then [] else [Free Equation_Block])
      else [Malloc Equation_Block False])"

text \<open>Lines 90--92, reached only when the run returns normally.\<close>

definition main_free_ops :: "heap_op list" where
  "main_free_ops = [Free Coefficients_Block, Free Powers_Block, Free Equation_Block]"

definition main_heap_ops :: "'f fops \<Rightarrow> bool \<Rightarrow> bool \<Rightarrow> bool \<Rightarrow> 'f main_input \<Rightarrow> heap_op list" where
  "main_heap_ops F eq_ok coef_ok pow_ok inp =
     main_alloc_ops eq_ok coef_ok pow_ok @
     (if out_status (main_model F eq_ok (\<lambda>_. coef_ok \<and> pow_ok) inp) = Exit_Success
      then main_free_ops else [])"

section \<open>Lemmas\<close>

lemma heap_run_append:
  "heap_run H (ops @ ops') = (case heap_run H ops of None \<Rightarrow> None | Some H' \<Rightarrow> heap_run H' ops')"
  by (induction H ops rule: heap_run.induct) (auto split: option.split)

section \<open>Properties\<close>

text \<open>
  C33 (safety). On every path \<open>main\<close> frees no block twice and no block it
  did not allocate. When it returns normally every block is released; when it
  exits inside \<open>calculateDerivative\<close> (or the cast is undefined) all three
  are still allocated at exit; when one term buffer fails the other one, if it
  was allocated, is never released (the leak of lines 49--53); when the struct
  fails nothing was allocated.
\<close>

theorem main_heap_safe:
  "\<exists>H. heap_run (\<lambda>_. Unallocated) (main_heap_ops F eq_ok coef_ok pow_ok inp) = Some H \<and>
       {b. H b = Live} =
         (if out_status (main_model F eq_ok (\<lambda>_. coef_ok \<and> pow_ok) inp) = Exit_Success then {}
          else if eq_ok \<and> coef_ok \<and> pow_ok then {Equation_Block, Coefficients_Block, Powers_Block}
          else if eq_ok then {b. b = Coefficients_Block \<and> coef_ok} \<union> {b. b = Powers_Block \<and> pow_ok}
          else {})"
proof (cases "eq_ok \<and> coef_ok \<and> pow_ok")
  case True
  then show ?thesis
    by (cases "out_status (main_model F eq_ok (\<lambda>_. coef_ok \<and> pow_ok) inp) = Exit_Success")
       (auto simp: main_heap_ops_def main_alloc_ops_def main_free_ops_def heap_run_append)
next
  case False
  then show ?thesis
    by (cases eq_ok; cases coef_ok; cases pow_ok)
       (auto simp: main_heap_ops_def main_alloc_ops_def main_model_def heap_run_append)
qed

end
