(* ===== verification/Spec2Isabelle.thy ===== *)
theory Spec2Isabelle
  imports RK4_Exact Driver Special_Values Print_Equation RK4_Machine Main_IO Allocation IEEE_Ops Float_Closed_Form Float_Count Float_Gx Main_Heap
begin

text \<open>
  \<^bold>\<open>A verification development of \<open>src/runge.c\<close>\<close>: a solver for
  \<open>a * y' + b * y = g(x)\<close>, \<open>g(x) = \<Sum> c\<^sub>i * x ^ p\<^sub>i\<close>, by the classical
  fourth-order Runge-Kutta method with a fixed step.

  \<^bold>\<open>The program.\<close> \<open>main\<close> reads the equation into the struct
  \<open>EQUATION\<close> (two heap buffers for the terms), reads \<open>x0\<close>, \<open>y0\<close>, \<open>h\<close>,
  the target and a reference value, calls \<open>rungeKutta\<close> and prints the result
  and \<open>printAbsoluteError\<close>. \<open>rungeKutta\<close> signs the step toward the target,
  truncates \<open>(x_target - x0) / h\<close> to the \<open>int\<close> iteration count, and loops,
  printing \<open>f(x)=y\<close> before each step; each step calls \<open>calculateDerivative\<close>
  four times, which calls \<open>calculate_gx\<close> and exits the process when the
  coefficient of \<open>y'\<close> is zero. The equation is read-only after \<open>main\<close> fills
  it; the only state the integrator changes is \<open>(current_x, y)\<close>.

  \<^bold>\<open>The theories.\<close>
  \<^item> \<open>Prelude\<close>: the error values (\<open>rk_error\<close>: the exit on a zero
    coefficient, the undefined cast of the iteration count, an out-of-bounds read
    of a term buffer), \<open>ebind\<close> threading them, C's truncating conversion to a
    32-bit \<open>int\<close> (\<open>real_to_int32\<close>), shared list lemmas.
  \<^item> \<open>Float_Ops\<close>: the interface between the program and its arithmetic. Every
    floating-point operation the code performs is a field of the record
    \<open>'f fops\<close>, at the precision C gives it: \<open>f_\<close> fields are \<open>float\<close>
    operations, \<open>d_\<close> fields \<open>double\<close> ones (the literals \<open>0.5\<close> and
    \<open>1.0 / 6.0\<close>, \<open>pow\<close>), \<open>to_float\<close> the conversion on assignment or
    argument passing; \<open>exact_ops\<close> instantiates it with exact real arithmetic.
  \<^item> \<open>Equation_Model\<close>: the record \<open>equation\<close> (struct \<open>EQUATION\<close>,
    lines 5--12), \<open>gx_loop\<close>/\<open>calculate_gx\<close> (lines 147--156, the for-loop with
    a checked read of index \<open>i\<close>), \<open>calculateDerivative\<close> (lines 108--115);
    the well-formedness \<open>wf_equation\<close> that \<open>main\<close> establishes; the abstract
    \<open>gx_real\<close> and \<open>ode_rhs\<close>.
  \<^item> \<open>RK4_Integrator\<close>: \<open>rk4_scheme\<close>/\<open>rk4_step\<close> (lines 135--141),
    \<open>rk_loop\<close> (lines 131--142, the printed trace as the first component of
    the result), \<open>step_size\<close> (lines 124--127), \<open>iteration_count\<close> (line
    129), \<open>rungeKutta\<close> (lines 117--145). Its theorems hold for every
    floating-point semantics \<open>F\<close>.
  \<^item> \<open>RK4_Exact\<close>: the abstract specification \<open>rk4_textbook\<close> (the classical
    RK4 map for a slope function) and the refinement of \<open>rungeKutta\<close> to it in
    exact arithmetic, with the numerical consequences.
  \<^item> \<open>Driver\<close>: \<open>main\<close> (lines 24--95) as \<open>main_model\<close>, a function from
    the values \<open>scanf\<close> stores (\<open>main_input\<close>) and the outcomes of the
    \<open>malloc\<close> calls to the printed trace, result and absolute error
    (\<open>absolute_error\<close>, \<open>printAbsoluteError\<close> lines 158--161) and the exit
    status; \<open>read_equation\<close> is the filling of the struct (lines 39--62).
  \<^item> \<open>Special_Values\<close>: non-finite values. The instance \<open>xops\<close> over
    \<open>xreal\<close> (the reals and one non-finite value for NaN and the infinities)
    gives C's results for a division by zero and a pole of \<open>pow\<close>.
  \<^item> \<open>Print_Equation\<close>: \<open>printEquation\<close> (lines 97--106) as the string it
    prints, with \<open>%d\<close> as the decimal rendering \<open>show_int\<close> and \<open>%lf\<close> a
    parameter.
  \<^item> \<open>RK4_Machine\<close>: the loop of \<open>rungeKutta\<close> (lines 119--144) as a
    small-step machine: the record \<open>rk_state\<close> of its locals \<open>i\<close>,
    \<open>current_x\<close>, \<open>y\<close>, the trace printed so far and a phase (running, left
    the loop, exited), the initial state \<open>rk_init\<close>, and the inductive step
    relation \<open>rk_machine_step\<close>, one rule per way through the loop body.
  \<^item> \<open>Main_IO\<close>: \<open>main\<close> as the transcript of its calls, \<open>main_io\<close>: the
    events \<open>Stdout\<close>, \<open>Stderr\<close>, \<open>Perror\<close> and the reads \<open>Scan_int\<close>,
    \<open>Scan_float\<close>, in program order, built from \<open>header_io\<close> (lines
    36--44), \<open>read_terms_io\<close> (56--62), the echo by \<open>printEquation\<close> (64--65),
    \<open>read_problem_io\<close> (67--82), \<open>rungeKutta_io\<close> (129--142, with the
    message of \<open>calculateDerivative\<close>, 110--112) and \<open>result_io\<close> (85--88,
    \<open>printAbsoluteError\<close>); \<open>parse_input\<close> decodes the reads.
  \<^item> \<open>Allocation\<close>: the size of the term-buffer requests (lines 46--47) as a
    64-bit \<open>size_t\<close>, \<open>term_buffer_bytes\<close>, and \<open>malloc\<close> as a predicate
    on the request (\<open>buffers_alloc_of\<close>), bounded like glibc's by
    \<open>PTRDIFF_MAX\<close> (\<open>malloc_bounded\<close>).
  \<^item> \<open>IEEE_Ops\<close>: the instance \<open>ieee_ops\<close> of IEEE binary32 and binary64
    arithmetic (\<open>round_fmt\<close>: round to nearest, ties to even, with subnormals;
    \<open>round32\<close>, \<open>round64\<close>: overflow to an infinity), \<open>scanf_float\<close>, the
    error bound of a rounding and of \<open>current_x\<close>'s accumulation.
  \<^item> \<open>Float_Closed_Form\<close>: the specification's closed-form check run through
    \<open>main_model\<close> over \<open>ieee_ops\<close>. Every rounding of one RK4 step on
    \<open>y' + y = 0\<close> with \<open>h = 0.01f\<close> is a stage \<open>|v - c Y| \<le> e Y\<close>
    relative to the value \<open>Y\<close> before the step (\<open>round32_stage\<close>,
    \<open>round64_stage\<close>, \<open>slope_stage\<close>, \<open>mid_stage\<close>, \<open>combine_stage\<close>);
    \<open>decay_step\<close> bounds a step against the exact RK4 factor and
    \<open>decay_iterate\<close> the 100 steps.
  \<^item> \<open>Float_Count\<close>: the iteration count (line 129) in IEEE \<open>float\<close>
    arithmetic against the count of the same values in exact arithmetic
    (\<open>float_quotient_close\<close>: one rounding of the span and one of the
    quotient keep the truncated value within \<open>1/2\<close>).
  \<^item> \<open>Main_Heap\<close>: the heap blocks of \<open>main\<close> (the struct and the two term
    buffers, lines 30--53 and 90--92): \<open>heap_apply\<close> gives \<open>malloc\<close> and
    \<open>free\<close> their C meaning (\<open>free(NULL)\<close> does nothing, a second
    \<open>free\<close> is undefined), \<open>main_heap_ops\<close> lists the operations \<open>main\<close>
    performs, composed with \<open>main_model\<close>'s outcome.
  \<^item> \<open>Float_Gx\<close>: \<open>calculate_gx\<close> over \<open>ieee_ops\<close>; the error one term of
    the loop adds (\<open>gx_term_error\<close>) and its sum over the loop
    (\<open>gx_fold_error\<close>); \<open>float_equation\<close> reads a real equation's
    coefficients as \<open>float\<close> values.
  \<^item> this theory: properties of the whole program as the specification states
    them.

  \<^bold>\<open>What is proved.\<close> For any arithmetic: the term loop equals a fold and
  is bounds-safe exactly when the count fits the buffers (C9, C11); a run prints
  one line per iteration, starting at \<open>(x0, y0)\<close> (C2); a non-positive count
  is a no-op even for a zero coefficient of \<open>y'\<close> (C5); a zero coefficient with
  iterations due prints one line and exits (C4). In exact arithmetic: the
  derivative solves the equation for \<open>y'\<close> (C10); a run is the iterate of
  textbook RK4 (C1); its iteration count is \<open>\<lfloor>|x_target - x0| / h\<rfloor>\<close> for
  \<open>h > 0\<close> and zero for \<open>h < 0\<close> (C3, C12); it never passes the target and moves
  toward it (C6); on the homogeneous equation it multiplies by the RK4 stability
  polynomial per step (C8); for \<open>b = 0\<close> and cubic \<open>g\<close> it is exact (C7), and on the decay
  equation its global error is at most \<open>|y0| n q\<^sup>5 / 40\<close>, \<open>q = step b / a\<close> (C15). For \<open>main\<close>: its exit
  status is classified for any arithmetic (C13), and in exact arithmetic it
  prints the RK4 value and its absolute error (C14). With non-finite values: a zero step size is undefined behaviour before anything is
  printed (C16). The printed equation joins its terms with one separator
  between neighbours (C18) and its header parses back to the coefficients (C17).
  The loop as a machine: its invariant (C19), that it has no infinite run (C20) and reaches a final state within
  \<open>n + 1\<close> steps (C21), that \<open>current_x\<close> is \<open>h\<close> added \<open>i\<close> times in
  the program's arithmetic (C22), and that \<open>i++\<close> never overflows (C23).
  The transcript of \<open>main\<close>: every read follows a prompt (C24), the reads
  decode back to the input (C25), and with a zero coefficient the error follows
  the first trace line (C26). The term-buffer request is exactly \<open>4 * count\<close>
  bytes for a valid count (C27), and a negative count wraps to a request that a
  bounded \<open>malloc\<close> refuses, ending in the allocation-failure exit (C28).
  In IEEE \<open>float\<close> arithmetic: the trace points drift from \<open>x0 + i s\<close> by at
  most \<open>((1 + 2\<^sup>-\<^sup>2\<^sup>4)\<^sup>i - 1) (B + 2\<^sup>-\<^sup>1\<^sup>2\<^sup>6)\<close> (C29); the
  specification's closed-form check holds for the compiled program: \<open>main\<close>
  on \<open>y' + y = 0\<close>, \<open>h = 0.01\<close>, \<open>x0 = 0\<close> to \<open>1\<close>, prints a value
  within \<open>10\<^sup>-\<^sup>5\<close> of \<open>e\<^sup>-\<^sup>1\<close> (the specification asks for
  \<open>10\<^sup>-\<^sup>4\<close>) and, against the reference \<open>0.367879\<close>, an absolute
  error below \<open>10\<^sup>-\<^sup>4\<close> (C30); and the \<open>float\<close> count
  is within one of the exact count of the same inputs, either side occurring
  (C31); and
  \<open>calculate_gx\<close> with \<open>m\<close> terms is within \<open>m (A 2\<^sup>-\<^sup>2\<^sup>2 + 2\<^sup>-\<^sup>4\<^sup>0)\<close>
  of \<open>g(t)\<close> when \<open>A\<close> bounds the sum of the terms' magnitudes (C32).
  On its heap, \<open>main\<close> never frees a block twice, releases everything when
  it returns normally, and leaks the term buffer that was allocated when the
  other one fails (C33).

  \<^bold>\<open>Bounds and termination.\<close> Both loops are \<^theory_text>\<open>function\<close>s with a
  measure: \<open>gx_term_count - i\<close> and \<open>n - i\<close> on \<open>int\<close>, as the C loops count;
  no fuel is needed since the iteration counts are fixed before the loops start.
  The count is an \<open>int\<close> only when the truncated quotient is within the 32-bit
  range; outside it (and for a non-finite quotient) the model returns
  \<open>IterationCountUndefined\<close>. The machine of \<open>RK4_Machine\<close> is a relation,
  and its termination is proved as such: every step decreases
  \<open>2 (n - i) + 1\<close> in a running state. Sizes are 64-bit words: \<open>size_t\<close>
  on LP64, where \<open>sizeof(float) = sizeof(int) = 4\<close>.

  \<^bold>\<open>Not modelled.\<close> Of IEEE arithmetic (\<open>ieee_ops\<close>): the sign of zero
  and of an infinity, the difference between NaN and an infinity in a comparison,
  and the last bit of libm's \<open>pow\<close>, taken correctly rounded. The exact
  instance differs from C at a division by zero and at \<open>pow(0, p)\<close>,
  \<open>p < 0\<close>, where C gives a non-finite value. Also not modelled: the bytes of \<open>stdin\<close> and what a failed \<open>scanf\<close>
  leaves (the model takes each stored value as an arbitrary input, which covers
  the indeterminate value a failed read leaves); the text of the \<open>%f\<close>/\<open>%lf\<close>
  conversions (a parameter \<open>fmt\<close>); the order in which buffered \<open>stdout\<close>
  and unbuffered \<open>stderr\<close> bytes reach a terminal; the addresses
  \<open>malloc\<close> returns and the contents of the blocks, which \<open>Main_Heap\<close>
  replaces by one state per block (the values stored in them are the fields
  of \<open>main_model\<close>'s equation).

  The float error analysis of C30 keeps \<open>y\<close> in \<open>[1/4, 1]\<close>, which the
  100 steps of that run do (the exact factor stays above \<open>e\<^sup>-\<^sup>1 - 10\<^sup>-\<^sup>8\<close>);
  it is not a bound for other equations or step sizes.

  \<^bold>\<open>Open.\<close> The float error of a whole step of a general linear
  equation (composing C32 with the stage lemmas of \<open>Float_Closed_Form\<close>) is
  not proved: a bound valid for every coefficient needs a range for each
  intermediate value that the source does not fix, so the development states
  the error only for the run of C30.
\<close>

section \<open>Properties of the solver as the specification states them\<close>

text \<open>
  C3 (functional). In exact arithmetic, on a well-formed equation with a
  non-zero coefficient of \<open>y'\<close> and a non-zero step size, the integrator
  prints one trace line per iteration and performs
  \<open>\<lfloor>|x_target - x0| / h\<rfloor>\<close> iterations when \<open>h > 0\<close>, dropping the
  remainder (no final partial step), and none at all when \<open>h < 0\<close>. (A zero
  step size is undefined behaviour in C, C16; the exact instance's
  \<open>x / 0 = 0\<close> does not model it.)
\<close>

theorem solve_iteration_count:
  assumes "wf_equation eq" "y_prime_coefficient eq \<noteq> 0" "h \<noteq> 0"
    and "iteration_count exact_ops x0 x_target h = Some n"
  shows "length (fst (rungeKutta exact_ops x0 y0 x_target h eq)) =
           (if 0 < h then nat \<lfloor>\<bar>x_target - x0\<bar> / h\<rfloor> else 0)"
  using rungeKutta_iterate [OF assms(1,2,4), of y0] iteration_count_exact [OF assms(4)]
  by (simp add: Let_def)

theorem solve_iteration_count_witness:
  "(3/10 :: real) \<noteq> 0 \<and> wf_equation \<lparr>y_coefficient = 1, y_prime_coefficient = 1, gx_term_count = 0,
                 gx_coefficients = [] :: real list, gx_powers = []\<rparr> \<and>
   iteration_count exact_ops 0 1 (3/10) = Some 3 \<and>
   length (fst (rungeKutta exact_ops 0 1 1 (3/10) \<lparr>y_coefficient = 1, y_prime_coefficient = 1,
      gx_term_count = 0, gx_coefficients = [] :: real list, gx_powers = []\<rparr>)) = 3"
proof -
  have wf: "wf_equation \<lparr>y_coefficient = 1, y_prime_coefficient = 1, gx_term_count = 0,
                 gx_coefficients = [] :: real list, gx_powers = []\<rparr>"
    by (simp add: wf_equation_def)
  have n: "iteration_count exact_ops 0 1 (3/10 :: real) = Some 3"
    by (simp add: iteration_count_def step_size_def real_to_int32_def trunc_toward_zero_def
                  in_int32_def int32_min_def int32_max_def)
  have "\<lfloor>(10 / 3 :: real)\<rfloor> = 3" by (simp add: floor_divide_of_int_eq)
  then show ?thesis
    using solve_iteration_count [OF wf _ _ n, of 1] wf n by simp
qed

text \<open>
  C12 (functional). In exact arithmetic a negative step size makes the solver a
  no-op in either direction: with \<open>x_target \<ge> x0\<close> the step stays negative,
  with \<open>x_target < x0\<close> it is negated to a positive one, and in both cases
  the truncated count is not positive, so no trace line is printed and \<open>y0\<close>
  is returned.
\<close>

theorem solve_negative_step_is_noop:
  assumes "h < 0" "iteration_count exact_ops x0 x_target h = Some n"
  shows "rungeKutta exact_ops x0 y0 x_target h eq = ([], Inr y0)"
proof -
  from assms have "n \<le> 0"
    using iteration_count_exact [OF assms(2)] by simp
  with assms(2) show ?thesis by (simp add: rungeKutta_def rk_loop_stop)
qed

theorem solve_negative_step_is_noop_witness:
  "(-1/10 :: real) < 0 \<and> iteration_count exact_ops 1 0 (-1/10) = Some (-10) \<and>
   step_size exact_ops 1 0 (-1/10 :: real) = 1/10 \<and>
   rungeKutta exact_ops 1 2 0 (-1/10) \<lparr>y_coefficient = 1, y_prime_coefficient = 1,
      gx_term_count = 0, gx_coefficients = [] :: real list, gx_powers = []\<rparr> = ([], Inr 2)"
proof -
  have n: "iteration_count exact_ops 1 0 (-1/10 :: real) = Some (-10)"
    by (simp add: iteration_count_def step_size_def real_to_int32_def trunc_toward_zero_def
                  in_int32_def int32_min_def int32_max_def)
  show ?thesis
    using solve_negative_step_is_noop [OF _ n, of 2] n by (simp add: step_size_def)
qed

text \<open>
  C14 (refinement). End to end: for input that \<open>scanf\<close> delivers in full,
  allocations that succeed, a non-zero coefficient of \<open>y'\<close> and a defined
  iteration count, \<open>main\<close> in exact arithmetic prints the RK4 trace, prints
  the \<open>y\<close> of the \<open>n\<close>-th iterate of the textbook RK4 map from \<open>(x0, y0)\<close>
  and the absolute error \<open>|trueValue - y|\<close>, and exits successfully.
\<close>

theorem main_prints_rk4_result:
  assumes "wf_input inp" "0 \<le> in_term_count inp" "buffers_alloc (in_term_count inp)"
    and "in_y_prime_coefficient inp \<noteq> 0"
    and "iteration_count exact_ops (in_x0 inp) (in_x_target inp) (in_h inp) = Some n"
  shows "let s = rk4_textbook (ode_rhs (read_equation inp))
                   (step_size exact_ops (in_x0 inp) (in_x_target inp) (in_h inp));
             y = snd ((s ^^ nat n) (in_x0 inp, in_y0 inp))
         in main_model exact_ops True buffers_alloc inp =
              \<lparr>out_trace = map (\<lambda>k. (s ^^ k) (in_x0 inp, in_y0 inp)) [0..<nat n],
               out_result = Some y, out_abs_error = Some \<bar>in_true_value inp - y\<bar>,
               out_status = Exit_Success\<rparr>"
proof -
  have wf: "wf_equation (read_equation inp)" using assms(1,2) by (rule read_equation_wf)
  have a: "y_prime_coefficient (read_equation inp) \<noteq> 0"
    using assms(4) by (simp add: read_equation_def)
  show ?thesis
    using rungeKutta_iterate [OF wf a assms(5), of "in_y0 inp"] assms(3)
    by (simp add: rk4_update_exact [OF wf a] main_model_def absolute_error_def Let_def)
qed

theorem main_prints_rk4_result_witness:
  "wf_input \<lparr>in_y_prime_coefficient = 1, in_y_coefficient = 1, in_term_count = 0,
      in_terms = [] :: (real \<times> int) list,
      in_x0 = 0, in_y0 = 1, in_h = 1/2, in_x_target = 1, in_true_value = 1/3\<rparr> \<and>
   iteration_count exact_ops 0 1 (1/2) = Some 2 \<and>
   main_model exact_ops True (\<lambda>_. True) \<lparr>in_y_prime_coefficient = 1, in_y_coefficient = 1, in_term_count = 0,
      in_terms = [] :: (real \<times> int) list,
      in_x0 = 0, in_y0 = 1, in_h = 1/2, in_x_target = 1, in_true_value = 1/3\<rparr> =
     \<lparr>out_trace = [(0, 1), (1/2, 233/384)], out_result = Some ((233/384)^2),
      out_abs_error = Some \<bar>1/3 - (233/384)^2\<bar>, out_status = Exit_Success\<rparr>"
proof -
  let ?inp = "\<lparr>in_y_prime_coefficient = 1, in_y_coefficient = 1, in_term_count = 0,
          in_terms = [] :: (real \<times> int) list,
          in_x0 = 0, in_y0 = 1, in_h = 1/2, in_x_target = 1, in_true_value = 1/3\<rparr>"
  have wf: "wf_input ?inp" by (simp add: wf_input_def)
  have n: "iteration_count exact_ops (in_x0 ?inp) (in_x_target ?inp) (in_h ?inp) = Some 2"
    by (simp add: iteration_count_def step_size_def real_to_int32_def trunc_toward_zero_def
                  in_int32_def int32_min_def int32_max_def)
  show ?thesis
    using main_prints_rk4_result [OF wf _ _ _ n, of "\<lambda>_. True"] wf n
    by (simp add: step_size_def rk4_textbook_def ode_rhs_def gx_real_def read_equation_def
                  eval_nat_numeral Let_def)
qed

end
